theory Spec2Isabelle
  imports Complex_Main
begin

section \<open>JavaScript primitives used by the sources\<close>

text \<open>
  A JavaScript number is a real (an integer where the code only ever produces integers,
  as after \<open>parseInt\<close> and \<open>Math.round\<close>). A value that is \<open>NaN\<close> or \<open>undefined\<close>
  where a number is read is \<open>None\<close>: every comparison with it is false and arithmetic
  on it gives \<open>None\<close> again. Strings are lists of 8-bit characters, so the telemetry
  strings are taken to be ASCII.

  The arithmetic of \<open>analyzeDistribution\<close> is the arithmetic of IEEE 754 doubles: each
  operation there gives the double nearest to the exact result, \<open>fl\<close> below, with ties
  going to the even significand. \<open>fl\<close> has the 53-bit significand of a double and an
  unbounded exponent, so it is the rounding of a double operation as long as the exact
  result is 0 or has a magnitude between \<open>2 ^ - 1022\<close> and the largest double;
  overflow to \<open>Infinity\<close> and the subnormal range are left out. \<open>calcStats\<close>, the
  geometry of \<open>analyzeTrajectory\<close> and the confidence formula are computed on exact
  reals.
\<close>

type_synonym num = "real option"

definition Math_round :: "real \<Rightarrow> int" where
  "Math_round v = \<lfloor>v + 1 / 2\<rfloor>"

definition roundEven :: "real \<Rightarrow> int" where
  \<comment> \<open>the nearest integer, the even one of the two when \<open>y\<close> is half-way\<close>
  "roundEven y =
     (let f = \<lfloor>y\<rfloor>
      in if y - of_int f < 1 / 2 then f
         else if 1 / 2 < y - of_int f then f + 1
         else if even f then f else f + 1)"

definition fl :: "real \<Rightarrow> real" where
  \<comment> \<open>the double nearest to \<open>x\<close>: with \<open>2 ^ 52 \<le> \<bar>x\<bar> / 2 ^ e < 2 ^ 53\<close>, the quotient is
      rounded to an integer significand\<close>
  "fl x =
     (if x = 0 then 0
      else
        (let e = \<lfloor>log 2 \<bar>x\<bar>\<rfloor> - 52
         in of_int (roundEven (x / 2 powr of_int e)) * 2 powr of_int e))"

definition round2 :: "real \<Rightarrow> real" where
  \<comment> \<open>\<open>Math.round(v * 100) / 100\<close>\<close>
  "round2 v = real_of_int (Math_round (v * 100)) / 100"

definition reduce :: "('b \<Rightarrow> 'a \<Rightarrow> 'b) \<Rightarrow> 'b \<Rightarrow> 'a list \<Rightarrow> 'b" where
  \<comment> \<open>\<open>arr.reduce(f, init)\<close>\<close>
  "reduce f init arr = foldl f init arr"

definition orZero :: "int option \<Rightarrow> int" where
  \<comment> \<open>\<open>v || 0\<close> on a number that may be absent or \<open>NaN\<close>\<close>
  "orZero v = (case v of None \<Rightarrow> 0 | Some n \<Rightarrow> n)"

definition orElse :: "int option \<Rightarrow> int option \<Rightarrow> int option" where
  \<comment> \<open>\<open>a || b\<close> on numbers: \<open>a\<close> when it is present and not zero\<close>
  "orElse a b = (case a of None \<Rightarrow> b | Some n \<Rightarrow> if n = 0 then b else Some n)"

definition gtZero :: "int option \<Rightarrow> bool" where
  \<comment> \<open>\<open>v > 0\<close>, false on an absent value\<close>
  "gtZero v = (case v of None \<Rightarrow> False | Some n \<Rightarrow> 0 < n)"

fun split_str :: "char \<Rightarrow> string \<Rightarrow> string list" where
  "split_str c [] = [[]]"
| "split_str c (a # as) =
     (if a = c then [] # split_str c as
      else (case split_str c as of [] \<Rightarrow> [[a]] | seg # segs \<Rightarrow> (a # seg) # segs))"

definition at_index :: "'a list \<Rightarrow> nat \<Rightarrow> 'a option" where
  \<comment> \<open>\<open>arr[i]\<close>, \<open>undefined\<close> out of range\<close>
  "at_index arr i = (if i < length arr then Some (arr ! i) else None)"

definition isWhiteSpace :: "char \<Rightarrow> bool" where
  \<comment> \<open>the ASCII characters among the white space that \<open>parseInt\<close> skips\<close>
  "isWhiteSpace c = (of_char c \<in> {9, 10, 11, 12, 13, 32 :: nat})"

definition digitValue :: "char \<Rightarrow> nat option" where
  "digitValue c =
     (let k = (of_char c :: nat) in
      if 48 \<le> k \<and> k \<le> 57 then Some (k - 48)
      else if 97 \<le> k \<and> k \<le> 102 then Some (k - 87)
      else if 65 \<le> k \<and> k \<le> 70 then Some (k - 55)
      else None)"

definition isDigitOf :: "nat \<Rightarrow> char \<Rightarrow> bool" where
  "isDigitOf radix c = (case digitValue c of None \<Rightarrow> False | Some d \<Rightarrow> d < radix)"

definition digitsValue :: "nat \<Rightarrow> string \<Rightarrow> nat" where
  "digitsValue radix ds = foldl (\<lambda>acc c. acc * radix + (case digitValue c of None \<Rightarrow> 0 | Some d \<Rightarrow> d)) 0 ds"

definition parseInt :: "string option \<Rightarrow> int option" where
  \<comment> \<open>\<open>parseInt(s)\<close> with no radix; \<open>None\<close> is \<open>NaN\<close>, also for \<open>undefined\<close>\<close>
  "parseInt str =
     (case str of
        None \<Rightarrow> None
      | Some s \<Rightarrow>
          (let s1 = dropWhile isWhiteSpace s;
               neg = (s1 \<noteq> [] \<and> hd s1 = CHR ''-'');
               s2 = (if s1 \<noteq> [] \<and> (hd s1 = CHR ''-'' \<or> hd s1 = CHR ''+'') then tl s1 else s1);
               hex = (take 2 s2 = ''0x'' \<or> take 2 s2 = ''0X'');
               radix = (if hex then 16 else 10);
               s3 = (if hex then drop 2 s2 else s2);
               ds = takeWhile (isDigitOf radix) s3
           in if ds = [] then None
              else Some ((if neg then - 1 else 1) * int (digitsValue radix ds))))"

section \<open>TypingParser\<close>

subsection \<open>parsePattern and calcStats\<close>

record keystroke =
  kSeekTime :: int
  kPressTime :: int

record stats =
  avg :: int
  min_of :: int
  max_of :: int
  std :: int
  range_of :: int

record raw_times =
  seekTimes :: "int list"
  pressTimes :: "int list"

record pattern =
  keystrokeCount :: nat
  seekTime :: stats
  pressTime :: stats
  longPauses :: nat
  keystrokes :: "keystroke list"
  raw :: raw_times

definition calcStats :: "int list \<Rightarrow> stats" where
  "calcStats arr =
     (if arr = [] then \<lparr>avg = 0, min_of = 0, max_of = 0, std = 0, range_of = 0\<rparr>
      else
        (let n = real (length arr);
             mean = reduce (\<lambda>a b. a + real_of_int b) 0 arr / n;
             mn = Min (set arr);
             mx = Max (set arr);
             sd = (if length arr > 1
                   then sqrt (reduce (\<lambda>sum t. sum + (real_of_int t - mean)\<^sup>2) 0 arr / n)
                   else 0)
         in \<lparr>avg = Math_round mean, min_of = mn, max_of = mx, std = Math_round sd,
             range_of = mx - mn\<rparr>))"

definition parseKeystroke :: "string \<Rightarrow> keystroke" where
  "parseKeystroke seg =
     (let parts = split_str CHR '','' seg
      in \<lparr>kSeekTime = orZero (parseInt (at_index parts 0)),
          kPressTime = orZero (parseInt (at_index parts 1))\<rparr>)"

definition parsePattern :: "string option \<Rightarrow> pattern option" where
  "parsePattern patternStr =
     (case patternStr of
        None \<Rightarrow> None
      | Some s \<Rightarrow>
          if s = [] then None
          else
            (let segments = split_str CHR ''|'' s
             in if length segments < 2 then None
                else
                  (let ks = map parseKeystroke (drop 1 segments);
                       sts = filter (\<lambda>t. t > 0) (map kSeekTime ks);
                       pts = filter (\<lambda>t. t > 0) (map kPressTime ks)
                   in Some \<lparr>keystrokeCount = length ks,
                            seekTime = calcStats sts,
                            pressTime = calcStats pts,
                            longPauses = length (filter (\<lambda>t. t > 500) sts),
                            keystrokes = ks,
                            raw = \<lparr>seekTimes = sts, pressTimes = pts\<rparr>\<rparr>)))"

subsection \<open>Double arithmetic on numbers that may be NaN\<close>

text \<open>
  The operators \<open>+\<close>, \<open>-\<close>, \<open>/\<close>, \<open>*\<close> and \<open>Math.sqrt\<close> on doubles give the double
  nearest to the exact result; \<open>Math.pow\<close> is taken to do the same. The operands are
  doubles already: the elements of the array are JavaScript numbers.
\<close>

definition nadd :: "num \<Rightarrow> num \<Rightarrow> num" where
  "nadd a b =
     (case a of None \<Rightarrow> None | Some u \<Rightarrow> (case b of None \<Rightarrow> None | Some v \<Rightarrow> Some (fl (u + v))))"

definition nsub :: "num \<Rightarrow> num \<Rightarrow> num" where
  "nsub a b =
     (case a of None \<Rightarrow> None | Some u \<Rightarrow> (case b of None \<Rightarrow> None | Some v \<Rightarrow> Some (fl (u - v))))"

definition ndiv :: "num \<Rightarrow> num \<Rightarrow> num" where
  \<comment> \<open>no call site below divides by zero: the divisors are a length of at least 4, a
      standard deviation already tested against 0, and a mean tested positive\<close>
  "ndiv a b =
     (case a of None \<Rightarrow> None | Some u \<Rightarrow> (case b of None \<Rightarrow> None | Some v \<Rightarrow> Some (fl (u / v))))"

definition npow :: "num \<Rightarrow> nat \<Rightarrow> num" where
  \<comment> \<open>\<open>Math.pow(a, k)\<close>\<close>
  "npow a k = map_option (\<lambda>u. fl (u ^ k)) a"

definition nsqrt :: "num \<Rightarrow> num" where
  "nsqrt a = (case a of None \<Rightarrow> None | Some u \<Rightarrow> if u < 0 then None else Some (fl (sqrt u)))"

definition nabs :: "num \<Rightarrow> num" where
  "nabs a = map_option abs a"

definition nlt :: "num \<Rightarrow> num \<Rightarrow> bool" where
  "nlt a b = (case a of None \<Rightarrow> False | Some u \<Rightarrow> (case b of None \<Rightarrow> False | Some v \<Rightarrow> u < v))"

definition ngt :: "num \<Rightarrow> num \<Rightarrow> bool" where
  "ngt a b = nlt b a"

definition nround :: "num \<Rightarrow> num" where
  "nround a = map_option (\<lambda>u. real_of_int (Math_round u)) a"

definition nround2 :: "num \<Rightarrow> num" where
  \<comment> \<open>\<open>Math.round(a * 100) / 100\<close>: the product is rounded to a double, \<open>Math.round\<close> is
      exact, and the quotient is kept as the hundredth that the resulting double stands for\<close>
  "nround2 a = map_option (\<lambda>u. real_of_int (Math_round (fl (u * 100))) / 100) a"

definition Math_max :: "num list \<Rightarrow> num" where
  \<comment> \<open>\<open>Math.max(...values)\<close> on a non-empty array: \<open>NaN\<close> as soon as one element is\<close>
  "Math_max values = (if None \<in> set values then None else Some (Max (the ` set values)))"

definition Math_min :: "num list \<Rightarrow> num" where
  "Math_min values = (if None \<in> set values then None else Some (Min (the ` set values)))"

definition isMultipleOf10 :: "num \<Rightarrow> bool" where
  \<comment> \<open>\<open>v % 10 === 0\<close>\<close>
  "isMultipleOf10 a = (case a of None \<Rightarrow> False | Some u \<Rightarrow> frac (u / 10) = 0)"

subsection \<open>analyzeDistribution\<close>

record distribution_values =
  mean :: num
  std_d :: num
  skewness :: num
  kurtosis :: num
  roundNumberRatio :: num
  maxConsecutiveSimilar :: nat
  range_d :: num
  cv :: num

text \<open>
  The three shapes of the object \<open>analyzeDistribution\<close> returns: \<open>{valid: false}\<close>,
  \<open>{valid: true, isUniform: true}\<close> and the full summary. Reading a numeric field of
  the first two gives \<open>undefined\<close>.
\<close>

datatype distribution = Invalid | Uniform | Full distribution_values

definition valid_d :: "distribution \<Rightarrow> bool" where
  "valid_d d = (d \<noteq> Invalid)"

definition isUniform :: "distribution \<Rightarrow> bool" where
  "isUniform d = (d = Uniform)"

definition field_d :: "(distribution_values \<Rightarrow> num) \<Rightarrow> distribution \<Rightarrow> num" where
  \<comment> \<open>\<open>distribution.f\<close> for a numeric field \<open>f\<close>\<close>
  "field_d f d = (case d of Full v \<Rightarrow> f v | _ \<Rightarrow> None)"

definition hasMoments :: "distribution \<Rightarrow> bool" where
  \<comment> \<open>whether the object carries the properties \<open>skewness\<close> and \<open>kurtosis\<close>\<close>
  "hasMoments d = (case d of Full v \<Rightarrow> True | _ \<Rightarrow> False)"

fun similarRun :: "num list \<Rightarrow> nat \<Rightarrow> nat \<Rightarrow> nat" where
  \<comment> \<open>the loop over \<open>i\<close>, at \<open>values[i-1], values[i], ...\<close> with \<open>currentStreak\<close> and
      \<open>maxConsecutiveSimilar\<close>\<close>
  "similarRun (a # b # vs) currentStreak maxSimilar =
     (if nlt (nabs (nsub b a)) (Some 10)
      then similarRun (b # vs) (currentStreak + 1) (max maxSimilar (currentStreak + 1))
      else similarRun (b # vs) 1 maxSimilar)"
| "similarRun vs currentStreak maxSimilar = maxSimilar"

definition analyzeDistribution :: "num list \<Rightarrow> distribution" where
  "analyzeDistribution values =
     (if length values < 4 then Invalid
      else
        (let n = Some (real (length values));
             m = ndiv (reduce nadd (Some 0) values) n;
             variance = ndiv (reduce (\<lambda>sum v. nadd sum (npow (nsub v m) 2)) (Some 0) values) n;
             sd = nsqrt variance
         in if sd = Some 0 then Uniform
            else
              (let sk = ndiv (reduce (\<lambda>sum v. nadd sum (npow (ndiv (nsub v m) sd) 3)) (Some 0) values) n;
                   ku = nsub (ndiv (reduce (\<lambda>sum v. nadd sum (npow (ndiv (nsub v m) sd) 4)) (Some 0) values) n)
                          (Some 3);
                   roundNumbers = length (filter isMultipleOf10 values);
                   ratio = ndiv (Some (real roundNumbers)) n;
                   coeff = (if ngt m (Some 0) then ndiv sd m else Some 0)
               in Full \<lparr>mean = nround m, std_d = nround sd, skewness = nround2 sk,
                         kurtosis = nround2 ku, roundNumberRatio = nround2 ratio,
                         maxConsecutiveSimilar = similarRun values 1 1,
                         range_d = nsub (Math_max values) (Math_min values),
                         cv = nround2 coeff\<rparr>)))"

subsection \<open>analyzeTrajectory\<close>

text \<open>
  A trajectory point \<open>{x, y, t}\<close>; the fields are \<open>px\<close>, \<open>py\<close>, \<open>pt\<close> here, and the
  optional timestamp is \<open>None\<close> when the point has none.
\<close>

record point =
  px :: real
  py :: real
  pt :: num

record trajectory =
  sample :: "point list option"
  captured :: bool
  points_t :: "int option"
  distancePx :: "int option"

record trajectory_analysis =
  valid :: bool
  points :: nat
  distance :: int
  smoothRatio :: num
  correctionRatio :: num
  intervalStats :: "distribution option"

fun totalDistance :: "point list \<Rightarrow> real \<Rightarrow> real" where
  \<comment> \<open>the distance loop, at \<open>points[i-1], points[i], ...\<close> with the running sum\<close>
  "totalDistance (p # q # ps) tot =
     (let dx = px q - px p; dy = py q - py p
      in totalDistance (q # ps) (tot + sqrt (dx * dx + dy * dy)))"
| "totalDistance ps tot = tot"

definition turnAngle :: "point \<Rightarrow> point \<Rightarrow> point \<Rightarrow> real option" where
  \<comment> \<open>the angle the smoothness loop computes at the points \<open>i-2\<close>, \<open>i-1\<close>, \<open>i\<close>;
      \<open>None\<close> when one of the two vectors has no length and the pass does nothing\<close>
  "turnAngle p0 p1 p2 =
     (let v1x = px p1 - px p0; v1y = py p1 - py p0;
          v2x = px p2 - px p1; v2y = py p2 - py p1;
          mag1 = sqrt (v1x * v1x + v1y * v1y);
          mag2 = sqrt (v2x * v2x + v2y * v2y)
      in if mag1 > 0 \<and> mag2 > 0 then
           (let dot = v1x * v2x + v1y * v2y;
                cosAngle = max (- 1) (min 1 (dot / (mag1 * mag2)))
            in Some (arccos cosAngle))
         else None)"

definition turn :: "point \<Rightarrow> point \<Rightarrow> point \<Rightarrow> nat \<times> nat \<Rightarrow> nat \<times> nat" where
  \<comment> \<open>one pass of the smoothness loop, on the counters \<open>(smoothSegments, corrections)\<close>\<close>
  "turn p0 p1 p2 counters =
     (case turnAngle p0 p1 p2 of
        None \<Rightarrow> counters
      | Some angle \<Rightarrow>
          ((if angle < 0.1 then fst counters + 1 else fst counters),
           (if angle > 0.09 \<and> angle < 0.52 then snd counters + 1 else snd counters)))"

fun turns :: "point list \<Rightarrow> nat \<times> nat \<Rightarrow> nat \<times> nat" where
  "turns (p0 # p1 # p2 # ps) counters = turns (p1 # p2 # ps) (turn p0 p1 p2 counters)"
| "turns ps counters = counters"

fun intervalsOf :: "point list \<Rightarrow> num list" where
  "intervalsOf (p # q # ps) = nsub (pt q) (pt p) # intervalsOf (q # ps)"
| "intervalsOf ps = []"

definition truthy :: "num \<Rightarrow> bool" where
  "truthy a = (case a of None \<Rightarrow> False | Some u \<Rightarrow> u \<noteq> 0)"

definition analyzeTrajectoryWith ::
  "(num list \<Rightarrow> distribution) \<Rightarrow> trajectory option \<Rightarrow> trajectory_analysis" where
  \<comment> \<open>\<open>analyzeTrajectory\<close>, with \<open>this.analyzeDistribution\<close> as a parameter\<close>
  "analyzeTrajectoryWith analyzeDist traj =
     (let invalid = \<lparr>valid = False, points = 0, distance = 0, smoothRatio = None,
                      correctionRatio = None, intervalStats = None\<rparr>
      in case traj of
           None \<Rightarrow> invalid
         | Some tr \<Rightarrow>
             (case sample tr of
                None \<Rightarrow> invalid
              | Some pts \<Rightarrow>
                  if length pts < 3 then invalid
                  else
                    (let tot = totalDistance pts 0;
                         counters = turns pts (0, 0);
                         sr = (if length pts > 2 then real (fst counters) / real (length pts - 2) else 0);
                         cr = (if length pts > 2 then real (snd counters) / real (length pts - 2) else 0);
                         ivs = (if length pts > 3 \<and> truthy (pt (pts ! 0))
                                then Some (analyzeDist (intervalsOf pts)) else None)
                     in \<lparr>valid = True, points = length pts, distance = Math_round tot,
                         smoothRatio = Some (round2 sr), correctionRatio = Some (round2 cr),
                         intervalStats = ivs\<rparr>)))"

definition analyzeTrajectory :: "trajectory option \<Rightarrow> trajectory_analysis" where
  "analyzeTrajectory = analyzeTrajectoryWith analyzeDistribution"

section \<open>Numbers in template strings\<close>

definition digitChar :: "nat \<Rightarrow> char" where
  "digitChar d = ''0123456789'' ! d"

fun show_nat :: "nat \<Rightarrow> string" where
  "show_nat n =
     (if n < 10 then [digitChar n]
      else show_nat (n div 10) @ [digitChar (n mod 10)])"

definition show_int :: "int \<Rightarrow> string" where
  "show_int i = (if i < 0 then CHR ''-'' # show_nat (nat (- i)) else show_nat (nat i))"

definition show_num :: "num \<Rightarrow> string" where
  \<comment> \<open>\<open>String(v)\<close> for the numbers printed below, which are integers or were rounded to
      two decimals: the digits after the point without trailing zeros\<close>
  "show_num a =
     (case a of
        None \<Rightarrow> ''NaN''
      | Some v \<Rightarrow>
          (let h = Math_round (v * 100);
               k = nat \<bar>h\<bar>;
               whole = show_nat (k div 100);
               d1 = (k mod 100) div 10;
               d2 = k mod 10;
               decimals = (if k mod 100 = 0 then []
                           else if d2 = 0 then CHR ''.'' # show_nat d1
                           else CHR ''.'' # show_nat d1 @ show_nat d2)
           in (if h < 0 then ''-'' else []) @ whole @ decimals))"

section \<open>AutomationDetector\<close>

subsection \<open>The request and the thresholds\<close>

record typingdna_t =
  lastUserTp :: "string option"
  lastPassTp :: "string option"

record automation_flags =
  hasChromiumAutomation :: bool
  hasSelenium :: bool
  hasPhantom :: bool
  headlessChrome :: bool
  noPlugins :: bool
  zeroWindowSize :: bool

text \<open>The \<open>stats\<close> object of a login; an absent property is \<open>None\<close> (\<open>False\<close> for a flag).\<close>

record login_stats =
  typingdna :: "typingdna_t option"
  usernameToPasswordMs :: "int option"
  passwordToLoginMs :: "int option"
  trajectory :: "trajectory option"
  pasteUser :: "int option"
  pastePass :: "int option"
  imeUser :: "int option"
  imePass :: "int option"
  usernameIMECompositionCount :: "int option"
  passwordIMECompositionCount :: "int option"
  shiftCount :: "int option"
  capsLockCount :: "int option"
  passwordShiftCount :: "int option"
  passwordCapsLockCount :: "int option"
  password :: "string option"
  webdriverDetected :: bool
  automationFlags :: "automation_flags option"
  untrustedEvents :: "int option"
  syntheticKeyEvents :: "int option"
  totalKeyEvents :: "int option"

definition seekTime_botMax :: int where "seekTime_botMax = 50"
definition seekTime_humanMin :: int where "seekTime_humanMin = 80"
definition seekTime_tooFast :: int where "seekTime_tooFast = 30"
definition seekTime_uniformStdMax :: int where "seekTime_uniformStdMax = 20"
definition pressTime_botMax :: int where "pressTime_botMax = 20"
definition pressTime_humanMin :: int where "pressTime_humanMin = 40"
definition pressTime_uniformStdMax :: int where "pressTime_uniformStdMax = 10"
definition trajectory_minPoints :: nat where "trajectory_minPoints = 3"
definition trajectory_minDistance :: int where "trajectory_minDistance = 50"
definition timing_userToPassMin :: int where "timing_userToPassMin = 300"
definition timing_passToLoginMin :: int where "timing_passToLoginMin = 100"
definition antiBot_seekTimeMinRange :: int where "antiBot_seekTimeMinRange = 100"
definition antiBot_skewnessThreshold :: real where "antiBot_skewnessThreshold = 0.3"
definition antiBot_kurtosisMin :: real where "antiBot_kurtosisMin = - 1"
definition antiBot_kurtosisMax :: real where "antiBot_kurtosisMax = 3"
definition antiBot_roundNumberRatio :: real where "antiBot_roundNumberRatio = 0.3"
definition antiBot_consecutiveSimilarMax :: nat where "antiBot_consecutiveSimilarMax = 3"
definition antiBot_trajectorySmoothMax :: real where "antiBot_trajectorySmoothMax = 0.8"
definition antiBot_trajectoryCorrectionMin :: real where "antiBot_trajectoryCorrectionMin = 0.1"
definition antiBot_trajectoryIntervalCVMax :: real where "antiBot_trajectoryIntervalCVMax = 0.3"
definition antiBot_cvMin :: real where "antiBot_cvMin = 0.15"
definition antiBot_cvMax :: real where "antiBot_cvMax = 0.35"
definition decision_botProbabilityThreshold :: int where "decision_botProbabilityThreshold = 70"

subsection \<open>Flags and detectors\<close>

record flag =
  weight :: nat
  reason :: string

record typed_flag = flag +
  ftype :: string

definition botFlag :: "nat \<Rightarrow> string \<Rightarrow> typed_flag" where
  \<comment> \<open>\<open>{type: "bot", weight: w, reason: r}\<close>\<close>
  "botFlag w r = \<lparr>weight = w, reason = r, ftype = ''bot''\<rparr>"

definition percent :: "num \<Rightarrow> string" where
  \<comment> \<open>\<open>Math.round(v * 100)\<close> inside a template\<close>
  "percent a = (case a of None \<Rightarrow> ''NaN'' | Some v \<Rightarrow> show_int (Math_round (v * 100)))"

definition detectGaussianPattern :: "distribution option \<Rightarrow> typed_flag list" where
  "detectGaussianPattern distribution =
     (case distribution of
        None \<Rightarrow> []
      | Some d \<Rightarrow>
          if \<not> valid_d d then []
          else
            (let isNearNormal =
                   (nlt (nabs (field_d skewness d)) (Some antiBot_skewnessThreshold) \<and>
                    ngt (field_d kurtosis d) (Some antiBot_kurtosisMin) \<and>
                    nlt (field_d kurtosis d) (Some antiBot_kurtosisMax));
                 similar = (case d of Full v \<Rightarrow> Some (maxConsecutiveSimilar v) | _ \<Rightarrow> None)
             in (if isNearNormal
                 then [botFlag 2 (''Distribution too close to Gaussian (skew='' @
                         show_num (field_d skewness d) @ '', kurtosis='' @
                         show_num (field_d kurtosis d) @ '')'')]
                 else []) @
                (if ngt (field_d roundNumberRatio d) (Some antiBot_roundNumberRatio)
                 then [botFlag 2 (''Too many round numbers ('' @
                         percent (field_d roundNumberRatio d) @ ''% are multiples of 10ms)'')]
                 else []) @
                (case similar of
                   None \<Rightarrow> []
                 | Some k \<Rightarrow>
                     if k > antiBot_consecutiveSimilarMax
                     then [botFlag 2 (show_nat k @ '' consecutive similar intervals detected'')]
                     else []) @
                (if ngt (field_d cv d) (Some antiBot_cvMin) \<and> nlt (field_d cv d) (Some antiBot_cvMax)
                 then [botFlag 2 (''Coefficient of variation suggests programmatic randomness (CV='' @
                         show_num (field_d cv d) @ '')'')]
                 else [])))"

definition detectTrajectoryAutomation :: "trajectory_analysis option \<Rightarrow> typed_flag list" where
  "detectTrajectoryAutomation trajectoryAnalysis =
     (case trajectoryAnalysis of
        None \<Rightarrow> []
      | Some ta \<Rightarrow>
          if \<not> valid ta then []
          else
            (if ngt (smoothRatio ta) (Some antiBot_trajectorySmoothMax)
             then [botFlag 3 (''Mouse trajectory too smooth ('' @ percent (smoothRatio ta) @
                     ''%), likely Bezier curve'')]
             else []) @
            (if nlt (correctionRatio ta) (Some antiBot_trajectoryCorrectionMin) \<and> points ta > 10
             then [botFlag 2 (''No micro-corrections in mouse movement ('' @
                     percent (correctionRatio ta) @ ''%)'')]
             else []) @
            (case intervalStats ta of
               None \<Rightarrow> []
             | Some ivs \<Rightarrow>
                 if valid_d ivs \<and> nlt (field_d cv ivs) (Some antiBot_trajectoryIntervalCVMax)
                 then [botFlag 2 (''Mouse movement timing too uniform (CV='' @
                         show_num (field_d cv ivs) @ '')'')]
                 else []))"

definition detectWebDriver :: "login_stats \<Rightarrow> typed_flag list" where
  "detectWebDriver stats =
     (if webdriverDetected stats
      then [botFlag 5 ''WebDriver automation detected (navigator.webdriver)''] else []) @
     (case automationFlags stats of
        None \<Rightarrow> []
      | Some af \<Rightarrow>
          (if hasChromiumAutomation af then [botFlag 3 ''Chromium automation flags detected''] else []) @
          (if hasSelenium af then [botFlag 5 ''Selenium WebDriver detected''] else []) @
          (if hasPhantom af then [botFlag 5 ''PhantomJS detected''] else []) @
          (if headlessChrome af then [botFlag 4 ''HeadlessChrome detected''] else []) @
          (if noPlugins af then [botFlag 0 ''No browser plugins (possible headless)''] else []) @
          (if zeroWindowSize af then [botFlag 3 ''Zero window size (headless browser)''] else []))"

definition detectSyntheticEvents :: "login_stats \<Rightarrow> typed_flag list" where
  "detectSyntheticEvents stats =
     (if gtZero (untrustedEvents stats)
      then [botFlag 3 (''Detected '' @ show_int (orZero (untrustedEvents stats)) @
              '' untrusted (synthetic) events'')]
      else []) @
     (case syntheticKeyEvents stats of
        None \<Rightarrow> []
      | Some synthetic \<Rightarrow>
          if gtZero (totalKeyEvents stats)
          then
            (let syntheticRatio = real_of_int synthetic / real_of_int (orZero (totalKeyEvents stats))
             in if syntheticRatio > 0.3
                then [botFlag 4 (''High ratio of synthetic keyboard events ('' @
                        show_int (Math_round (syntheticRatio * 100)) @ ''%)'')]
                else [])
          else [])"

record field_analysis =
  valid_f :: bool
  botFlags :: "flag list"
  humanFlags :: "flag list"

definition analyzeFieldTyping :: "pattern option \<Rightarrow> field_analysis" where
  "analyzeFieldTyping pattern =
     (case pattern of
        None \<Rightarrow> \<lparr>valid_f = False, botFlags = [], humanFlags = []\<rparr>
      | Some p \<Rightarrow>
          if keystrokeCount p = 0 then \<lparr>valid_f = False, botFlags = [], humanFlags = []\<rparr>
          else
            \<lparr>valid_f = True,
             botFlags =
               (if avg (seekTime p) < seekTime_tooFast
                then [\<lparr>weight = 3, reason = ''Extremely short key interval ('' @
                        show_int (avg (seekTime p)) @ ''ms < '' @ show_int seekTime_tooFast @ ''ms)''\<rparr>]
                else if avg (seekTime p) < seekTime_botMax
                then [\<lparr>weight = 2, reason = ''Key interval too short ('' @
                        show_int (avg (seekTime p)) @ ''ms < '' @ show_int seekTime_botMax @ ''ms)''\<rparr>]
                else []) @
               (if std (seekTime p) < seekTime_uniformStdMax \<and> keystrokeCount p > 3
                then [\<lparr>weight = 2, reason = ''Key interval too uniform (std='' @
                        show_int (std (seekTime p)) @ ''ms)''\<rparr>]
                else []) @
               (if avg (pressTime p) > 0 \<and> avg (pressTime p) < pressTime_botMax
                then [\<lparr>weight = 2, reason = ''Extremely short key press ('' @
                        show_int (avg (pressTime p)) @ ''ms < '' @ show_int pressTime_botMax @ ''ms)''\<rparr>]
                else []) @
               (if std (pressTime p) < pressTime_uniformStdMax \<and> keystrokeCount p > 3 \<and>
                   avg (pressTime p) > 0
                then [\<lparr>weight = 2, reason = ''Key press too uniform (std='' @
                        show_int (std (pressTime p)) @ ''ms)''\<rparr>]
                else []) @
               (if range_of (seekTime p) < antiBot_seekTimeMinRange \<and> keystrokeCount p > 5
                then [\<lparr>weight = 2, reason = ''SeekTime range too narrow ('' @
                        show_int (range_of (seekTime p)) @ ''ms < '' @
                        show_int antiBot_seekTimeMinRange @ ''ms)''\<rparr>]
                else []),
             humanFlags =
               (if avg (seekTime p) > seekTime_humanMin
                then [\<lparr>weight = 1, reason = ''Normal key interval ('' @
                        show_int (avg (seekTime p)) @ ''ms)''\<rparr>]
                else []) @
               (if avg (pressTime p) > pressTime_humanMin
                then [\<lparr>weight = 1, reason = ''Normal key press ('' @
                        show_int (avg (pressTime p)) @ ''ms)''\<rparr>]
                else []) @
               (if longPauses p > 0
                then [\<lparr>weight = 2, reason = ''Has long pauses ('' @
                        show_nat (longPauses p) @ ''x > 500ms)''\<rparr>]
                else [])\<rparr>)"

record password_details =
  hasUpperCase :: bool
  hasSpecialChar :: bool
  needsShift :: bool
  usedShiftOrCaps :: bool
  usedPaste :: bool

record password_mismatch =
  flags_pm :: "typed_flag list"
  details_pm :: "password_details option"

definition isUpperCaseChar :: "char \<Rightarrow> bool" where
  \<comment> \<open>the class \<open>[A-Z]\<close>\<close>
  "isUpperCaseChar c = (65 \<le> (of_char c :: nat) \<and> (of_char c :: nat) \<le> 90)"

definition isSpecialChar :: "char \<Rightarrow> bool" where
  \<comment> \<open>the class of the second regular expression, by character code in its order:
      ! @ # $ % ^ & * ( ) _ + - = [ ] { } ; ' : " \ | , . < > / ? ` ~\<close>
  "isSpecialChar c =
     ((of_char c :: nat) \<in>
        {33, 64, 35, 36, 37, 94, 38, 42, 40, 41, 95, 43, 45, 61, 91, 93, 123, 125, 59, 39, 58,
         34, 92, 124, 44, 46, 60, 62, 47, 63, 96, 126})"

definition detectPasswordMismatch :: "login_stats \<Rightarrow> password_mismatch" where
  "detectPasswordMismatch stats =
     (let pw = (case password stats of None \<Rightarrow> [] | Some s \<Rightarrow> s);
          shifts = orZero (orElse (passwordShiftCount stats) (shiftCount stats));
          caps = orZero (orElse (passwordCapsLockCount stats) (capsLockCount stats));
          pastes = orZero (pastePass stats)
      in if pw = [] then \<lparr>flags_pm = [], details_pm = None\<rparr>
         else
           (let upper = list_ex isUpperCaseChar pw;
                special = list_ex isSpecialChar pw;
                needs = (upper \<or> special);
                used = (shifts > 0 \<or> caps > 0);
                pasted = (pastes > 0)
            in \<lparr>flags_pm =
                  (if needs \<and> \<not> used \<and> \<not> pasted
                   then [botFlag 3 ''Password has uppercase/special chars but no Shift/CapsLock and not pasted'']
                   else []),
                details_pm = Some \<lparr>hasUpperCase = upper, hasSpecialChar = special, needsShift = needs,
                                    usedShiftOrCaps = used, usedPaste = pasted\<rparr>\<rparr>))"

subsection \<open>analyze\<close>

text \<open>
  The parser object handed to \<open>analyze\<close>: the three methods it is called with.
  \<open>TypingParser\<close> is the one this repository defines.
\<close>

record parser =
  do_parsePattern :: "string option \<Rightarrow> pattern option"
  do_analyzeDistribution :: "num list \<Rightarrow> distribution"
  do_analyzeTrajectory :: "trajectory option \<Rightarrow> trajectory_analysis"

definition TypingParser :: parser where
  "TypingParser = \<lparr>do_parsePattern = parsePattern,
                    do_analyzeDistribution = analyzeDistribution,
                    do_analyzeTrajectory = analyzeTrajectory\<rparr>"

record details =
  userPattern :: "pattern option"
  passPattern :: "pattern option"
  userAnalysis :: "field_analysis option"
  userSeekDistribution :: "distribution option"
  passAnalysis :: "field_analysis option"
  passSeekDistribution :: "distribution option"
  trajectoryAnalysis :: "trajectory_analysis option"
  ime :: "int option"
  shift :: "int option"
  capsLock :: "int option"
  passwordAnalysis :: "password_details option"

record scores =
  bot_s :: nat
  human_s :: nat

text \<open>
  The returned object. The early return of \<open>analyze\<close> has neither \<open>details\<close> nor
  \<open>scores\<close>.
\<close>

record analysis_result =
  isBot :: bool
  confidence :: int
  reasons :: "string list"
  details_r :: "details option"
  scores_r :: "scores option"

text \<open>
  The mutable state of one call: the locals \<open>botScore\<close> and \<open>humanScore\<close>, and the
  parts of \<open>result\<close> written before the end.
\<close>

record scoring =
  botScore :: nat
  humanScore :: nat
  reasons_s :: "string list"
  details_s :: details

definition pushBot :: "nat \<Rightarrow> string \<Rightarrow> scoring \<Rightarrow> scoring" where
  \<comment> \<open>\<open>botScore += w; result.reasons.push(r)\<close>\<close>
  "pushBot w r st = st\<lparr>botScore := botScore st + w, reasons_s := reasons_s st @ [r]\<rparr>"

definition forEachBot :: "string \<Rightarrow> ('a flag_scheme) list \<Rightarrow> scoring \<Rightarrow> scoring" where
  \<comment> \<open>\<open>flags.forEach(f => { botScore += f.weight; result.reasons.push(label + f.reason) })\<close>\<close>
  "forEachBot label fs st = foldl (\<lambda>s f. pushBot (weight f) (label @ reason f) s) st fs"

definition forEachHuman :: "('a flag_scheme) list \<Rightarrow> scoring \<Rightarrow> scoring" where
  \<comment> \<open>\<open>flags.forEach(f => humanScore += f.weight)\<close>\<close>
  "forEachHuman fs st = foldl (\<lambda>s f. s\<lparr>humanScore := humanScore s + weight f\<rparr>) st fs"

definition emptyDetails :: details where
  "emptyDetails = \<lparr>userPattern = None, passPattern = None, userAnalysis = None,
                    userSeekDistribution = None, passAnalysis = None, passSeekDistribution = None,
                    trajectoryAnalysis = None, ime = None, shift = None, capsLock = None,
                    passwordAnalysis = None\<rparr>"

definition parseStep :: "parser \<Rightarrow> login_stats \<Rightarrow> scoring \<Rightarrow> scoring" where
  \<comment> \<open>section 1 of \<open>analyze\<close>\<close>
  "parseStep P stats st =
     (let up = do_parsePattern P (case typingdna stats of None \<Rightarrow> None | Some td \<Rightarrow> lastUserTp td);
          pp = do_parsePattern P (case typingdna stats of None \<Rightarrow> None | Some td \<Rightarrow> lastPassTp td)
      in st\<lparr>details_s := (details_s st)\<lparr>userPattern := up, passPattern := pp\<rparr>\<rparr>)"

definition seekDistributionStep ::
  "parser \<Rightarrow> string \<Rightarrow> (distribution \<Rightarrow> details \<Rightarrow> details) \<Rightarrow> pattern \<Rightarrow> scoring \<Rightarrow> scoring" where
  \<comment> \<open>the block under \<open>raw.seekTimes.length > 4\<close>; \<open>store\<close> writes the details entry\<close>
  "seekDistributionStep P label store pat st =
     (if length (seekTimes (raw pat)) > 4 then
        (let d = do_analyzeDistribution P (map (\<lambda>t. Some (real_of_int t)) (seekTimes (raw pat)));
             gaussFlags = detectGaussianPattern (Some d);
             st1 = st\<lparr>details_s := store d (details_s st)\<rparr>
         in forEachBot label gaussFlags st1)
      else st)"

definition userStep :: "parser \<Rightarrow> scoring \<Rightarrow> scoring" where
  \<comment> \<open>section 2, username\<close>
  "userStep P st =
     (case userPattern (details_s st) of
        None \<Rightarrow> st
      | Some pat \<Rightarrow>
          (let ua = analyzeFieldTyping (Some pat);
               st1 = st\<lparr>details_s := (details_s st)\<lparr>userAnalysis := Some ua\<rparr>\<rparr>;
               st2 = forEachBot ''[Username] '' (botFlags ua) st1;
               st3 = forEachHuman (humanFlags ua) st2
           in seekDistributionStep P ''[Username SeekTime] ''
                (\<lambda>d ds. ds\<lparr>userSeekDistribution := Some d\<rparr>) pat st3))"

definition passStep :: "parser \<Rightarrow> scoring \<Rightarrow> scoring" where
  \<comment> \<open>section 2, password\<close>
  "passStep P st =
     (case passPattern (details_s st) of
        None \<Rightarrow> st
      | Some pat \<Rightarrow>
          (let pa = analyzeFieldTyping (Some pat);
               st1 = st\<lparr>details_s := (details_s st)\<lparr>passAnalysis := Some pa\<rparr>\<rparr>;
               st2 = forEachBot ''[Password] '' (botFlags pa) st1;
               st3 = forEachHuman (humanFlags pa) st2
           in seekDistributionStep P ''[Password SeekTime] ''
                (\<lambda>d ds. ds\<lparr>passSeekDistribution := Some d\<rparr>) pat st3))"

definition timingStep :: "login_stats \<Rightarrow> scoring \<Rightarrow> scoring" where
  \<comment> \<open>section 3\<close>
  "timingStep stats st =
     (let st1 = (case usernameToPasswordMs stats of
                   None \<Rightarrow> st
                 | Some ms \<Rightarrow>
                     if ms < timing_userToPassMin
                     then pushBot 2 (''Username to password too fast ('' @ show_int ms @ ''ms < '' @
                            show_int timing_userToPassMin @ ''ms)'') st
                     else st)
      in case passwordToLoginMs stats of
           None \<Rightarrow> st1
         | Some ms \<Rightarrow>
             if ms < timing_passToLoginMin
             then pushBot 2 (''Password to login too fast ('' @ show_int ms @ ''ms < '' @
                    show_int timing_passToLoginMin @ ''ms)'') st1
             else st1)"

definition trajectoryStep :: "parser \<Rightarrow> login_stats \<Rightarrow> scoring \<Rightarrow> scoring" where
  \<comment> \<open>section 4\<close>
  "trajectoryStep P stats st =
     (case trajectory stats of
        None \<Rightarrow> st
      | Some tr \<Rightarrow>
          (let ta = do_analyzeTrajectory P (Some tr);
               st1 = st\<lparr>details_s := (details_s st)\<lparr>trajectoryAnalysis := Some ta\<rparr>\<rparr>
           in if valid ta then
                (let st2 = (if points ta < trajectory_minPoints
                            then pushBot 1 (''Too few trajectory points ('' @ show_nat (points ta) @
                                   '' < '' @ show_nat trajectory_minPoints @ '')'') st1
                            else st1);
                     st3 = (if distance ta < trajectory_minDistance \<and> captured tr
                            then pushBot 1 (''Mouse distance too short ('' @ show_int (distance ta) @
                                   ''px < '' @ show_int trajectory_minDistance @ ''px)'') st2
                            else st2);
                     st4 = (if points ta > 5 \<and> distance ta > 100
                            then st3\<lparr>humanScore := humanScore st3 + 2\<rparr>
                            else st3)
                 in forEachBot ''[Trajectory] '' (detectTrajectoryAutomation (Some ta)) st4)
              else st1))"

definition pasteStep :: "login_stats \<Rightarrow> scoring \<Rightarrow> scoring" where
  \<comment> \<open>section 5\<close>
  "pasteStep stats st =
     (let st1 = (if gtZero (pasteUser stats) then pushBot 1 ''Username was pasted'' st else st)
      in if gtZero (pastePass stats) then pushBot 1 ''Password was pasted'' st1 else st1)"

definition imeStep :: "login_stats \<Rightarrow> scoring \<Rightarrow> scoring" where
  \<comment> \<open>section 6\<close>
  "imeStep stats st =
     (let imeTotal = orZero (imeUser stats) + orZero (imePass stats)
      in if imeTotal > 0
         then st\<lparr>humanScore := humanScore st + 3,
                 details_s := (details_s st)\<lparr>ime := Some imeTotal\<rparr>\<rparr>
         else st)"

definition shiftStep :: "login_stats \<Rightarrow> scoring \<Rightarrow> scoring" where
  \<comment> \<open>section 7\<close>
  "shiftStep stats st =
     (let shifts = orZero (shiftCount stats);
          caps = orZero (capsLockCount stats);
          st1 = (if shifts > 0
                 then st\<lparr>humanScore := humanScore st + 2,
                         details_s := (details_s st)\<lparr>shift := Some shifts\<rparr>\<rparr>
                 else st)
      in if caps > 0
         then st1\<lparr>humanScore := humanScore st1 + 1,
                  details_s := (details_s st1)\<lparr>capsLock := Some caps\<rparr>\<rparr>
         else st1)"

definition passwordStep :: "login_stats \<Rightarrow> scoring \<Rightarrow> scoring" where
  \<comment> \<open>section 8\<close>
  "passwordStep stats st =
     (let pwdMismatch = detectPasswordMismatch stats;
          st1 = st\<lparr>details_s := (details_s st)\<lparr>passwordAnalysis := details_pm pwdMismatch\<rparr>\<rparr>
      in forEachBot [] (flags_pm pwdMismatch) st1)"

definition webdriverStep :: "login_stats \<Rightarrow> scoring \<Rightarrow> scoring" where
  \<comment> \<open>section 9\<close>
  "webdriverStep stats st = forEachBot ''[Automation] '' (detectWebDriver stats) st"

definition syntheticStep :: "login_stats \<Rightarrow> scoring \<Rightarrow> scoring" where
  \<comment> \<open>section 10\<close>
  "syntheticStep stats st = forEachBot ''[Events] '' (detectSyntheticEvents stats) st"

definition confidenceOf :: "nat \<Rightarrow> nat \<Rightarrow> int" where
  \<comment> \<open>\<open>totalScore > 0 ? Math.round((botScore / totalScore) * 100) : 0\<close>\<close>
  "confidenceOf b h =
     (let totalScore = b + h
      in if totalScore > 0 then Math_round ((real b / real totalScore) * 100) else 0)"

definition finish :: "scoring \<Rightarrow> analysis_result" where
  "finish st =
     (let c = confidenceOf (botScore st) (humanScore st)
      in \<lparr>isBot = (c > decision_botProbabilityThreshold),
          confidence = c,
          reasons = reasons_s st,
          details_r = Some (details_s st),
          scores_r = Some \<lparr>bot_s = botScore st, human_s = humanScore st\<rparr>\<rparr>)"

definition initial :: scoring where
  "initial = \<lparr>botScore = 0, humanScore = 0, reasons_s = [], details_s = emptyDetails\<rparr>"

definition runDetectors :: "parser \<Rightarrow> login_stats \<Rightarrow> scoring" where
  \<comment> \<open>sections 1 to 10, in the order of the source\<close>
  "runDetectors P stats =
     syntheticStep stats
       (webdriverStep stats
         (passwordStep stats
           (shiftStep stats
             (imeStep stats
               (pasteStep stats
                 (trajectoryStep P stats
                   (timingStep stats
                     (passStep P
                       (userStep P
                         (parseStep P stats initial))))))))))"

definition resolveParser :: "parser option \<Rightarrow> parser option \<Rightarrow> parser option" where
  \<comment> \<open>\<open>parser || (typeof TypingParser !== "undefined" ? TypingParser : null)\<close>;
      \<open>ambient\<close> is the global \<open>TypingParser\<close> when one is defined where the detector runs\<close>
  "resolveParser parserArg ambient = (case parserArg of Some P \<Rightarrow> Some P | None \<Rightarrow> ambient)"

definition analyze :: "login_stats \<Rightarrow> parser option \<Rightarrow> parser option \<Rightarrow> analysis_result" where
  \<comment> \<open>\<open>analyze(stats, parser)\<close>\<close>
  "analyze stats parserArg ambient =
     (case resolveParser parserArg ambient of
        None \<Rightarrow> \<lparr>isBot = False, confidence = 0, reasons = [], details_r = None, scores_r = None\<rparr>
      | Some P \<Rightarrow> finish (runDetectors P stats))"

section \<open>TypingAnalyzer\<close>

text \<open>
  The second analyzer of the repository. Its records carry the prefix \<open>ta_\<close>; its
  thresholds are those of the first with the same values, and its statistics have no
  \<open>range\<close>.
\<close>

record ta_stats =
  ta_avg :: int
  ta_min :: int
  ta_max :: int
  ta_std :: int

record ta_pattern =
  ta_keystrokeCount :: nat
  ta_seekTime :: ta_stats
  ta_pressTime :: ta_stats
  ta_longPauses :: nat
  ta_keystrokes :: "keystroke list"
  ta_raw :: raw_times

definition ta_calcStats :: "int list \<Rightarrow> ta_stats" where
  "ta_calcStats arr =
     (if arr = [] then \<lparr>ta_avg = 0, ta_min = 0, ta_max = 0, ta_std = 0\<rparr>
      else
        (let n = real (length arr);
             m = reduce (\<lambda>a b. a + real_of_int b) 0 arr / n;
             sd = (if length arr > 1
                   then sqrt (reduce (\<lambda>sum t. sum + (real_of_int t - m)\<^sup>2) 0 arr / n)
                   else 0)
         in \<lparr>ta_avg = Math_round m, ta_min = Min (set arr), ta_max = Max (set arr),
             ta_std = Math_round sd\<rparr>))"

definition ta_parsePattern :: "string option \<Rightarrow> ta_pattern option" where
  "ta_parsePattern patternStr =
     (case patternStr of
        None \<Rightarrow> None
      | Some s \<Rightarrow>
          if s = [] then None
          else
            (let segments = split_str CHR ''|'' s
             in if length segments < 2 then None
                else
                  (let ks = map parseKeystroke (drop 1 segments);
                       sts = filter (\<lambda>t. t > 0) (map kSeekTime ks);
                       pts = filter (\<lambda>t. t > 0) (map kPressTime ks)
                   in Some \<lparr>ta_keystrokeCount = length ks,
                            ta_seekTime = ta_calcStats sts,
                            ta_pressTime = ta_calcStats pts,
                            ta_longPauses = length (filter (\<lambda>t. t > 500) sts),
                            ta_keystrokes = ks,
                            ta_raw = \<lparr>seekTimes = sts, pressTimes = pts\<rparr>\<rparr>)))"

record ta_flag =
  ta_type :: string
  ta_feature :: string
  ta_reason :: string

record ta_field_analysis =
  ta_valid :: bool
  ta_invalidReason :: "string option"
  ta_flags :: "ta_flag list"
  ta_botFlags :: "ta_flag list"
  ta_humanFlags :: "ta_flag list"

definition ta_analyzeFieldTyping :: "ta_pattern option \<Rightarrow> ta_field_analysis" where
  "ta_analyzeFieldTyping pattern =
     (let invalid = \<lparr>ta_valid = False, ta_invalidReason = Some ''No typing data'', ta_flags = [],
                      ta_botFlags = [], ta_humanFlags = []\<rparr>
      in case pattern of
           None \<Rightarrow> invalid
         | Some p \<Rightarrow>
             if ta_keystrokeCount p = 0 then invalid
             else
               (let fs =
                      (if ta_avg (ta_seekTime p) < seekTime_tooFast
                       then [\<lparr>ta_type = ''bot'', ta_feature = ''seekTime'',
                               ta_reason = ''Extremely short key interval ('' @
                                 show_int (ta_avg (ta_seekTime p)) @ ''ms < '' @
                                 show_int seekTime_tooFast @ ''ms)''\<rparr>]
                       else if ta_avg (ta_seekTime p) < seekTime_botMax
                       then [\<lparr>ta_type = ''bot'', ta_feature = ''seekTime'',
                               ta_reason = ''Key interval too short ('' @
                                 show_int (ta_avg (ta_seekTime p)) @ ''ms < '' @
                                 show_int seekTime_botMax @ ''ms)''\<rparr>]
                       else []) @
                      (if ta_std (ta_seekTime p) < seekTime_uniformStdMax \<and> ta_keystrokeCount p > 3
                       then [\<lparr>ta_type = ''bot'', ta_feature = ''seekTimeStd'',
                               ta_reason = ''Key interval too uniform (std='' @
                                 show_int (ta_std (ta_seekTime p)) @ ''ms < '' @
                                 show_int seekTime_uniformStdMax @ ''ms)''\<rparr>]
                       else []) @
                      (if ta_avg (ta_pressTime p) > 0 \<and> ta_avg (ta_pressTime p) < pressTime_botMax
                       then [\<lparr>ta_type = ''bot'', ta_feature = ''pressTime'',
                               ta_reason = ''Extremely short key press duration ('' @
                                 show_int (ta_avg (ta_pressTime p)) @ ''ms < '' @
                                 show_int pressTime_botMax @ ''ms)''\<rparr>]
                       else []) @
                      (if ta_std (ta_pressTime p) < pressTime_uniformStdMax \<and> ta_keystrokeCount p > 3 \<and>
                          ta_avg (ta_pressTime p) > 0
                       then [\<lparr>ta_type = ''bot'', ta_feature = ''pressTimeStd'',
                               ta_reason = ''Key press duration too uniform (std='' @
                                 show_int (ta_std (ta_pressTime p)) @ ''ms < '' @
                                 show_int pressTime_uniformStdMax @ ''ms)''\<rparr>]
                       else []) @
                      (if ta_avg (ta_seekTime p) > seekTime_humanMin
                       then [\<lparr>ta_type = ''human'', ta_feature = ''seekTime'',
                               ta_reason = ''Normal key interval ('' @
                                 show_int (ta_avg (ta_seekTime p)) @ ''ms)''\<rparr>]
                       else []) @
                      (if ta_avg (ta_pressTime p) > pressTime_humanMin
                       then [\<lparr>ta_type = ''human'', ta_feature = ''pressTime'',
                               ta_reason = ''Normal key press duration ('' @
                                 show_int (ta_avg (ta_pressTime p)) @ ''ms)''\<rparr>]
                       else []) @
                      (if ta_longPauses p > 0
                       then [\<lparr>ta_type = ''human'', ta_feature = ''longPauses'',
                               ta_reason = ''Has long pauses ('' @ show_nat (ta_longPauses p) @
                                 ''x > 500ms), possibly thinking''\<rparr>]
                       else [])
                in \<lparr>ta_valid = True, ta_invalidReason = None, ta_flags = fs,
                    ta_botFlags = filter (\<lambda>f. ta_type f = ''bot'') fs,
                    ta_humanFlags = filter (\<lambda>f. ta_type f = ''human'') fs\<rparr>))"

record ta_field_details =
  ta_pattern_d :: "ta_pattern option"
  ta_analysis_d :: ta_field_analysis

record ta_ime_details =
  ime_username :: int
  ime_password :: int
  ime_total :: int

record ta_details =
  ta_username :: "ta_field_details option"
  ta_password :: "ta_field_details option"
  ta_ime :: "ta_ime_details option"
  ta_shift :: "int option"
  ta_capsLock :: "int option"
  ta_passwordAnalysis :: "password_details option"

record ta_scoring =
  ta_botScore :: nat
  ta_humanScore :: nat
  ta_reasons :: "string list"
  ta_details_s :: ta_details

record ta_result =
  ta_isBot :: bool
  ta_confidence :: int
  ta_reasons_r :: "string list"
  ta_details_r :: ta_details
  ta_scores :: scores

definition ta_push :: "nat \<Rightarrow> string \<Rightarrow> ta_scoring \<Rightarrow> ta_scoring" where
  "ta_push w r st = st\<lparr>ta_botScore := ta_botScore st + w, ta_reasons := ta_reasons st @ [r]\<rparr>"

definition ta_fieldStep ::
  "string \<Rightarrow> (ta_field_details \<Rightarrow> ta_details \<Rightarrow> ta_details) \<Rightarrow> string option \<Rightarrow> ta_scoring \<Rightarrow> ta_scoring" where
  \<comment> \<open>sections 1 and 2 of \<open>analyzeLogin\<close>, for one field\<close>
  "ta_fieldStep label store tp st =
     (let pat = ta_parsePattern tp;
          an = ta_analyzeFieldTyping pat;
          st1 = st\<lparr>ta_details_s := store \<lparr>ta_pattern_d = pat, ta_analysis_d = an\<rparr> (ta_details_s st)\<rparr>
      in if ta_valid an then
           (let st2 = st1\<lparr>ta_botScore := ta_botScore st1 + length (ta_botFlags an) * 2,
                          ta_humanScore := ta_humanScore st1 + length (ta_humanFlags an)\<rparr>
            in foldl (\<lambda>s f. s\<lparr>ta_reasons := ta_reasons s @ [label @ ta_reason f]\<rparr>) st2 (ta_botFlags an))
         else st1)"

definition ta_timingStep :: "login_stats \<Rightarrow> ta_scoring \<Rightarrow> ta_scoring" where
  "ta_timingStep stats st =
     (let st1 = (case usernameToPasswordMs stats of
                   None \<Rightarrow> st
                 | Some ms \<Rightarrow>
                     if ms < timing_userToPassMin
                     then ta_push 2 (''Username to password interval too short ('' @ show_int ms @
                            ''ms < '' @ show_int timing_userToPassMin @ ''ms)'') st
                     else st)
      in case passwordToLoginMs stats of
           None \<Rightarrow> st1
         | Some ms \<Rightarrow>
             if ms < timing_passToLoginMin
             then ta_push 2 (''Password to login interval too short ('' @ show_int ms @
                    ''ms < '' @ show_int timing_passToLoginMin @ ''ms)'') st1
             else st1)"

definition optStr :: "int option \<Rightarrow> string" where
  \<comment> \<open>a possibly absent number inside a template\<close>
  "optStr v = (case v of None \<Rightarrow> ''undefined'' | Some n \<Rightarrow> show_int n)"

definition ltOpt :: "int option \<Rightarrow> int \<Rightarrow> bool" where
  "ltOpt v k = (case v of None \<Rightarrow> False | Some n \<Rightarrow> n < k)"

definition gtOpt :: "int option \<Rightarrow> int \<Rightarrow> bool" where
  "gtOpt v k = (case v of None \<Rightarrow> False | Some n \<Rightarrow> n > k)"

definition ta_trajectoryStep :: "login_stats \<Rightarrow> ta_scoring \<Rightarrow> ta_scoring" where
  "ta_trajectoryStep stats st =
     (case trajectory stats of
        None \<Rightarrow> st
      | Some traj \<Rightarrow>
          (let st1 = (if ltOpt (points_t traj) (int trajectory_minPoints)
                      then ta_push 1 (''Too few mouse trajectory points ('' @ optStr (points_t traj) @
                             '' < '' @ show_nat trajectory_minPoints @ '')'') st
                      else st);
               st2 = (if ltOpt (distancePx traj) trajectory_minDistance \<and> captured traj
                      then ta_push 1 (''Mouse movement distance too short ('' @
                             optStr (distancePx traj) @ ''px < '' @
                             show_int trajectory_minDistance @ ''px)'') st1
                      else st1)
           in if gtOpt (points_t traj) 5 \<and> gtOpt (distancePx traj) 100
              then st2\<lparr>ta_humanScore := ta_humanScore st2 + 2\<rparr>
              else st2))"

definition ta_pasteStep :: "login_stats \<Rightarrow> ta_scoring \<Rightarrow> ta_scoring" where
  "ta_pasteStep stats st =
     (let st1 = (if gtZero (pasteUser stats) then ta_push 1 ''Username was pasted'' st else st)
      in if gtZero (pastePass stats) then ta_push 1 ''Password was pasted'' st1 else st1)"

definition ta_imeStep :: "login_stats \<Rightarrow> ta_scoring \<Rightarrow> ta_scoring" where
  "ta_imeStep stats st =
     (let imeUserCount = orZero (orElse (usernameIMECompositionCount stats) (imeUser stats));
          imePassCount = orZero (orElse (passwordIMECompositionCount stats) (imePass stats));
          totalIME = imeUserCount + imePassCount
      in if totalIME > 0
         then st\<lparr>ta_humanScore := ta_humanScore st + 3,
                 ta_details_s := (ta_details_s st)\<lparr>ta_ime :=
                   Some \<lparr>ime_username = imeUserCount, ime_password = imePassCount,
                         ime_total = totalIME\<rparr>\<rparr>\<rparr>
         else st)"

definition ta_shiftStep :: "login_stats \<Rightarrow> ta_scoring \<Rightarrow> ta_scoring" where
  \<comment> \<open>sections 7 and 8\<close>
  "ta_shiftStep stats st =
     (let shifts = orZero (orElse (passwordShiftCount stats) (shiftCount stats));
          caps = orZero (orElse (passwordCapsLockCount stats) (capsLockCount stats));
          pastes = orZero (pastePass stats);
          pw = (case password stats of None \<Rightarrow> [] | Some s \<Rightarrow> s);
          st1 = (if shifts > 0
                 then st\<lparr>ta_humanScore := ta_humanScore st + 2,
                         ta_details_s := (ta_details_s st)\<lparr>ta_shift := Some shifts\<rparr>\<rparr>
                 else st);
          st2 = (if caps > 0
                 then st1\<lparr>ta_humanScore := ta_humanScore st1 + 1,
                          ta_details_s := (ta_details_s st1)\<lparr>ta_capsLock := Some caps\<rparr>\<rparr>
                 else st1)
      in if pw = [] then st2
         else
           (let upper = list_ex isUpperCaseChar pw;
                special = list_ex isSpecialChar pw;
                needs = (upper \<or> special);
                used = (shifts > 0 \<or> caps > 0);
                pasted = (pastes > 0);
                st3 = (if needs \<and> \<not> used \<and> \<not> pasted
                       then ta_push 3 ''Password contains uppercase or special chars but no Shift/CapsLock detected and not pasted'' st2
                       else st2)
            in st3\<lparr>ta_details_s := (ta_details_s st3)\<lparr>ta_passwordAnalysis :=
                 Some \<lparr>hasUpperCase = upper, hasSpecialChar = special, needsShift = needs,
                       usedShiftOrCaps = used, usedPaste = pasted\<rparr>\<rparr>\<rparr>))"

definition ta_finish :: "ta_scoring \<Rightarrow> ta_result" where
  \<comment> \<open>section 9 and the decision rule\<close>
  "ta_finish st =
     (let totalScore = ta_botScore st + ta_humanScore st;
          c = (if totalScore > 0
               then Math_round ((real (ta_botScore st) / real totalScore) * 100) else 0)
      in \<lparr>ta_isBot = (ta_botScore st \<ge> 3 \<or> c > 60),
          ta_confidence = c,
          ta_reasons_r = ta_reasons st,
          ta_details_r = ta_details_s st,
          ta_scores = \<lparr>bot_s = ta_botScore st, human_s = ta_humanScore st\<rparr>\<rparr>)"

definition ta_initial :: ta_scoring where
  "ta_initial =
     \<lparr>ta_botScore = 0, ta_humanScore = 0, ta_reasons = [],
      ta_details_s = \<lparr>ta_username = None, ta_password = None, ta_ime = None, ta_shift = None,
                      ta_capsLock = None, ta_passwordAnalysis = None\<rparr>\<rparr>"

definition analyzeLogin :: "login_stats \<Rightarrow> ta_result" where
  "analyzeLogin stats =
     ta_finish
       (ta_shiftStep stats
         (ta_imeStep stats
           (ta_pasteStep stats
             (ta_trajectoryStep stats
               (ta_timingStep stats
                 (ta_fieldStep ''[Password] '' (\<lambda>d ds. ds\<lparr>ta_password := Some d\<rparr>)
                    (case typingdna stats of None \<Rightarrow> None | Some td \<Rightarrow> lastPassTp td)
                   (ta_fieldStep ''[Username] '' (\<lambda>d ds. ds\<lparr>ta_username := Some d\<rparr>)
                      (case typingdna stats of None \<Rightarrow> None | Some td \<Rightarrow> lastUserTp td)
                      ta_initial)))))))"

section \<open>The scoring as the specification words it\<close>

text \<open>
  The specification describes the scoring as a catalog of signals, each with a tag, a
  weight and a reason, whose weights are summed per tag. The definitions of this section
  follow those words; the theorems below compare them with \<open>analyze\<close>. A signal for
  which the code has no reason string (it only adds to a score) has \<open>reason_of = None\<close>.
\<close>

datatype tag = Bot | Human

record signal =
  tag_of :: tag
  weight_of :: nat
  reason_of :: "string option"

definition botSignal :: "nat \<Rightarrow> string \<Rightarrow> signal" where
  "botSignal w r = \<lparr>tag_of = Bot, weight_of = w, reason_of = Some r\<rparr>"

definition humanSignal :: "nat \<Rightarrow> string option \<Rightarrow> signal" where
  "humanSignal w r = \<lparr>tag_of = Human, weight_of = w, reason_of = r\<rparr>"

definition botSignals :: "string \<Rightarrow> ('a flag_scheme) list \<Rightarrow> signal list" where
  "botSignals label fs = map (\<lambda>f. botSignal (weight f) (label @ reason f)) fs"

definition humanSignals :: "('a flag_scheme) list \<Rightarrow> signal list" where
  "humanSignals fs = map (\<lambda>f. humanSignal (weight f) (Some (reason f))) fs"

definition tagSum :: "tag \<Rightarrow> signal list \<Rightarrow> nat" where
  "tagSum t sigs = sum_list (map weight_of (filter (\<lambda>s. tag_of s = t) sigs))"

definition botReasons :: "signal list \<Rightarrow> string list" where
  "botReasons sigs = List.map_filter (\<lambda>s. if tag_of s = Bot then reason_of s else None) sigs"

definition userTp :: "login_stats \<Rightarrow> string option" where
  "userTp stats = (case typingdna stats of None \<Rightarrow> None | Some td \<Rightarrow> lastUserTp td)"

definition passTp :: "login_stats \<Rightarrow> string option" where
  "passTp stats = (case typingdna stats of None \<Rightarrow> None | Some td \<Rightarrow> lastPassTp td)"

definition seekDistribution :: "parser \<Rightarrow> pattern \<Rightarrow> distribution" where
  "seekDistribution P pat =
     do_analyzeDistribution P (map (\<lambda>t. Some (real_of_int t)) (seekTimes (raw pat)))"

definition fieldSignals :: "parser \<Rightarrow> string \<Rightarrow> string \<Rightarrow> pattern option \<Rightarrow> signal list" where
  "fieldSignals P label distLabel pattern =
     (case pattern of
        None \<Rightarrow> []
      | Some pat \<Rightarrow>
          botSignals label (botFlags (analyzeFieldTyping (Some pat))) @
          humanSignals (humanFlags (analyzeFieldTyping (Some pat))) @
          (if length (seekTimes (raw pat)) > 4
           then botSignals distLabel (detectGaussianPattern (Some (seekDistribution P pat)))
           else []))"

definition timingSignals :: "login_stats \<Rightarrow> signal list" where
  "timingSignals stats =
     (if ltOpt (usernameToPasswordMs stats) timing_userToPassMin
      then [botSignal 2 (''Username to password too fast ('' @
              show_int (orZero (usernameToPasswordMs stats)) @ ''ms < 300ms)'')]
      else []) @
     (if ltOpt (passwordToLoginMs stats) timing_passToLoginMin
      then [botSignal 2 (''Password to login too fast ('' @
              show_int (orZero (passwordToLoginMs stats)) @ ''ms < 100ms)'')]
      else [])"

definition trajectorySignals :: "parser \<Rightarrow> login_stats \<Rightarrow> signal list" where
  "trajectorySignals P stats =
     (case trajectory stats of
        None \<Rightarrow> []
      | Some tr \<Rightarrow>
          (let ta = do_analyzeTrajectory P (Some tr)
           in if valid ta then
                (if points ta < 3
                 then [botSignal 1 (''Too few trajectory points ('' @ show_nat (points ta) @ '' < 3)'')]
                 else []) @
                (if distance ta < 50 \<and> captured tr
                 then [botSignal 1 (''Mouse distance too short ('' @ show_int (distance ta) @
                         ''px < 50px)'')]
                 else []) @
                (if points ta > 5 \<and> distance ta > 100 then [humanSignal 2 None] else []) @
                botSignals ''[Trajectory] '' (detectTrajectoryAutomation (Some ta))
              else []))"

definition pasteSignals :: "login_stats \<Rightarrow> signal list" where
  "pasteSignals stats =
     (if gtZero (pasteUser stats) then [botSignal 1 ''Username was pasted''] else []) @
     (if gtZero (pastePass stats) then [botSignal 1 ''Password was pasted''] else [])"

definition imeSignals :: "login_stats \<Rightarrow> signal list" where
  "imeSignals stats =
     (if orZero (imeUser stats) + orZero (imePass stats) > 0 then [humanSignal 3 None] else [])"

definition shiftSignals :: "login_stats \<Rightarrow> signal list" where
  "shiftSignals stats =
     (if orZero (shiftCount stats) > 0 then [humanSignal 2 None] else []) @
     (if orZero (capsLockCount stats) > 0 then [humanSignal 1 None] else [])"

definition triggered :: "parser \<Rightarrow> login_stats \<Rightarrow> signal list" where
  \<comment> \<open>every signal of the catalog that fires, in detector invocation order\<close>
  "triggered P stats =
     fieldSignals P ''[Username] '' ''[Username SeekTime] '' (do_parsePattern P (userTp stats)) @
     fieldSignals P ''[Password] '' ''[Password SeekTime] '' (do_parsePattern P (passTp stats)) @
     timingSignals stats @
     trajectorySignals P stats @
     pasteSignals stats @
     imeSignals stats @
     shiftSignals stats @
     botSignals [] (flags_pm (detectPasswordMismatch stats)) @
     botSignals ''[Automation] '' (detectWebDriver stats) @
     botSignals ''[Events] '' (detectSyntheticEvents stats)"

definition specConfidence :: "nat \<Rightarrow> nat \<Rightarrow> int" where
  \<comment> \<open>\<open>round(100 * botScore / (botScore + humanScore))\<close>, and 0 when both scores are 0\<close>
  "specConfidence b h =
     (if b = 0 \<and> h = 0 then 0 else round (100 * real b / (real b + real h)))"

definition adds :: "signal list \<Rightarrow> scoring \<Rightarrow> scoring \<Rightarrow> bool" where
  \<comment> \<open>the state \<open>st'\<close> is \<open>st\<close> with the weights and the bot reasons of \<open>sigs\<close> added\<close>
  "adds sigs st st' =
     (botScore st' = botScore st + tagSum Bot sigs \<and>
      humanScore st' = humanScore st + tagSum Human sigs \<and>
      reasons_s st' = reasons_s st @ botReasons sigs)"

text \<open>
  The catalog of \<open>analyzeLogin\<close>. A bot flag of a field weighs 2 and a human flag 1;
  the password mismatch is the last signal, after Shift and CapsLock.
\<close>

definition ta_fieldSignals :: "string \<Rightarrow> string option \<Rightarrow> signal list" where
  "ta_fieldSignals label tp =
     (let an = ta_analyzeFieldTyping (ta_parsePattern tp)
      in if ta_valid an
         then map (\<lambda>f. botSignal 2 (label @ ta_reason f)) (ta_botFlags an) @
              map (\<lambda>f. humanSignal 1 (Some (ta_reason f))) (ta_humanFlags an)
         else [])"

definition ta_timingSignals :: "login_stats \<Rightarrow> signal list" where
  "ta_timingSignals stats =
     (if ltOpt (usernameToPasswordMs stats) timing_userToPassMin
      then [botSignal 2 (''Username to password interval too short ('' @
              show_int (orZero (usernameToPasswordMs stats)) @ ''ms < 300ms)'')]
      else []) @
     (if ltOpt (passwordToLoginMs stats) timing_passToLoginMin
      then [botSignal 2 (''Password to login interval too short ('' @
              show_int (orZero (passwordToLoginMs stats)) @ ''ms < 100ms)'')]
      else [])"

definition ta_trajectorySignals :: "login_stats \<Rightarrow> signal list" where
  "ta_trajectorySignals stats =
     (case trajectory stats of
        None \<Rightarrow> []
      | Some tr \<Rightarrow>
          (if ltOpt (points_t tr) 3
           then [botSignal 1 (''Too few mouse trajectory points ('' @ optStr (points_t tr) @ '' < 3)'')]
           else []) @
          (if ltOpt (distancePx tr) 50 \<and> captured tr
           then [botSignal 1 (''Mouse movement distance too short ('' @ optStr (distancePx tr) @
                   ''px < 50px)'')]
           else []) @
          (if gtOpt (points_t tr) 5 \<and> gtOpt (distancePx tr) 100 then [humanSignal 2 None] else []))"

definition ta_imeSignals :: "login_stats \<Rightarrow> signal list" where
  "ta_imeSignals stats =
     (if orZero (orElse (usernameIMECompositionCount stats) (imeUser stats)) +
         orZero (orElse (passwordIMECompositionCount stats) (imePass stats)) > 0
      then [humanSignal 3 None] else [])"

definition ta_shiftSignals :: "login_stats \<Rightarrow> signal list" where
  "ta_shiftSignals stats =
     (let shifts = orZero (orElse (passwordShiftCount stats) (shiftCount stats));
          caps = orZero (orElse (passwordCapsLockCount stats) (capsLockCount stats));
          pw = (case password stats of None \<Rightarrow> [] | Some s \<Rightarrow> s)
      in (if shifts > 0 then [humanSignal 2 None] else []) @
         (if caps > 0 then [humanSignal 1 None] else []) @
         (if (list_ex isUpperCaseChar pw \<or> list_ex isSpecialChar pw) \<and> shifts \<le> 0 \<and> caps \<le> 0 \<and>
             orZero (pastePass stats) \<le> 0
          then [botSignal 3 ''Password contains uppercase or special chars but no Shift/CapsLock detected and not pasted'']
          else []))"

definition ta_triggered :: "login_stats \<Rightarrow> signal list" where
  \<comment> \<open>every signal that fires in \<open>analyzeLogin\<close>, in the order of its sections\<close>
  "ta_triggered stats =
     ta_fieldSignals ''[Username] '' (userTp stats) @
     ta_fieldSignals ''[Password] '' (passTp stats) @
     ta_timingSignals stats @
     ta_trajectorySignals stats @
     pasteSignals stats @
     ta_imeSignals stats @
     ta_shiftSignals stats"

definition ta_adds :: "signal list \<Rightarrow> ta_scoring \<Rightarrow> ta_scoring \<Rightarrow> bool" where
  \<comment> \<open>the state \<open>st'\<close> is \<open>st\<close> with the weights and the bot reasons of \<open>sigs\<close> added\<close>
  "ta_adds sigs st st' =
     (ta_botScore st' = ta_botScore st + tagSum Bot sigs \<and>
      ta_humanScore st' = ta_humanScore st + tagSum Human sigs \<and>
      ta_reasons st' = ta_reasons st @ botReasons sigs)"



definition labelled :: "string \<Rightarrow> ('a flag_scheme) list \<Rightarrow> string list" where
  \<comment> \<open>the reasons of the flags, each behind the label of its detector group\<close>
  "labelled label fs = map (\<lambda>f. label @ reason f) fs"

definition fieldReasons :: "parser \<Rightarrow> string \<Rightarrow> string \<Rightarrow> pattern option \<Rightarrow> string list" where
  \<comment> \<open>the bot reasons of one field: field typing first, then the seek distribution\<close>
  "fieldReasons P label distLabel pattern =
     (case pattern of
        None \<Rightarrow> []
      | Some pat \<Rightarrow>
          labelled label (botFlags (analyzeFieldTyping (Some pat))) @
          (if length (seekTimes (raw pat)) > 4
           then labelled distLabel (detectGaussianPattern (Some (seekDistribution P pat)))
           else []))"

definition startsWith :: "string \<Rightarrow> string \<Rightarrow> bool" where
  "startsWith label r = (take (length label) r = label)"




text \<open>
  The smoothness counters as the specification words them: the pass of the loop at the
  index \<open>i\<close> reads the turn angle at the interior point \<open>i - 1\<close>, between the points
  \<open>i - 2\<close>, \<open>i - 1\<close> and \<open>i\<close>; a counter is the number of passes whose angle lies in
  its band.
\<close>

definition angleAt :: "point list \<Rightarrow> nat \<Rightarrow> real option" where
  "angleAt pts i = turnAngle (pts ! (i - 2)) (pts ! (i - 1)) (pts ! i)"

definition inSmoothBand :: "real option \<Rightarrow> bool" where
  "inSmoothBand angle = (case angle of None \<Rightarrow> False | Some a \<Rightarrow> a < 0.1)"

definition inCorrectionBand :: "real option \<Rightarrow> bool" where
  "inCorrectionBand angle = (case angle of None \<Rightarrow> False | Some a \<Rightarrow> 0.09 < a \<and> a < 0.52)"

definition smoothPasses :: "point list \<Rightarrow> nat list" where
  "smoothPasses pts = filter (\<lambda>i. inSmoothBand (angleAt pts i)) [2..<length pts]"

definition correctionPasses :: "point list \<Rightarrow> nat list" where
  "correctionPasses pts = filter (\<lambda>i. inCorrectionBand (angleAt pts i)) [2..<length pts]"

section \<open>Concrete requests\<close>

definition noStats :: login_stats where
  \<comment> \<open>the request with every property absent\<close>
  "noStats =
     \<lparr>typingdna = None, usernameToPasswordMs = None, passwordToLoginMs = None,
      trajectory = None, pasteUser = None, pastePass = None, imeUser = None, imePass = None,
      usernameIMECompositionCount = None, passwordIMECompositionCount = None,
      shiftCount = None, capsLockCount = None, passwordShiftCount = None,
      passwordCapsLockCount = None, password = None, webdriverDetected = False,
      automationFlags = None, untrustedEvents = None, syntheticKeyEvents = None,
      totalKeyEvents = None\<rparr>"

definition noFlags :: automation_flags where
  "noFlags = \<lparr>hasChromiumAutomation = False, hasSelenium = False, hasPhantom = False,
              headlessChrome = False, noPlugins = False, zeroWindowSize = False\<rparr>"

definition pointAt :: "real \<Rightarrow> real \<Rightarrow> point" where
  "pointAt a b = \<lparr>px = a, py = b, pt = None\<rparr>"

definition sampleOnly :: "point list \<Rightarrow> trajectory" where
  \<comment> \<open>the trajectory object \<open>{sample: pts}\<close>\<close>
  "sampleOnly pts = \<lparr>sample = Some pts, captured = False, points_t = None, distancePx = None\<rparr>"

definition seleniumOnly :: login_stats where
  \<comment> \<open>\<open>automationFlags.hasSelenium = true\<close> and nothing else\<close>
  "seleniumOnly = noStats\<lparr>automationFlags := Some (noFlags\<lparr>hasSelenium := True\<rparr>)\<rparr>"

definition fastWithIme :: login_stats where
  \<comment> \<open>both field changes too fast, and one IME composition\<close>
  "fastWithIme = noStats\<lparr>usernameToPasswordMs := Some 100, passwordToLoginMs := Some 50,
                         imeUser := Some 1\<rparr>"

definition humanTyping :: login_stats where
  \<comment> \<open>a slow username with a long pause, one IME composition, Shift twice, CapsLock once\<close>
  "humanTyping = noStats\<lparr>typingdna := Some \<lparr>lastUserTp = Some ''v|600,50'', lastPassTp = None\<rparr>,
                         imeUser := Some 1, shiftCount := Some 2, capsLockCount := Some 1\<rparr>"

definition twoPoints :: login_stats where
  \<comment> \<open>nothing but a trajectory whose sample has two points\<close>
  "twoPoints = noStats\<lparr>trajectory := Some (sampleOnly [pointAt 0 0, pointAt 10 0])\<rparr>"

definition twoPointsCounted :: login_stats where
  \<comment> \<open>nothing but the trajectory object \<open>{points: 2}\<close> that \<open>analyzeLogin\<close> reads\<close>
  "twoPointsCounted = noStats\<lparr>trajectory :=
     Some \<lparr>sample = None, captured = False, points_t = Some 2, distancePx = None\<rparr>\<rparr>"



definition borderline :: "point list" where
  \<comment> \<open>three points whose turn is \<open>arctan(1/10)\<close>, about 0.0997 rad\<close>
  "borderline = [pointAt 0 0, pointAt 10 0, pointAt 20 1]"

definition lateTurn :: "point list" where
  \<comment> \<open>four points: straight on at the first interior point, a turn of about 0.0997 rad
      at the second\<close>
  "lateTurn = [pointAt 0 0, pointAt 10 0, pointAt 20 0, pointAt 30 1]"

definition straightLine :: "point list" where
  \<comment> \<open>three points on one line, stepping to the right\<close>
  "straightLine = [pointAt 0 0, pointAt 10 0, pointAt 30 0]"

definition fourIntervals :: login_stats where
  \<comment> \<open>a username typed with exactly four positive seek intervals, all multiples of 10\<close>
  "fourIntervals =
     noStats\<lparr>typingdna := Some \<lparr>lastUserTp = Some ''v|100,50|110,50|120,50|130,50'',
                                  lastPassTp = None\<rparr>\<rparr>"

definition fourIntervalsPattern :: pattern where
  \<comment> \<open>what \<open>"v|100,50|110,50|120,50|130,50"\<close> decodes to\<close>
  "fourIntervalsPattern =
     \<lparr>keystrokeCount = 4,
      seekTime = \<lparr>avg = 115, min_of = 100, max_of = 130, std = 11, range_of = 30\<rparr>,
      pressTime = \<lparr>avg = 50, min_of = 50, max_of = 50, std = 0, range_of = 0\<rparr>,
      longPauses = 0,
      keystrokes = [\<lparr>kSeekTime = 100, kPressTime = 50\<rparr>, \<lparr>kSeekTime = 110, kPressTime = 50\<rparr>,
                    \<lparr>kSeekTime = 120, kPressTime = 50\<rparr>, \<lparr>kSeekTime = 130, kPressTime = 50\<rparr>],
      raw = \<lparr>seekTimes = [100, 110, 120, 130], pressTimes = [50, 50, 50, 50]\<rparr>\<rparr>"

definition tenth :: real where
  \<comment> \<open>the double that the literal \<open>0.1\<close> denotes\<close>
  "tenth = 3602879701896397 / 2 ^ 55"

definition sixTenths :: "num list" where
  \<comment> \<open>\<open>[0.1, 0.1, 0.1, 0.1, 0.1, 0.1]\<close>\<close>
  "sixTenths = [Some tenth, Some tenth, Some tenth, Some tenth, Some tenth, Some tenth]"

section \<open>Auxiliary lemmas\<close>

subsection \<open>Rounding to a double\<close>

lemma roundEven_bounds: "\<lfloor>y\<rfloor> \<le> roundEven y" "roundEven y \<le> \<lfloor>y\<rfloor> + 1"
  by (simp_all add: roundEven_def Let_def)

lemma roundEven_of_int [simp]: "roundEven (of_int k) = k"
  by (simp add: roundEven_def)

lemma fl_zero [simp]: "fl 0 = 0"
  by (simp add: fl_def)

lemma fl_exponent:
  assumes "x \<noteq> 0"
  shows "2 ^ 52 * 2 powr of_int (\<lfloor>log 2 \<bar>x\<bar>\<rfloor> - 52) \<le> \<bar>x\<bar>"
proof -
  have "2 powr of_int \<lfloor>log 2 \<bar>x\<bar>\<rfloor> \<le> \<bar>x\<bar>"
    using assms floor_log_eq_powr_iff [of "\<bar>x\<bar>" 2 "\<lfloor>log 2 \<bar>x\<bar>\<rfloor>"] by simp
  moreover have "(2::real) powr of_int \<lfloor>log 2 \<bar>x\<bar>\<rfloor> = 2 ^ 52 * 2 powr of_int (\<lfloor>log 2 \<bar>x\<bar>\<rfloor> - 52)"
  proof -
    have "(2::real) ^ 52 = 2 powr 52" by simp
    then show ?thesis by (simp only: powr_add [symmetric]) simp
  qed
  ultimately show ?thesis by simp
qed

lemma fl_eval:
  assumes "2 ^ 52 * 2 powr of_int e \<le> \<bar>x\<bar>" "\<bar>x\<bar> < 2 ^ 53 * 2 powr of_int e"
  shows "fl x = of_int (roundEven (x / 2 powr of_int e)) * 2 powr of_int e"
proof -
  have p: "0 < (2::real) ^ 52 * 2 powr of_int e" by simp
  with assms(1) have nz: "x \<noteq> 0" by auto
  have a: "(2::real) ^ 52 * 2 powr of_int e = 2 powr of_int (e + 52)"
  proof -
    have "(2::real) ^ 52 = 2 powr 52" by simp
    then show ?thesis by (simp only: powr_add [symmetric]) (simp add: add.commute)
  qed
  have b: "(2::real) ^ 53 * 2 powr of_int e = 2 powr (of_int (e + 52) + 1)"
  proof -
    have "(2::real) ^ 53 = 2 powr 53" by simp
    then show ?thesis by (simp only: powr_add [symmetric]) (simp add: add.commute)
  qed
  have "\<lfloor>log 2 \<bar>x\<bar>\<rfloor> = e + 52"
    using assms nz unfolding a b
    by (subst floor_log_eq_powr_iff) simp_all
  then show ?thesis
    using nz by (simp add: fl_def)
qed

lemma fl_pos: "0 < x \<Longrightarrow> 0 < fl x"
proof -
  assume x: "0 < x"
  let ?e = "\<lfloor>log 2 \<bar>x\<bar>\<rfloor> - 52"
  have "2 ^ 52 * 2 powr of_int ?e \<le> x"
    using fl_exponent [of x] x by simp
  then have "2 ^ 52 \<le> x / 2 powr of_int ?e"
    by (simp add: field_simps)
  then have "(2::int) ^ 52 \<le> \<lfloor>x / 2 powr of_int ?e\<rfloor>"
    by (simp add: le_floor_iff)
  moreover have "(0::int) < 2 ^ 52" by simp
  ultimately have "0 < roundEven (x / 2 powr of_int ?e)"
    using roundEven_bounds(1) [of "x / 2 powr of_int ?e"] by linarith
  then show ?thesis
    using x by (simp add: fl_def Let_def)
qed

lemma fl_neg: "x < 0 \<Longrightarrow> fl x < 0"
proof -
  assume x: "x < 0"
  let ?e = "\<lfloor>log 2 \<bar>x\<bar>\<rfloor> - 52"
  have "2 ^ 52 * 2 powr of_int ?e \<le> - x"
    using fl_exponent [of x] x by simp
  then have "x / 2 powr of_int ?e \<le> - (2 ^ 52)"
    by (simp add: field_simps)
  then have "\<lfloor>x / 2 powr of_int ?e\<rfloor> \<le> - (2 ^ 52)"
    by (simp add: floor_le_iff)
  moreover have "(1::int) < 2 ^ 52" by simp
  ultimately have "roundEven (x / 2 powr of_int ?e) < 0"
    using roundEven_bounds(2) [of "x / 2 powr of_int ?e"] by linarith
  then show ?thesis
    using x by (simp add: fl_def Let_def mult_neg_pos)
qed

lemma fl_eq_zero_iff [simp]: "fl x = 0 \<longleftrightarrow> x = 0"
  using fl_pos [of x] fl_neg [of x] by (cases "x = 0") (auto simp: neq_iff)

lemma fl_nonneg: "0 \<le> x \<Longrightarrow> 0 \<le> fl x"
  using fl_pos [of x] by (cases "x = 0") (auto simp: less_le)


lemma powr_neg_nat: "(2::real) powr of_int (- int k) = 1 / 2 ^ k"
  by (simp add: powr_minus powr_realpow inverse_eq_divide)

lemma powr_pos_nat: "(2::real) powr of_int (int k) = 2 ^ k"
  by (simp add: powr_realpow)

lemma fl_eval_neg:
  assumes "2 ^ 52 \<le> \<bar>x\<bar> * 2 ^ k" "\<bar>x\<bar> * 2 ^ k < 2 ^ 53"
  shows "fl x = of_int (roundEven (x * 2 ^ k)) / 2 ^ k"
  using fl_eval [of "- int k" x] assms
  by (simp only: powr_neg_nat) (simp add: field_simps)

lemma fl_eval_pos:
  assumes "2 ^ 52 * 2 ^ k \<le> \<bar>x\<bar>" "\<bar>x\<bar> < 2 ^ 53 * 2 ^ k"
  shows "fl x = of_int (roundEven (x / 2 ^ k)) * 2 ^ k"
  using fl_eval [of "int k" x] assms
  by (simp only: powr_pos_nat)

lemma fl_of_int:
  assumes "\<bar>m\<bar> < 2 ^ 53"
  shows "fl (of_int m) = of_int m"
proof (cases "m = 0")
  case True
  then show ?thesis by simp
next
  case False
  let ?x = "real_of_int m"
  let ?l = "\<lfloor>log 2 \<bar>?x\<bar>\<rfloor>"
  have x1: "1 \<le> \<bar>?x\<bar>" using False by (simp flip: of_int_abs add: of_int_1_le_iff)
  have x2: "\<bar>?x\<bar> < 2 powr 53"
  proof -
    have "real_of_int \<bar>m\<bar> < real_of_int (2 ^ 53)" using assms by (simp only: of_int_less_iff)
    then show ?thesis by simp
  qed
  have "log 2 \<bar>?x\<bar> < 53"
    using x1 x2 by (subst log_less_iff) simp_all
  then have u: "?l \<le> 52" by (simp add: floor_le_iff)
  have "0 \<le> log 2 \<bar>?x\<bar>" using x1 by simp
  then have l: "0 \<le> ?l" by simp
  define k where "k = nat (52 - ?l)"
  have e: "?l - 52 = - int k" using u by (simp add: k_def)
  have "?x / 2 powr of_int (?l - 52) = of_int (m * 2 ^ k)"
    by (simp only: e powr_neg_nat) simp
  then have "fl ?x = of_int (m * 2 ^ k) * 2 powr of_int (?l - 52)"
    using False by (simp add: fl_def Let_def del: of_int_mult of_int_power)
  also have "\<dots> = ?x"
    by (simp only: e powr_neg_nat) simp
  finally show ?thesis .
qed

lemma fl_numeral: "numeral w < (2::int) ^ 53 \<Longrightarrow> fl (numeral w) = numeral w"
  using fl_of_int [of "numeral w"] by simp

lemma fl_neg_numeral: "numeral w < (2::int) ^ 53 \<Longrightarrow> fl (- numeral w) = - numeral w"
  using fl_of_int [of "- numeral w"] by simp

lemma fl_one [simp]: "fl 1 = 1"
  using fl_of_int [of 1] by simp

lemma fl_of_nat: "n < 2 ^ 53 \<Longrightarrow> fl (real n) = real n"
  using fl_of_int [of "int n"] by simp

subsection \<open>Sums and reasons of signal lists\<close>

lemma tagSum_Nil [simp]: "tagSum t [] = 0" by (simp add: tagSum_def)
lemma tagSum_append [simp]: "tagSum t (a @ b) = tagSum t a + tagSum t b" by (simp add: tagSum_def)
lemma botReasons_Nil [simp]: "botReasons [] = []" by (simp add: botReasons_def)
lemma botReasons_append [simp]: "botReasons (a @ b) = botReasons a @ botReasons b"
  by (induction a) (simp_all add: botReasons_def map_filter_simps split: option.splits)

lemma tagSum_botSignal [simp]: "tagSum Bot [botSignal w r] = w" "tagSum Human [botSignal w r] = 0"
  by (simp_all add: tagSum_def botSignal_def)
lemma tagSum_humanSignal [simp]: "tagSum Human [humanSignal w r] = w" "tagSum Bot [humanSignal w r] = 0"
  by (simp_all add: tagSum_def humanSignal_def)
lemma botReasons_single [simp]: "botReasons [botSignal w r] = [r]" "botReasons [humanSignal w ro] = []"
  by (simp_all add: botReasons_def botSignal_def humanSignal_def map_filter_simps)

lemma tagSum_botSignals [simp]:
  "tagSum Bot (botSignals label fs) = sum_list (map weight fs)" "tagSum Human (botSignals label fs) = 0"
  by (induction fs) (simp_all add: tagSum_def botSignals_def botSignal_def)
lemma tagSum_humanSignals [simp]:
  "tagSum Human (humanSignals fs) = sum_list (map weight fs)" "tagSum Bot (humanSignals fs) = 0"
  by (induction fs) (simp_all add: tagSum_def humanSignals_def humanSignal_def)
lemma botReasons_botSignals [simp]: "botReasons (botSignals label fs) = map (\<lambda>f. label @ reason f) fs"
  by (induction fs) (simp_all add: botReasons_def botSignals_def botSignal_def map_filter_simps)
lemma botReasons_humanSignals [simp]: "botReasons (humanSignals fs) = []"
  by (induction fs) (simp_all add: botReasons_def humanSignals_def humanSignal_def map_filter_simps)

lemma adds_refl: "adds [] st st" by (simp add: adds_def)
lemma adds_trans: "adds a st st1 \<Longrightarrow> adds b st1 st2 \<Longrightarrow> adds (a @ b) st st2"
  by (simp add: adds_def)

lemma forEachBot_fields:
  "botScore (forEachBot label fs st) = botScore st + sum_list (map weight fs)"
  "humanScore (forEachBot label fs st) = humanScore st"
  "reasons_s (forEachBot label fs st) = reasons_s st @ map (\<lambda>f. label @ reason f) fs"
  "details_s (forEachBot label fs st) = details_s st"
  by (induction fs arbitrary: st) (simp_all add: forEachBot_def pushBot_def)

lemma forEachHuman_fields:
  "botScore (forEachHuman fs st) = botScore st"
  "humanScore (forEachHuman fs st) = humanScore st + sum_list (map weight fs)"
  "reasons_s (forEachHuman fs st) = reasons_s st"
  "details_s (forEachHuman fs st) = details_s st"
  by (induction fs arbitrary: st) (simp_all add: forEachHuman_def)

lemma adds_forEachBot: "adds (botSignals label fs) st (forEachBot label fs st)"
  by (simp add: adds_def forEachBot_fields)

lemma adds_forEachHuman: "adds (humanSignals fs) st (forEachHuman fs st)"
  by (simp add: adds_def forEachHuman_fields)


lemma show_thresholds:
  "show_int timing_userToPassMin = ''300''" "show_int timing_passToLoginMin = ''100''"
  "show_nat trajectory_minPoints = ''3''" "show_int trajectory_minDistance = ''50''"
  by (simp_all add: show_int_def digitChar_def timing_userToPassMin_def timing_passToLoginMin_def
        trajectory_minPoints_def trajectory_minDistance_def)

lemma adds_parseStep: "adds [] st (parseStep P stats st)"
  by (simp add: adds_def parseStep_def Let_def)

lemma parseStep_patterns:
  "userPattern (details_s (parseStep P stats st)) = do_parsePattern P (userTp stats)"
  "passPattern (details_s (parseStep P stats st)) = do_parsePattern P (passTp stats)"
  by (simp_all add: parseStep_def Let_def userTp_def passTp_def)

lemma adds_seekDistributionStep:
  "adds (if length (seekTimes (raw pat)) > 4
         then botSignals label (detectGaussianPattern (Some (seekDistribution P pat))) else [])
        st (seekDistributionStep P label store pat st)"
  by (simp add: seekDistributionStep_def seekDistribution_def Let_def adds_def forEachBot_fields)

lemma seekDistributionStep_user:
  "passPattern (details_s (seekDistributionStep P label (\<lambda>d ds. ds\<lparr>userSeekDistribution := Some d\<rparr>) pat st))
     = passPattern (details_s st)"
  by (simp add: seekDistributionStep_def Let_def forEachBot_fields)

lemma adds_userStep:
  "adds (fieldSignals P ''[Username] '' ''[Username SeekTime] '' (userPattern (details_s st)))
        st (userStep P st)"
proof (cases "userPattern (details_s st)")
  case None
  then show ?thesis by (simp add: userStep_def fieldSignals_def adds_refl)
next
  case (Some pat)
  let ?ua = "analyzeFieldTyping (Some pat)"
  let ?st1 = "st\<lparr>details_s := (details_s st)\<lparr>userAnalysis := Some ?ua\<rparr>\<rparr>"
  have 1: "adds (botSignals ''[Username] '' (botFlags ?ua)) st (forEachBot ''[Username] '' (botFlags ?ua) ?st1)"
    by (simp add: adds_def forEachBot_fields)
  have 2: "adds (humanSignals (humanFlags ?ua)) (forEachBot ''[Username] '' (botFlags ?ua) ?st1)
             (forEachHuman (humanFlags ?ua) (forEachBot ''[Username] '' (botFlags ?ua) ?st1))"
    by (rule adds_forEachHuman)
  show ?thesis
    using adds_trans [OF 1 adds_trans [OF 2 adds_seekDistributionStep]] Some
    by (simp add: userStep_def fieldSignals_def Let_def)
qed

lemma userStep_passPattern: "passPattern (details_s (userStep P st)) = passPattern (details_s st)"
  by (simp add: userStep_def Let_def seekDistributionStep_user forEachBot_fields forEachHuman_fields
      split: option.splits)

lemma adds_passStep:
  "adds (fieldSignals P ''[Password] '' ''[Password SeekTime] '' (passPattern (details_s st)))
        st (passStep P st)"
proof (cases "passPattern (details_s st)")
  case None
  then show ?thesis by (simp add: passStep_def fieldSignals_def adds_refl)
next
  case (Some pat)
  let ?pa = "analyzeFieldTyping (Some pat)"
  let ?st1 = "st\<lparr>details_s := (details_s st)\<lparr>passAnalysis := Some ?pa\<rparr>\<rparr>"
  have 1: "adds (botSignals ''[Password] '' (botFlags ?pa)) st (forEachBot ''[Password] '' (botFlags ?pa) ?st1)"
    by (simp add: adds_def forEachBot_fields)
  have 2: "adds (humanSignals (humanFlags ?pa)) (forEachBot ''[Password] '' (botFlags ?pa) ?st1)
             (forEachHuman (humanFlags ?pa) (forEachBot ''[Password] '' (botFlags ?pa) ?st1))"
    by (rule adds_forEachHuman)
  show ?thesis
    using adds_trans [OF 1 adds_trans [OF 2 adds_seekDistributionStep]] Some
    by (simp add: passStep_def fieldSignals_def Let_def)
qed

lemma adds_timingStep: "adds (timingSignals stats) st (timingStep stats st)"
  by (simp add: timingStep_def timingSignals_def adds_def pushBot_def ltOpt_def orZero_def
       show_thresholds Let_def split: option.splits)

lemma adds_trajectoryStep: "adds (trajectorySignals P stats) st (trajectoryStep P stats st)"
  by (simp add: trajectoryStep_def trajectorySignals_def adds_def pushBot_def forEachBot_fields
       Let_def trajectory_minPoints_def trajectory_minDistance_def show_int_def digitChar_def
       split: option.splits)

lemma adds_pasteStep: "adds (pasteSignals stats) st (pasteStep stats st)"
  by (simp add: pasteStep_def pasteSignals_def adds_def pushBot_def Let_def)

lemma adds_imeStep: "adds (imeSignals stats) st (imeStep stats st)"
  by (simp add: imeStep_def imeSignals_def adds_def Let_def)

lemma adds_shiftStep: "adds (shiftSignals stats) st (shiftStep stats st)"
  by (simp add: shiftStep_def shiftSignals_def adds_def Let_def)

lemma adds_passwordStep:
  "adds (botSignals [] (flags_pm (detectPasswordMismatch stats))) st (passwordStep stats st)"
  by (simp add: passwordStep_def adds_def forEachBot_fields Let_def)

lemma adds_webdriverStep:
  "adds (botSignals ''[Automation] '' (detectWebDriver stats)) st (webdriverStep stats st)"
  by (simp add: webdriverStep_def adds_forEachBot)

lemma adds_syntheticStep:
  "adds (botSignals ''[Events] '' (detectSyntheticEvents stats)) st (syntheticStep stats st)"
  by (simp add: syntheticStep_def adds_forEachBot)

lemma adds_runDetectors: "adds (triggered P stats) initial (runDetectors P stats)"
proof -
  let ?s1 = "parseStep P stats initial"
  let ?s2 = "userStep P ?s1"
  have u: "adds (fieldSignals P ''[Username] '' ''[Username SeekTime] '' (do_parsePattern P (userTp stats)))
             ?s1 ?s2"
    using adds_userStep [of P ?s1] by (simp add: parseStep_patterns)
  have p: "adds (fieldSignals P ''[Password] '' ''[Password SeekTime] '' (do_parsePattern P (passTp stats)))
             ?s2 (passStep P ?s2)"
    using adds_passStep [of P ?s2] by (simp add: userStep_passPattern parseStep_patterns)
  note c1 = adds_trans [OF adds_parseStep [of initial P stats] u]
  note c2 = adds_trans [OF c1 p]
  note c3 = adds_trans [OF c2 adds_timingStep [of stats]]
  note c4 = adds_trans [OF c3 adds_trajectoryStep [of P stats]]
  note c5 = adds_trans [OF c4 adds_pasteStep [of stats]]
  note c6 = adds_trans [OF c5 adds_imeStep [of stats]]
  note c7 = adds_trans [OF c6 adds_shiftStep [of stats]]
  note c8 = adds_trans [OF c7 adds_passwordStep [of stats]]
  note c9 = adds_trans [OF c8 adds_webdriverStep [of stats]]
  note c10 = adds_trans [OF c9 adds_syntheticStep [of stats]]
  show ?thesis
    using c10 by (simp add: triggered_def runDetectors_def)
qed

lemma runDetectors_scores:
  "botScore (runDetectors P stats) = tagSum Bot (triggered P stats)"
  "humanScore (runDetectors P stats) = tagSum Human (triggered P stats)"
  "reasons_s (runDetectors P stats) = botReasons (triggered P stats)"
  using adds_runDetectors [of P stats] by (simp_all add: adds_def initial_def)

lemma botReasons_fieldSignals:
  "botReasons (fieldSignals P label distLabel pattern) = fieldReasons P label distLabel pattern"
  by (simp add: fieldSignals_def fieldReasons_def labelled_def split: option.splits)

lemma botReasons_human_groups:
  "botReasons (imeSignals stats) = []" "botReasons (shiftSignals stats) = []"
  by (simp_all add: imeSignals_def shiftSignals_def)

lemma botReasons_triggered:
  "botReasons (triggered P stats) =
     fieldReasons P ''[Username] '' ''[Username SeekTime] '' (do_parsePattern P (userTp stats)) @
     fieldReasons P ''[Password] '' ''[Password SeekTime] '' (do_parsePattern P (passTp stats)) @
     botReasons (timingSignals stats) @
     botReasons (trajectorySignals P stats) @
     botReasons (pasteSignals stats) @
     labelled [] (flags_pm (detectPasswordMismatch stats)) @
     labelled ''[Automation] '' (detectWebDriver stats) @
     labelled ''[Events] '' (detectSyntheticEvents stats)"
  by (simp add: triggered_def botReasons_fieldSignals botReasons_human_groups labelled_def)

subsection \<open>The confidence computation\<close>

lemma confidenceOf_spec: "confidenceOf b h = specConfidence b h"
  by (simp add: confidenceOf_def specConfidence_def Math_round_def round_def Let_def algebra_simps)

lemma confidenceOf_zero: "confidenceOf 0 0 = 0"
  by (simp add: confidenceOf_def)

lemma confidenceOf_full: "b > 0 \<Longrightarrow> confidenceOf b 0 = 100"
  by (simp add: confidenceOf_def Math_round_def)

lemma confidenceOf_mono: "b1 \<le> b2 \<Longrightarrow> confidenceOf b1 h \<le> confidenceOf b2 h"
proof (cases "b1 + h = 0")
  case True
  then show ?thesis by (simp add: confidenceOf_def Math_round_def Let_def)
next
  case False
  assume le: "b1 \<le> b2"
  from False le have pos: "0 < real b1 + real h" "0 < real b2 + real h" by linarith+
  have "real b1 * (real b2 + real h) \<le> real b2 * (real b1 + real h)"
    using le by (simp add: algebra_simps mult_right_mono)
  then have "real b1 / (real b1 + real h) \<le> real b2 / (real b2 + real h)"
    using pos by (simp add: frac_le_eq divide_simps mult.commute)
  then have "real b1 / (real b1 + real h) * 100 \<le> real b2 / (real b2 + real h) * 100"
    by (rule mult_right_mono) simp
  then have "real b1 / (real b1 + real h) * 100 + 1 / 2 \<le> real b2 / (real b2 + real h) * 100 + 1 / 2"
    by (rule add_right_mono)
  then have "\<lfloor>real b1 / (real b1 + real h) * 100 + 1 / 2\<rfloor> \<le> \<lfloor>real b2 / (real b2 + real h) * 100 + 1 / 2\<rfloor>"
    by (rule floor_mono)
  with False le show ?thesis
    by (simp add: confidenceOf_def Math_round_def Let_def)
qed

lemma analyze_Some:
  "resolveParser parserArg ambient = Some P \<Longrightarrow> analyze stats parserArg ambient = finish (runDetectors P stats)"
  by (simp add: analyze_def)

lemma ta_confidence_spec:
  "ta_confidence (analyzeLogin stats) =
     specConfidence (bot_s (ta_scores (analyzeLogin stats))) (human_s (ta_scores (analyzeLogin stats)))"
  unfolding analyzeLogin_def 
  by (simp add: ta_finish_def Let_def confidenceOf_spec [symmetric] confidenceOf_def)

text \<open>
  The source rounds \<open>(botScore / totalScore) * 100\<close> on doubles, the model on exact
  reals. The two can only differ where \<open>100 * botScore / totalScore\<close> is exactly a
  half-integer, as at the scores 23 and 17; the human score of \<open>analyze\<close> never
  exceeds 16 and that of \<open>analyzeLogin\<close> never exceeds 14.
\<close>

lemma humanFlags_weight: "sum_list (map weight (humanFlags (analyzeFieldTyping pattern))) \<le> 4"
  by (simp add: analyzeFieldTyping_def split: option.splits)

lemma fieldSignals_human: "tagSum Human (fieldSignals P label distLabel pattern) \<le> 4"
  using humanFlags_weight by (simp add: fieldSignals_def split: option.splits)

lemma humanScore_bound: "tagSum Human (triggered P stats) \<le> 16"
proof -
  have t: "tagSum Human (trajectorySignals P stats) \<le> 2"
    by (simp add: trajectorySignals_def Let_def split: option.splits)
  have o: "tagSum Human (timingSignals stats) = 0" "tagSum Human (pasteSignals stats) = 0"
    "tagSum Human (imeSignals stats) \<le> 3" "tagSum Human (shiftSignals stats) \<le> 3"
    by (simp_all add: timingSignals_def pasteSignals_def imeSignals_def shiftSignals_def)
  show ?thesis
    using fieldSignals_human [of P "''[Username] ''" "''[Username SeekTime] ''" "do_parsePattern P (userTp stats)"]
      fieldSignals_human [of P "''[Password] ''" "''[Password SeekTime] ''" "do_parsePattern P (passTp stats)"]
      t o
    by (simp add: triggered_def)
qed

lemmas step_defs = parseStep_def userStep_def passStep_def timingStep_def trajectoryStep_def
  pasteStep_def imeStep_def shiftStep_def passwordStep_def webdriverStep_def syntheticStep_def
  seekDistributionStep_def forEachBot_def forEachHuman_def pushBot_def initial_def emptyDetails_def
  runDetectors_def finish_def analyze_def resolveParser_def

lemmas detector_defs = detectWebDriver_def detectSyntheticEvents_def detectPasswordMismatch_def
  detectTrajectoryAutomation_def botFlag_def gtZero_def orZero_def orElse_def

lemmas catalog_defs = triggered_def fieldSignals_def timingSignals_def trajectorySignals_def
  pasteSignals_def imeSignals_def shiftSignals_def botSignals_def humanSignals_def
  botSignal_def humanSignal_def userTp_def passTp_def ltOpt_def tagSum_def

lemma parse_None: "do_parsePattern TypingParser None = None"
  by (simp add: TypingParser_def parsePattern_def)

lemma triggered_noStats: "triggered TypingParser noStats = []"
  by (simp add: catalog_defs detector_defs noStats_def parse_None)

lemma triggered_seleniumOnly:
  "triggered TypingParser seleniumOnly = [botSignal 5 ''[Automation] Selenium WebDriver detected'']"
  by (simp add: catalog_defs detector_defs seleniumOnly_def noStats_def noFlags_def parse_None)

lemma triggered_fastWithIme:
  "triggered TypingParser fastWithIme =
     [botSignal 2 ''Username to password too fast (100ms < 300ms)'',
      botSignal 2 ''Password to login too fast (50ms < 100ms)'',
      humanSignal 3 None]"
  by (simp add: catalog_defs detector_defs fastWithIme_def noStats_def parse_None
        timing_userToPassMin_def timing_passToLoginMin_def show_int_def digitChar_def)

subsection \<open>Evaluation\<close>

lemmas ta_defs = analyzeLogin_def ta_finish_def ta_shiftStep_def ta_imeStep_def ta_pasteStep_def
  ta_trajectoryStep_def ta_timingStep_def ta_fieldStep_def ta_initial_def ta_push_def
  ta_parsePattern_def ta_analyzeFieldTyping_def optStr_def ltOpt_def gtOpt_def

lemmas parse_defs = parsePattern_def parseKeystroke_def parseInt_def at_index_def orZero_def
  isDigitOf_def digitValue_def digitsValue_def isWhiteSpace_def

lemmas threshold_defs = seekTime_tooFast_def seekTime_botMax_def
  seekTime_uniformStdMax_def pressTime_botMax_def pressTime_uniformStdMax_def
  antiBot_seekTimeMinRange_def seekTime_humanMin_def pressTime_humanMin_def
  timing_userToPassMin_def timing_passToLoginMin_def trajectory_minPoints_def
  trajectory_minDistance_def decision_botProbabilityThreshold_def

lemma calcStats_single: "calcStats [a] = \<lparr>avg = a, min_of = a, max_of = a, std = 0, range_of = 0\<rparr>"
  by (simp add: calcStats_def reduce_def Math_round_def Let_def)

subsection \<open>The steps of analyzeLogin against its catalog\<close>

lemma ta_adds_refl: "ta_adds [] st st" by (simp add: ta_adds_def)

lemma ta_adds_trans: "ta_adds a st st1 \<Longrightarrow> ta_adds b st1 st2 \<Longrightarrow> ta_adds (a @ b) st st2"
  by (simp add: ta_adds_def)

lemma ta_reasons_foldl:
  "ta_botScore (foldl (\<lambda>s f. s\<lparr>ta_reasons := ta_reasons s @ [label @ ta_reason f]\<rparr>) st fs) = ta_botScore st"
  "ta_humanScore (foldl (\<lambda>s f. s\<lparr>ta_reasons := ta_reasons s @ [label @ ta_reason f]\<rparr>) st fs) = ta_humanScore st"
  "ta_reasons (foldl (\<lambda>s f. s\<lparr>ta_reasons := ta_reasons s @ [label @ ta_reason f]\<rparr>) st fs) =
     ta_reasons st @ map (\<lambda>f. label @ ta_reason f) fs"
  by (induction fs arbitrary: st) simp_all

lemma ta_flag_signals:
  "tagSum Bot (map (\<lambda>f. botSignal w (g f)) fs) = length fs * w"
  "tagSum Human (map (\<lambda>f. botSignal w (g f)) fs) = 0"
  "botReasons (map (\<lambda>f. botSignal w (g f)) fs) = map g fs"
  "tagSum Bot (map (\<lambda>f. humanSignal w (h f)) fs) = 0"
  "tagSum Human (map (\<lambda>f. humanSignal w (h f)) fs) = length fs * w"
  "botReasons (map (\<lambda>f. humanSignal w (h f)) fs) = []"
  by (induction fs)
     (simp_all add: tagSum_def botReasons_def botSignal_def humanSignal_def List.map_filter_simps)

lemma ta_adds_fieldStep: "ta_adds (ta_fieldSignals label tp) st (ta_fieldStep label store tp st)"
  by (simp add: ta_adds_def ta_fieldStep_def ta_fieldSignals_def Let_def ta_reasons_foldl
        ta_flag_signals)

lemma ta_adds_timingStep: "ta_adds (ta_timingSignals stats) st (ta_timingStep stats st)"
  by (simp add: ta_adds_def ta_timingStep_def ta_timingSignals_def ta_push_def Let_def ltOpt_def
        orZero_def show_thresholds split: option.splits)

lemma ta_adds_trajectoryStep: "ta_adds (ta_trajectorySignals stats) st (ta_trajectoryStep stats st)"
  by (simp add: ta_adds_def ta_trajectoryStep_def ta_trajectorySignals_def ta_push_def Let_def
        trajectory_minPoints_def trajectory_minDistance_def show_int_def digitChar_def
        split: option.splits)

lemma ta_adds_pasteStep: "ta_adds (pasteSignals stats) st (ta_pasteStep stats st)"
  by (simp add: ta_adds_def ta_pasteStep_def pasteSignals_def ta_push_def Let_def)

lemma ta_adds_imeStep: "ta_adds (ta_imeSignals stats) st (ta_imeStep stats st)"
  by (simp add: ta_adds_def ta_imeStep_def ta_imeSignals_def Let_def)

lemma ta_adds_shiftStep: "ta_adds (ta_shiftSignals stats) st (ta_shiftStep stats st)"
  by (simp add: ta_adds_def ta_shiftStep_def ta_shiftSignals_def ta_push_def Let_def not_less
        split: option.splits)

lemma ta_adds_all:
  "ta_adds (ta_triggered stats) ta_initial
     (ta_shiftStep stats
       (ta_imeStep stats
         (ta_pasteStep stats
           (ta_trajectoryStep stats
             (ta_timingStep stats
               (ta_fieldStep ''[Password] '' (\<lambda>d ds. ds\<lparr>ta_password := Some d\<rparr>) (passTp stats)
                 (ta_fieldStep ''[Username] '' (\<lambda>d ds. ds\<lparr>ta_username := Some d\<rparr>) (userTp stats)
                    ta_initial)))))))"
proof -
  note c1 = ta_adds_fieldStep [of "''[Username] ''" "userTp stats" ta_initial
      "\<lambda>d ds. ds\<lparr>ta_username := Some d\<rparr>"]
  note c2 = ta_adds_trans [OF c1 ta_adds_fieldStep [of "''[Password] ''" "passTp stats" _
        "\<lambda>d ds. ds\<lparr>ta_password := Some d\<rparr>"]]
  note c3 = ta_adds_trans [OF c2 ta_adds_timingStep [of stats]]
  note c4 = ta_adds_trans [OF c3 ta_adds_trajectoryStep [of stats]]
  note c5 = ta_adds_trans [OF c4 ta_adds_pasteStep [of stats]]
  note c6 = ta_adds_trans [OF c5 ta_adds_imeStep [of stats]]
  note c7 = ta_adds_trans [OF c6 ta_adds_shiftStep [of stats]]
  show ?thesis
    using c7 by (simp add: ta_triggered_def)
qed

lemma analyzeLogin_scores:
  "ta_scores (analyzeLogin stats) =
     \<lparr>bot_s = tagSum Bot (ta_triggered stats), human_s = tagSum Human (ta_triggered stats)\<rparr>"
  "ta_reasons_r (analyzeLogin stats) = botReasons (ta_triggered stats)"
  using ta_adds_all [of stats]
  by (simp_all add: analyzeLogin_def ta_finish_def Let_def ta_adds_def ta_initial_def
      userTp_def passTp_def)

lemma ta_humanFlags_length: "length (ta_humanFlags (ta_analyzeFieldTyping pattern)) \<le> 3"
  by (simp add: ta_analyzeFieldTyping_def Let_def split: option.splits)

lemma ta_humanScore_bound: "tagSum Human (ta_triggered stats) \<le> 14"
proof -
  have f: "tagSum Human (ta_fieldSignals label tp) \<le> 3" for label tp
    using ta_humanFlags_length [of "ta_parsePattern tp"]
    by (simp add: ta_fieldSignals_def Let_def ta_flag_signals)
  have o: "tagSum Human (ta_timingSignals stats) = 0" "tagSum Human (pasteSignals stats) = 0"
    "tagSum Human (ta_trajectorySignals stats) \<le> 2"
    "tagSum Human (ta_imeSignals stats) \<le> 3" "tagSum Human (ta_shiftSignals stats) \<le> 3"
    by (simp_all add: ta_timingSignals_def pasteSignals_def ta_imeSignals_def ta_shiftSignals_def
        ta_trajectorySignals_def Let_def split: option.splits)
  show ?thesis
    using f [of "''[Username] ''" "userTp stats"] f [of "''[Password] ''" "passTp stats"] o
    by (simp add: ta_triggered_def)
qed

lemmas ta_catalog_defs = ta_triggered_def ta_fieldSignals_def ta_timingSignals_def
  ta_trajectorySignals_def pasteSignals_def ta_imeSignals_def ta_shiftSignals_def userTp_def
  passTp_def ltOpt_def gtOpt_def optStr_def ta_parsePattern_def ta_analyzeFieldTyping_def

lemma ta_triggered_noStats: "ta_triggered noStats = []"
  by (simp add: ta_catalog_defs detector_defs noStats_def Let_def)

lemma ta_triggered_fastWithIme:
  "ta_triggered fastWithIme =
     [botSignal 2 ''Username to password interval too short (100ms < 300ms)'',
      botSignal 2 ''Password to login interval too short (50ms < 100ms)'',
      humanSignal 3 None]"
  by (simp add: ta_catalog_defs detector_defs fastWithIme_def noStats_def Let_def
        timing_userToPassMin_def timing_passToLoginMin_def show_int_def digitChar_def)

lemma ta_triggered_twoPointsCounted:
  "ta_triggered twoPointsCounted = [botSignal 1 ''Too few mouse trajectory points (2 < 3)'']"
  by (simp add: ta_catalog_defs detector_defs twoPointsCounted_def noStats_def Let_def
        show_int_def digitChar_def)

section \<open>The claims\<close>

subsection \<open>C1: the confidence formula\<close>

text \<open>
  C1. Whenever \<open>analyze\<close> has a parser to run with, the scores it returns are the sums of
  the weights of the triggered bot-tagged and human-tagged signals, and the confidence is
  \<open>round(100 * botScore / (botScore + humanScore))\<close>: 0 when both scores are 0, and
  exactly 100 when the human score is 0 and the bot score is positive. The same holds of
  \<open>analyzeLogin\<close> on every request: its two scores are the sums of the weights of the
  signals its sections trigger, and its confidence is the same function of them.
\<close>

theorem confidence_formula:
  assumes "resolveParser parserArg ambient = Some P"
  shows "scores_r (analyze stats parserArg ambient) =
           Some \<lparr>bot_s = tagSum Bot (triggered P stats), human_s = tagSum Human (triggered P stats)\<rparr> \<and>
         confidence (analyze stats parserArg ambient) =
           specConfidence (tagSum Bot (triggered P stats)) (tagSum Human (triggered P stats)) \<and>
         (tagSum Bot (triggered P stats) = 0 \<and> tagSum Human (triggered P stats) = 0
            \<longrightarrow> confidence (analyze stats parserArg ambient) = 0) \<and>
         (tagSum Human (triggered P stats) = 0 \<and> tagSum Bot (triggered P stats) > 0
            \<longrightarrow> confidence (analyze stats parserArg ambient) = 100) \<and>
         ta_confidence (analyzeLogin stats) =
           specConfidence (bot_s (ta_scores (analyzeLogin stats))) (human_s (ta_scores (analyzeLogin stats))) \<and>
         ta_scores (analyzeLogin stats) =
           \<lparr>bot_s = tagSum Bot (ta_triggered stats), human_s = tagSum Human (ta_triggered stats)\<rparr> \<and>
         ta_confidence (analyzeLogin stats) =
           specConfidence (tagSum Bot (ta_triggered stats)) (tagSum Human (ta_triggered stats)) \<and>
         (tagSum Bot (ta_triggered stats) = 0 \<and> tagSum Human (ta_triggered stats) = 0
            \<longrightarrow> ta_confidence (analyzeLogin stats) = 0) \<and>
         (tagSum Human (ta_triggered stats) = 0 \<and> tagSum Bot (ta_triggered stats) > 0
            \<longrightarrow> ta_confidence (analyzeLogin stats) = 100)"
proof -
  have c: "confidence (analyze stats parserArg ambient) =
        confidenceOf (tagSum Bot (triggered P stats)) (tagSum Human (triggered P stats))"
    using assms by (simp add: analyze_Some finish_def Let_def runDetectors_scores)
  have s: "scores_r (analyze stats parserArg ambient) =
           Some \<lparr>bot_s = tagSum Bot (triggered P stats), human_s = tagSum Human (triggered P stats)\<rparr>"
    using assms by (simp add: analyze_Some finish_def Let_def runDetectors_scores)
  have a: "scores_r (analyze stats parserArg ambient) =
           Some \<lparr>bot_s = tagSum Bot (triggered P stats), human_s = tagSum Human (triggered P stats)\<rparr> \<and>
         confidence (analyze stats parserArg ambient) =
           specConfidence (tagSum Bot (triggered P stats)) (tagSum Human (triggered P stats)) \<and>
         (tagSum Bot (triggered P stats) = 0 \<and> tagSum Human (triggered P stats) = 0
            \<longrightarrow> confidence (analyze stats parserArg ambient) = 0) \<and>
         (tagSum Human (triggered P stats) = 0 \<and> tagSum Bot (triggered P stats) > 0
            \<longrightarrow> confidence (analyze stats parserArg ambient) = 100)"
    using c s confidenceOf_full [of "tagSum Bot (triggered P stats)"]
    by (auto simp: confidenceOf_spec [symmetric] confidenceOf_zero)
  have ts: "ta_scores (analyzeLogin stats) =
           \<lparr>bot_s = tagSum Bot (ta_triggered stats), human_s = tagSum Human (ta_triggered stats)\<rparr>"
    by (rule analyzeLogin_scores)
  have tc: "ta_confidence (analyzeLogin stats) =
           confidenceOf (tagSum Bot (ta_triggered stats)) (tagSum Human (ta_triggered stats))"
    using ta_confidence_spec [of stats] by (simp add: ts confidenceOf_spec)
  have b: "ta_confidence (analyzeLogin stats) =
           specConfidence (bot_s (ta_scores (analyzeLogin stats))) (human_s (ta_scores (analyzeLogin stats))) \<and>
         ta_scores (analyzeLogin stats) =
           \<lparr>bot_s = tagSum Bot (ta_triggered stats), human_s = tagSum Human (ta_triggered stats)\<rparr> \<and>
         ta_confidence (analyzeLogin stats) =
           specConfidence (tagSum Bot (ta_triggered stats)) (tagSum Human (ta_triggered stats)) \<and>
         (tagSum Bot (ta_triggered stats) = 0 \<and> tagSum Human (ta_triggered stats) = 0
            \<longrightarrow> ta_confidence (analyzeLogin stats) = 0) \<and>
         (tagSum Human (ta_triggered stats) = 0 \<and> tagSum Bot (ta_triggered stats) > 0
            \<longrightarrow> ta_confidence (analyzeLogin stats) = 100)"
    using tc ts ta_confidence_spec [of stats] confidenceOf_full [of "tagSum Bot (ta_triggered stats)"]
    by (auto simp: confidenceOf_spec [symmetric] confidenceOf_zero)
  from a b show ?thesis by (elim conjE, intro conjI) assumption+
qed

theorem confidence_formula_witness:
  "resolveParser (Some TypingParser) None = Some TypingParser \<and>
   tagSum Bot (triggered TypingParser noStats) = 0 \<and>
   tagSum Human (triggered TypingParser noStats) = 0 \<and>
   confidence (analyze noStats (Some TypingParser) None) = 0 \<and>
   tagSum Human (triggered TypingParser seleniumOnly) = 0 \<and>
   tagSum Bot (triggered TypingParser seleniumOnly) = 5 \<and>
   confidence (analyze seleniumOnly (Some TypingParser) None) = 100 \<and>
   scores_r (analyze fastWithIme (Some TypingParser) None) = Some \<lparr>bot_s = 4, human_s = 3\<rparr> \<and>
   confidence (analyze fastWithIme (Some TypingParser) None) = 57 \<and>
   ta_triggered noStats = [] \<and>
   ta_confidence (analyzeLogin noStats) = 0 \<and>
   ta_triggered twoPointsCounted = [botSignal 1 ''Too few mouse trajectory points (2 < 3)''] \<and>
   ta_scores (analyzeLogin twoPointsCounted) = \<lparr>bot_s = 1, human_s = 0\<rparr> \<and>
   ta_confidence (analyzeLogin twoPointsCounted) = 100 \<and>
   ta_triggered fastWithIme =
     [botSignal 2 ''Username to password interval too short (100ms < 300ms)'',
      botSignal 2 ''Password to login interval too short (50ms < 100ms)'',
      humanSignal 3 None] \<and>
   ta_scores (analyzeLogin fastWithIme) = \<lparr>bot_s = 4, human_s = 3\<rparr> \<and>
   ta_confidence (analyzeLogin fastWithIme) = 57"
proof -
  have r: "resolveParser (Some TypingParser) None = Some TypingParser"
    by (simp add: resolveParser_def)
  have v: "specConfidence 4 3 = 57"
    by (simp add: specConfidence_def round_def)
  show ?thesis
    using r v confidence_formula [OF r, of noStats] confidence_formula [OF r, of seleniumOnly]
      confidence_formula [OF r, of fastWithIme] confidence_formula [OF r, of twoPointsCounted]
    by (simp add: triggered_noStats triggered_seleniumOnly triggered_fastWithIme tagSum_def
          ta_triggered_noStats ta_triggered_fastWithIme ta_triggered_twoPointsCounted
          botSignal_def humanSignal_def)
qed

subsection \<open>C9: confidence is monotone in the bot score\<close>

text \<open>
  C9. With the human score fixed, a larger bot score never gives a smaller confidence
  (scores are natural numbers, so both are at least 0).
\<close>

theorem confidence_monotone_in_botScore:
  "b1 \<le> b2 \<Longrightarrow> confidenceOf b1 h \<le> confidenceOf b2 h"
  by (rule confidenceOf_mono)

theorem confidence_monotone_in_botScore_witness:
  "(1::nat) \<le> 3 \<and> confidenceOf 1 1 = 50 \<and> confidenceOf 3 1 = 75 \<and> confidenceOf 1 1 \<le> confidenceOf 3 1"
  using confidence_monotone_in_botScore [of 1 3 1]
  by (simp add: confidenceOf_def Math_round_def)

subsection \<open>C6: no parser\<close>

text \<open>
  C6. Called with no parser argument and with no ambient \<open>TypingParser\<close>, \<open>analyze\<close>
  returns \<open>{isBot: false, confidence: 0, reasons: []}\<close>, whatever the request; it has no
  other outcome there, so nothing is raised.
\<close>

theorem analyze_without_parser:
  "analyze stats None None =
     \<lparr>isBot = False, confidence = 0, reasons = [], details_r = None, scores_r = None\<rparr>"
  by (simp add: analyze_def resolveParser_def)

subsection \<open>C2: the verdict\<close>

text \<open>
  C2, as stated, fails on \<open>analyzeLogin\<close>: with both field changes too fast
  and one IME composition its scores are 4 and 3, the confidence is 57, and the verdict
  is bot, because \<open>analyzeLogin\<close> decides by \<open>botScore >= 3 || confidence > 60\<close>.
\<close>

theorem analyzeLogin_verdict_counterexample:
  "ta_scores (analyzeLogin fastWithIme) = \<lparr>bot_s = 4, human_s = 3\<rparr> \<and>
   ta_confidence (analyzeLogin fastWithIme) = 57 \<and>
   ta_isBot (analyzeLogin fastWithIme) \<noteq>
     (ta_confidence (analyzeLogin fastWithIme) > decision_botProbabilityThreshold)"
  by (simp add: ta_defs detector_defs fastWithIme_def noStats_def Let_def
        timing_userToPassMin_def timing_passToLoginMin_def show_int_def digitChar_def
        Math_round_def decision_botProbabilityThreshold_def)

text \<open>
  C2, amended. For every request and every choice of parser, the verdict of \<open>analyze\<close>
  is bot exactly when its confidence is strictly greater than \<open>botProbabilityThreshold\<close>,
  which is 70. \<open>analyzeLogin\<close> has its own rule: on every request its verdict is bot
  exactly when its bot score, the sum of the weights of its triggered bot-tagged signals,
  is at least 3 or its confidence is strictly greater than 60.
\<close>

theorem analyze_verdict_threshold:
  "isBot (analyze stats parserArg ambient) =
     (confidence (analyze stats parserArg ambient) > decision_botProbabilityThreshold) \<and>
   decision_botProbabilityThreshold = 70 \<and>
   ta_isBot (analyzeLogin stats) =
     (bot_s (ta_scores (analyzeLogin stats)) \<ge> 3 \<or> ta_confidence (analyzeLogin stats) > 60) \<and>
   ta_isBot (analyzeLogin stats) =
     (tagSum Bot (ta_triggered stats) \<ge> 3 \<or> ta_confidence (analyzeLogin stats) > 60)"
proof -
  have a: "isBot (analyze stats parserArg ambient) =
     (confidence (analyze stats parserArg ambient) > decision_botProbabilityThreshold)"
    by (cases "resolveParser parserArg ambient")
       (simp_all add: analyze_def finish_def Let_def decision_botProbabilityThreshold_def)
  have b: "decision_botProbabilityThreshold = 70"
    by (simp add: decision_botProbabilityThreshold_def)
  have c: "ta_isBot (analyzeLogin stats) =
     (bot_s (ta_scores (analyzeLogin stats)) \<ge> 3 \<or> ta_confidence (analyzeLogin stats) > 60)"
    unfolding analyzeLogin_def by (simp add: ta_finish_def Let_def)
  have d: "ta_isBot (analyzeLogin stats) =
     (tagSum Bot (ta_triggered stats) \<ge> 3 \<or> ta_confidence (analyzeLogin stats) > 60)"
    using c by (simp add: analyzeLogin_scores)
  from a b c d show ?thesis by (intro conjI)
qed

theorem analyze_verdict_threshold_witness:
  "isBot (analyze seleniumOnly (Some TypingParser) None) \<and>
   confidence (analyze seleniumOnly (Some TypingParser) None) = 100 \<and>
   \<not> isBot (analyze fastWithIme (Some TypingParser) None) \<and>
   confidence (analyze fastWithIme (Some TypingParser) None) = 57 \<and>
   ta_isBot (analyzeLogin fastWithIme) \<and>
   tagSum Bot (ta_triggered fastWithIme) = 4 \<and>
   ta_confidence (analyzeLogin fastWithIme) = 57 \<and>
   ta_isBot (analyzeLogin twoPointsCounted) \<and>
   tagSum Bot (ta_triggered twoPointsCounted) = 1 \<and>
   ta_confidence (analyzeLogin twoPointsCounted) = 100 \<and>
   \<not> ta_isBot (analyzeLogin humanTyping) \<and>
   tagSum Bot (ta_triggered humanTyping) = 0 \<and>
   ta_confidence (analyzeLogin humanTyping) = 0"
proof -
  have t1: "tagSum Bot (ta_triggered fastWithIme) = 4"
    "tagSum Bot (ta_triggered twoPointsCounted) = 1"
    by (simp_all add: ta_triggered_fastWithIme ta_triggered_twoPointsCounted tagSum_def
        botSignal_def humanSignal_def)
  have t2: "ta_confidence (analyzeLogin fastWithIme) = 57"
    "ta_confidence (analyzeLogin twoPointsCounted) = 100"
    by (simp_all add: ta_defs detector_defs fastWithIme_def twoPointsCounted_def noStats_def
        Let_def timing_userToPassMin_def timing_passToLoginMin_def trajectory_minPoints_def
        Math_round_def)
  have t3: "ta_scores (analyzeLogin humanTyping) = \<lparr>bot_s = 0, human_s = 9\<rparr>"
    "ta_confidence (analyzeLogin humanTyping) = 0"
    by (simp_all add: ta_defs detector_defs humanTyping_def noStats_def Let_def parse_defs
        ta_calcStats_def reduce_def threshold_defs Math_round_def)
  have t4: "tagSum Bot (ta_triggered humanTyping) = 0"
    using analyzeLogin_scores(1) [of humanTyping] by (simp add: t3)
  have "confidence (analyze seleniumOnly (Some TypingParser) None) = 100"
    by (simp add: step_defs detector_defs seleniumOnly_def noStats_def noFlags_def parse_None
          Let_def confidenceOf_def Math_round_def)
  moreover have "confidence (analyze fastWithIme (Some TypingParser) None) = 57"
    by (simp add: step_defs detector_defs fastWithIme_def noStats_def parse_None Let_def
          timing_userToPassMin_def timing_passToLoginMin_def confidenceOf_def Math_round_def)
  ultimately have a: "isBot (analyze seleniumOnly (Some TypingParser) None) \<and>
      confidence (analyze seleniumOnly (Some TypingParser) None) = 100 \<and>
      \<not> isBot (analyze fastWithIme (Some TypingParser) None) \<and>
      confidence (analyze fastWithIme (Some TypingParser) None) = 57"
    using analyze_verdict_threshold [of seleniumOnly "Some TypingParser" None]
      analyze_verdict_threshold [of fastWithIme "Some TypingParser" None]
    by simp
  have i1: "ta_isBot (analyzeLogin fastWithIme)"
    using analyze_verdict_threshold [of fastWithIme "Some TypingParser" None,
        THEN conjunct2, THEN conjunct2, THEN conjunct2] t1
    by simp
  have i2: "ta_isBot (analyzeLogin twoPointsCounted)"
    using analyze_verdict_threshold [of twoPointsCounted "Some TypingParser" None,
        THEN conjunct2, THEN conjunct2, THEN conjunct2] t2
    by simp
  have i3: "\<not> ta_isBot (analyzeLogin humanTyping)"
    using analyze_verdict_threshold [of humanTyping "Some TypingParser" None,
        THEN conjunct2, THEN conjunct2, THEN conjunct2] t3 t4
    by simp
  from a i1 i2 i3 t1 t2 t3(2) t4 show ?thesis
    by simp
qed

subsection \<open>C3: the returned reasons\<close>

lemma parse_600: "parsePattern (Some ''v|600,50'') =
  Some \<lparr>keystrokeCount = 1, seekTime = \<lparr>avg = 600, min_of = 600, max_of = 600, std = 0, range_of = 0\<rparr>,
        pressTime = \<lparr>avg = 50, min_of = 50, max_of = 50, std = 0, range_of = 0\<rparr>,
        longPauses = 1, keystrokes = [\<lparr>kSeekTime = 600, kPressTime = 50\<rparr>],
        raw = \<lparr>seekTimes = [600], pressTimes = [50]\<rparr>\<rparr>"
  by (simp add: parse_defs Let_def calcStats_single)

lemma field_600: "analyzeFieldTyping (parsePattern (Some ''v|600,50'')) =
   \<lparr>valid_f = True, botFlags = [],
    humanFlags = [\<lparr>weight = 1, reason = ''Normal key interval (600ms)''\<rparr>,
                  \<lparr>weight = 1, reason = ''Normal key press (50ms)''\<rparr>,
                  \<lparr>weight = 2, reason = ''Has long pauses (1x > 500ms)''\<rparr>]\<rparr>"
  by (simp add: parse_600 analyzeFieldTyping_def threshold_defs show_int_def digitChar_def)

text \<open>
  C3, as stated, fails: a username typed slowly with a long pause triggers
  three human flags, each with a reason string, and the request also has IME, Shift and
  CapsLock usage; the human score is 10 and the returned reasons are empty.
\<close>

theorem human_flag_reason_not_returned:
  "humanFlags (analyzeFieldTyping (parsePattern (Some ''v|600,50''))) =
     [\<lparr>weight = 1, reason = ''Normal key interval (600ms)''\<rparr>,
      \<lparr>weight = 1, reason = ''Normal key press (50ms)''\<rparr>,
      \<lparr>weight = 2, reason = ''Has long pauses (1x > 500ms)''\<rparr>] \<and>
   scores_r (analyze humanTyping (Some TypingParser) None) = Some \<lparr>bot_s = 0, human_s = 10\<rparr> \<and>
   reasons (analyze humanTyping (Some TypingParser) None) = []"
  using field_600
  by (simp add: step_defs detector_defs humanTyping_def noStats_def TypingParser_def parse_600
        parsePattern_def [of None] Let_def)

text \<open>
  C3, amended. Whenever \<open>analyze\<close> has a parser, the returned reasons are the reasons
  of the triggered bot-tagged signals, in detector invocation order: the two fields (field
  typing, then seek distribution, each behind its label), the timing, trajectory and paste
  reasons, the password mismatch (no label), and the automation and event flags behind
  theirs. Human-tagged flags (field typing, IME, Shift, CapsLock) give no reason.
\<close>

theorem reasons_are_bot_reasons_in_order:
  assumes "resolveParser parserArg ambient = Some P"
  shows "reasons (analyze stats parserArg ambient) =
           fieldReasons P ''[Username] '' ''[Username SeekTime] '' (do_parsePattern P (userTp stats)) @
           fieldReasons P ''[Password] '' ''[Password SeekTime] '' (do_parsePattern P (passTp stats)) @
           botReasons (timingSignals stats) @
           botReasons (trajectorySignals P stats) @
           botReasons (pasteSignals stats) @
           labelled [] (flags_pm (detectPasswordMismatch stats)) @
           labelled ''[Automation] '' (detectWebDriver stats) @
           labelled ''[Events] '' (detectSyntheticEvents stats) \<and>
         reasons (analyze stats parserArg ambient) = botReasons (triggered P stats) \<and>
         botReasons (humanSignals (humanFlags (analyzeFieldTyping pattern))) = [] \<and>
         botReasons (imeSignals stats) = [] \<and>
         botReasons (shiftSignals stats) = []"
proof -
  have "reasons (analyze stats parserArg ambient) = botReasons (triggered P stats)"
    using assms by (simp add: analyze_Some finish_def Let_def runDetectors_scores)
  then show ?thesis
    by (simp add: botReasons_triggered botReasons_human_groups)
qed

theorem reasons_are_bot_reasons_in_order_witness:
  "resolveParser (Some TypingParser) None = Some TypingParser \<and>
   triggered TypingParser fastWithIme =
     [botSignal 2 ''Username to password too fast (100ms < 300ms)'',
      botSignal 2 ''Password to login too fast (50ms < 100ms)'',
      humanSignal 3 None] \<and>
   reasons (analyze fastWithIme (Some TypingParser) None) =
     [''Username to password too fast (100ms < 300ms)'',
      ''Password to login too fast (50ms < 100ms)''] \<and>
   reasons (analyze seleniumOnly (Some TypingParser) None) =
     [''[Automation] Selenium WebDriver detected'']"
proof -
  have r: "resolveParser (Some TypingParser) None = Some TypingParser"
    by (simp add: resolveParser_def)
  show ?thesis
    using r reasons_are_bot_reasons_in_order [OF r, of fastWithIme, THEN conjunct2, THEN conjunct1]
      reasons_are_bot_reasons_in_order [OF r, of seleniumOnly, THEN conjunct2, THEN conjunct1]
    by (simp add: triggered_fastWithIme triggered_seleniumOnly botReasons_def botSignal_def
          humanSignal_def)
qed

subsection \<open>C4: a trajectory of two points\<close>

lemma traj_two: "analyzeTrajectory (Some (sampleOnly [pointAt 0 0, pointAt 10 0])) =
   \<lparr>valid = False, points = 0, distance = 0, smoothRatio = None,
                      correctionRatio = None, intervalStats = None\<rparr>"
  by (simp add: analyzeTrajectory_def analyzeTrajectoryWith_def sampleOnly_def)

lemma analyzeTrajectory_valid_points:
  "valid (analyzeTrajectoryWith f tr) \<Longrightarrow> \<not> points (analyzeTrajectoryWith f tr) < trajectory_minPoints"
  by (auto simp: analyzeTrajectoryWith_def Let_def trajectory_minPoints_def split: option.splits if_splits)

lemma analyzeLogin_counts_two_points:
  "ta_scores (analyzeLogin twoPointsCounted) = \<lparr>bot_s = 1, human_s = 0\<rparr> \<and>
   ta_reasons_r (analyzeLogin twoPointsCounted) = [''Too few mouse trajectory points (2 < 3)'']"
  by (simp add: ta_defs detector_defs twoPointsCounted_def noStats_def Let_def trajectory_minPoints_def
     show_int_def digitChar_def)

text \<open>
  C4. At the request that has nothing but a trajectory of two sampled points, the code
  marks the trajectory analysis invalid and then skips every trajectory check: no flag
  fires, both scores are 0 and no reason is returned. The check for too few points sits
  under the validity test, which already needs three points.
\<close>

theorem two_point_trajectory_fires_nothing:
  "valid (analyzeTrajectory (trajectory twoPoints)) = False \<and>
   scores_r (analyze twoPoints (Some TypingParser) None) = Some \<lparr>bot_s = 0, human_s = 0\<rparr> \<and>
   reasons (analyze twoPoints (Some TypingParser) None) = [] \<and>
   confidence (analyze twoPoints (Some TypingParser) None) = 0"
  by (simp add: step_defs detector_defs twoPoints_def noStats_def TypingParser_def traj_two
        parsePattern_def [of None] Let_def confidenceOf_def)

subsection \<open>C5: short and constant arrays\<close>

lemma analyzeDistribution_short: "length values < 4 \<Longrightarrow> analyzeDistribution values = Invalid"
  by (simp add: analyzeDistribution_def)

lemma foldl_nadd_exact:
  assumes "\<forall>x \<in> set vs. x = Some v"
    and "\<forall>k \<in> {1..j + length vs}. fl (real k * v) = real k * v"
  shows "foldl nadd (Some (real j * v)) vs = Some (real (j + length vs) * v)"
  using assms
proof (induction vs arbitrary: j)
  case Nil
  then show ?case by simp
next
  case (Cons x vs)
  have x: "x = Some v" using Cons.prems(1) by simp
  have "Suc j \<in> {1..j + length (x # vs)}" by simp
  then have "fl (real (Suc j) * v) = real (Suc j) * v"
    using Cons.prems(2) by blast
  then have step: "nadd (Some (real j * v)) x = Some (real (Suc j) * v)"
    by (simp add: nadd_def x algebra_simps)
  have "foldl nadd (Some (real (Suc j) * v)) vs = Some (real (Suc j + length vs) * v)"
    using Cons.prems by (intro Cons.IH) simp_all
  then show ?case
    by (simp add: step)
qed

lemma foldl_moment_const:
  "\<forall>x \<in> set vs. x = Some v \<Longrightarrow>
   foldl (\<lambda>sum x. nadd sum (npow (nsub x (Some v)) 2)) (Some 0) vs = Some 0"
  by (induction vs) (simp_all add: nadd_def nsub_def npow_def)

lemma analyzeDistribution_identical:
  assumes len: "length values \<ge> 4" and same: "\<forall>x \<in> set values. x = Some v"
    and exact: "\<forall>k \<in> {1..length values}. fl (real k * v) = real k * v"
  shows "analyzeDistribution values = Uniform"
proof -
  from len have n: "real (length values) \<noteq> 0" by auto
  have "foldl nadd (Some (real 0 * v)) values = Some (real (0 + length values) * v)"
    using same exact by (intro foldl_nadd_exact) simp_all
  then have sum: "reduce nadd (Some 0) values = Some (real (length values) * v)"
    by (simp add: reduce_def)
  have one: "fl v = v"
    using exact len by (auto dest: bspec [where x = 1])
  have m: "ndiv (reduce nadd (Some 0) values) (Some (real (length values))) = Some v"
    using n by (simp add: sum ndiv_def one)
  have var: "reduce (\<lambda>sum x. nadd sum (npow (nsub x (Some v)) 2)) (Some 0) values = Some 0"
    by (simp add: reduce_def foldl_moment_const [OF same])
  have v0: "ndiv (Some 0) (Some (real (length values))) = Some 0"
    by (simp add: ndiv_def)
  have s0: "nsqrt (Some 0) = Some 0"
    by (simp add: nsqrt_def)
  show ?thesis
    using len by (simp add: analyzeDistribution_def Let_def m var v0 s0)
qed

lemma exact_multiples_of_int:
  assumes "int n * \<bar>c\<bar> < 2 ^ 53" "k \<in> {1..n}"
  shows "fl (real k * real_of_int c) = real k * real_of_int c"
proof -
  have "int k * \<bar>c\<bar> \<le> int n * \<bar>c\<bar>"
    using assms(2) by (intro mult_right_mono) simp_all
  then have "\<bar>int k * c\<bar> < 2 ^ 53"
    using assms(1) by (simp add: abs_mult)
  then have "fl (of_int (int k * c)) = of_int (int k * c)"
    by (rule fl_of_int)
  then show ?thesis by simp
qed

lemma analyzeDistribution_identical_int:
  assumes len: "length ts \<ge> 4" and same: "\<forall>t \<in> set ts. t = c"
    and small: "int (length ts) * \<bar>c\<bar> < 2 ^ 53"
  shows "analyzeDistribution (map (\<lambda>t. Some (real_of_int t)) ts) = Uniform"
  using len same exact_multiples_of_int [OF small]
  by (intro analyzeDistribution_identical [where v = "real_of_int c"]) auto

text \<open>Arrays of one repeated number whose computed mean is another number.\<close>

lemma foldl_moment_pos:
  assumes "\<forall>x \<in> set vs. x = Some v" "v \<noteq> m" "vs \<noteq> [] \<or> 0 < a" "0 \<le> a"
  shows "\<exists>s. 0 < s \<and> foldl (\<lambda>sum x. nadd sum (npow (nsub x (Some m)) 2)) (Some a) vs = Some s"
  using assms
proof (induction vs arbitrary: a)
  case Nil
  then show ?case by simp
next
  case (Cons x vs)
  have x: "x = Some v" using Cons.prems(1) by simp
  define b where "b = fl (a + fl ((fl (v - m))\<^sup>2))"
  have "fl (v - m) \<noteq> 0" using Cons.prems(2) by simp
  then have "0 < (fl (v - m))\<^sup>2" by simp
  then have "0 < fl ((fl (v - m))\<^sup>2)" by (rule fl_pos)
  then have "0 < a + fl ((fl (v - m))\<^sup>2)" using Cons.prems(4) by simp
  then have b: "0 < b" unfolding b_def by (rule fl_pos)
  have step: "nadd (Some a) (npow (nsub x (Some m)) 2) = Some b"
    by (simp add: nadd_def npow_def nsub_def x b_def)
  have "\<exists>s. 0 < s \<and> foldl (\<lambda>sum x. nadd sum (npow (nsub x (Some m)) 2)) (Some b) vs = Some s"
    using Cons.prems b by (intro Cons.IH) simp_all
  then show ?case
    by (simp add: step)
qed

lemma analyzeDistribution_inexact_mean:
  assumes len: "length values \<ge> 4" and same: "\<forall>x \<in> set values. x = Some v"
    and m: "ndiv (reduce nadd (Some 0) values) (Some (real (length values))) = Some m"
    and neq: "v \<noteq> m"
  shows "hasMoments (analyzeDistribution values)"
proof -
  from len have ne: "values \<noteq> []" and n: "0 < real (length values)" by auto
  obtain s where s: "0 < s"
    "reduce (\<lambda>sum x. nadd sum (npow (nsub x (Some m)) 2)) (Some 0) values = Some s"
    using foldl_moment_pos [OF same neq, of 0] ne by (auto simp: reduce_def)
  have "0 < s / real (length values)" using s(1) n by simp
  then have v: "0 < fl (s / real (length values))" by (rule fl_pos)
  then have "0 < sqrt (fl (s / real (length values)))" by simp
  then have "0 < fl (sqrt (fl (s / real (length values))))" by (rule fl_pos)
  then have sd: "nsqrt (ndiv (Some s) (Some (real (length values)))) \<noteq> Some 0"
    using v s(1) ne by (simp add: nsqrt_def ndiv_def)
  show ?thesis
    using len sd by (simp add: analyzeDistribution_def Let_def m s(2) hasMoments_def)
qed

lemma tenth_sum1: "fl (0 + 3602879701896397 / 2 ^ 55) = 3602879701896397 / 2 ^ 55"
  by (subst fl_eval_neg [where k = 56]) (simp_all add: roundEven_def)
lemma tenth_sum2: "fl (3602879701896397 / 2 ^ 55 + 3602879701896397 / 2 ^ 55) = 3602879701896397 / 2 ^ 54"
  by (subst fl_eval_neg [where k = 55]) (simp_all add: roundEven_def)
lemma tenth_sum3: "fl (3602879701896397 / 2 ^ 54 + 3602879701896397 / 2 ^ 55) = 1351079888211149 / 2 ^ 52"
  by (subst fl_eval_neg [where k = 54]) (simp_all add: roundEven_def)
lemma tenth_sum4: "fl (1351079888211149 / 2 ^ 52 + 3602879701896397 / 2 ^ 55) = 3602879701896397 / 2 ^ 53"
  by (subst fl_eval_neg [where k = 54]) (simp_all add: roundEven_def)
lemma tenth_sum5: "fl (3602879701896397 / 2 ^ 53 + 3602879701896397 / 2 ^ 55) = 1 / 2 ^ 1"
  by (subst fl_eval_neg [where k = 53]) (simp_all add: roundEven_def)
lemma tenth_sum6: "fl (1 / 2 ^ 1 + 3602879701896397 / 2 ^ 55) = 5404319552844595 / 2 ^ 53"
  by (subst fl_eval_neg [where k = 53]) (simp_all add: roundEven_def)
lemma tenth_mean: "fl (5404319552844595 / 2 ^ 53 / 6) = 7205759403792793 / 2 ^ 56"
  by (subst fl_eval_neg [where k = 56]) (simp_all add: roundEven_def)

lemma sixTenths_mean:
  "ndiv (reduce nadd (Some 0) sixTenths) (Some (real (length sixTenths))) = Some (7205759403792793 / 2 ^ 56)"
proof -
  have "reduce nadd (Some 0) sixTenths = Some (5404319552844595 / 2 ^ 53)"
    unfolding sixTenths_def tenth_def reduce_def nadd_def
    by (simp only: foldl.simps option.case tenth_sum1 tenth_sum2 tenth_sum3 tenth_sum4 tenth_sum5
          tenth_sum6)
  moreover have "real (length sixTenths) = 6" by (simp add: sixTenths_def)
  ultimately show ?thesis
    unfolding ndiv_def by (simp only: option.case tenth_mean)
qed

text \<open>
  C5, as stated, fails on doubles: an array of six elements, all the number \<open>0.1\<close>, has
  at least 4 elements that are all the same number, but the sum of the six is rounded on
  the way and the computed mean is the double just below \<open>0.1\<close>; the standard deviation
  is then not 0 and \<open>analyzeDistribution\<close> returns the full summary, with skewness
  and kurtosis.
\<close>

theorem six_tenths_not_uniform:
  "length sixTenths \<ge> 4 \<and> set sixTenths = {Some tenth} \<and> fl (1 / 10) = tenth \<and>
   analyzeDistribution sixTenths \<noteq> Uniform \<and> hasMoments (analyzeDistribution sixTenths)"
proof -
  have a: "length sixTenths \<ge> 4" and b: "\<forall>x \<in> set sixTenths. x = Some tenth"
    by (simp_all add: sixTenths_def)
  have c: "tenth \<noteq> 7205759403792793 / 2 ^ 56" by (simp add: tenth_def)
  have d: "fl (1 / 10) = tenth"
    unfolding tenth_def by (subst fl_eval_neg [where k = 56]) (simp_all add: roundEven_def)
  have "hasMoments (analyzeDistribution sixTenths)"
    using a b sixTenths_mean c by (rule analyzeDistribution_inexact_mean)
  then have f: "hasMoments (analyzeDistribution sixTenths)"
    and g: "analyzeDistribution sixTenths \<noteq> Uniform"
    by (auto simp: hasMoments_def)
  have e: "set sixTenths = {Some tenth}" by (simp add: sixTenths_def)
  from a e d g f show ?thesis by blast
qed

text \<open>
  C5, amended. On an array of fewer than 4 elements \<open>analyzeDistribution\<close> returns
  \<open>{valid: false}\<close>. On an array of at least 4 elements that are all the same number
  \<open>v\<close> it returns \<open>{valid: true, isUniform: true}\<close>, an object without skewness and
  kurtosis, provided that the multiples \<open>v, 2 v, ..., n v\<close> of the running sum are all
  doubles (and below the largest double), so that no addition rounds. This is so for
  every array of one repeated integer \<open>c\<close> with \<open>n \<bar>c\<bar> < 2 ^ 53\<close>.
\<close>

theorem analyzeDistribution_short_or_exact_uniform:
  "(length values < 4 \<longrightarrow>
      analyzeDistribution values = Invalid \<and> \<not> valid_d (analyzeDistribution values)) \<and>
   (length values \<ge> 4 \<and> (\<forall>x \<in> set values. x = Some v) \<and>
    (\<forall>k \<in> {1..length values}. fl (real k * v) = real k * v) \<and>
    real (length values) * \<bar>v\<bar> < 2 ^ 1024 \<longrightarrow>
      analyzeDistribution values = Uniform \<and>
      valid_d (analyzeDistribution values) \<and> isUniform (analyzeDistribution values) \<and>
      \<not> hasMoments (analyzeDistribution values) \<and>
      field_d skewness (analyzeDistribution values) = None \<and>
      field_d kurtosis (analyzeDistribution values) = None) \<and>
   (length ts \<ge> 4 \<and> (\<forall>t \<in> set ts. t = c) \<and> int (length ts) * \<bar>c\<bar> < 2 ^ 53 \<longrightarrow>
      analyzeDistribution (map (\<lambda>t. Some (real_of_int t)) ts) = Uniform \<and>
      \<not> hasMoments (analyzeDistribution (map (\<lambda>t. Some (real_of_int t)) ts)))"
proof (intro conjI impI)
  assume "length values < 4"
  then show "analyzeDistribution values = Invalid" "\<not> valid_d (analyzeDistribution values)"
    by (simp_all add: analyzeDistribution_short valid_d_def)
next
  assume "length values \<ge> 4 \<and> (\<forall>x \<in> set values. x = Some v) \<and>
    (\<forall>k \<in> {1..length values}. fl (real k * v) = real k * v) \<and>
    real (length values) * \<bar>v\<bar> < 2 ^ 1024"
  then have u: "analyzeDistribution values = Uniform"
    by (intro analyzeDistribution_identical [where v = v]) simp_all
  then show "analyzeDistribution values = Uniform"
    "valid_d (analyzeDistribution values)" "isUniform (analyzeDistribution values)"
    "\<not> hasMoments (analyzeDistribution values)"
    "field_d skewness (analyzeDistribution values) = None"
    "field_d kurtosis (analyzeDistribution values) = None"
    by (simp_all add: valid_d_def isUniform_def hasMoments_def field_d_def)
next
  assume "length ts \<ge> 4 \<and> (\<forall>t \<in> set ts. t = c) \<and> int (length ts) * \<bar>c\<bar> < 2 ^ 53"
  then have u: "analyzeDistribution (map (\<lambda>t. Some (real_of_int t)) ts) = Uniform"
    by (intro analyzeDistribution_identical_int [where c = c]) simp_all
  then show "analyzeDistribution (map (\<lambda>t. Some (real_of_int t)) ts) = Uniform"
    "\<not> hasMoments (analyzeDistribution (map (\<lambda>t. Some (real_of_int t)) ts))"
    by (simp_all add: hasMoments_def)
qed

theorem analyzeDistribution_short_or_exact_uniform_witness:
  "length [Some 1, Some 2, Some (3::real)] < 4 \<and>
   analyzeDistribution [Some 1, Some 2, Some 3] = Invalid \<and>
   length [Some 120, Some 120, Some 120, Some (120::real)] \<ge> 4 \<and>
   fl 120 = 120 \<and> fl 240 = 240 \<and> fl 360 = 360 \<and> fl 480 = 480 \<and>
   analyzeDistribution [Some 120, Some 120, Some 120, Some 120] = Uniform \<and>
   \<not> hasMoments (analyzeDistribution [Some 120, Some 120, Some 120, Some 120]) \<and>
   analyzeDistribution (map (\<lambda>t. Some (real_of_int t)) [7, 7, 7, 7, 7]) = Uniform"
proof -
  have e: "\<forall>k \<in> {1..length [Some 120, Some 120, Some 120, Some (120::real)]}.
             fl (real k * 120) = real k * 120"
    using exact_multiples_of_int [of 4 120] by simp
  have f: "fl 120 = 120 \<and> fl 240 = 240 \<and> fl 360 = 360 \<and> fl 480 = 480"
    by (simp add: fl_numeral)
  show ?thesis
    using e f
      analyzeDistribution_short_or_exact_uniform [of "[Some 1, Some 2, Some 3]" 0 "[]" 0]
      analyzeDistribution_short_or_exact_uniform
        [of "[Some 120, Some 120, Some 120, Some 120]" 120 "[7, 7, 7, 7, 7]" 7]
    by (simp add: hasMoments_def)
qed

subsection \<open>C8: the summary statistics of a decoded pattern\<close>













subsection \<open>C7: the two angle bands\<close>

lemma turn_overlap:
  "turnAngle p0 p1 p2 = Some a \<Longrightarrow> 0.09 < a \<Longrightarrow> a < 0.1 \<Longrightarrow>
   turn p0 p1 p2 (s, c) = (s + 1, c + 1)"
  by (simp add: turn_def)

lemma sum_squares_pos:
  fixes a b :: real
  shows "a \<noteq> 0 \<or> b \<noteq> 0 \<Longrightarrow> 0 < a * a + b * b"
  by (metis add_pos_nonneg add_nonneg_pos mult.commute not_real_square_gt_zero zero_le_square)

lemma collinear_angle:
  fixes a b k :: real
  assumes nz: "a \<noteq> 0 \<or> b \<noteq> 0" and k: "k > 0"
  shows "(a * (k * a) + b * (k * b)) / (sqrt (a * a + b * b) * sqrt (k * a * (k * a) + k * b * (k * b))) = 1"
proof -
  define S where "S = a * a + b * b"
  have pos: "0 < S"
    unfolding S_def using nz by (rule sum_squares_pos)
  have e: "k * a * (k * a) + k * b * (k * b) = k\<^sup>2 * S"
    by (simp add: S_def power2_eq_square algebra_simps)
  have "sqrt (k * a * (k * a) + k * b * (k * b)) = k * sqrt S"
    using k by (simp add: e real_sqrt_mult)
  then have den: "sqrt (a * a + b * b) * sqrt (k * a * (k * a) + k * b * (k * b)) = k * S"
    using pos by (simp add: S_def [symmetric])
  have num: "a * (k * a) + b * (k * b) = k * S"
    by (simp add: S_def algebra_simps)
  have "k * S \<noteq> 0" using pos k by simp
  then have "k * S / (k * S) = 1" by simp
  then show ?thesis
    by (simp only: num den)
qed

lemma collinear_turnAngle:
  assumes "px p1 \<noteq> px p0 \<or> py p1 \<noteq> py p0" and "k > 0"
    and "px p2 - px p1 = k * (px p1 - px p0)" and "py p2 - py p1 = k * (py p1 - py p0)"
  shows "turnAngle p0 p1 p2 = Some 0"
proof -
  let ?a = "px p1 - px p0" and ?b = "py p1 - py p0"
  have nz: "?a \<noteq> 0 \<or> ?b \<noteq> 0" using assms(1) by auto
  have nz2: "k * ?a \<noteq> 0 \<or> k * ?b \<noteq> 0" using nz \<open>k > 0\<close> by auto
  have m1: "0 < sqrt (?a * ?a + ?b * ?b)"
    using sum_squares_pos [OF nz] by simp
  have m2: "0 < sqrt (k * ?a * (k * ?a) + k * ?b * (k * ?b))"
    using sum_squares_pos [OF nz2] by simp
  have "turnAngle p0 p1 p2 = Some (arccos (max (- 1) (min 1 1)))"
    unfolding turnAngle_def Let_def assms(3,4)
    by (simp only: m1 m2 collinear_angle [OF nz \<open>k > 0\<close>] simp_thms if_True)
  then show ?thesis by simp
qed

lemma round2_values: "round2 1 = 1" "round2 0 = 0"
  by (simp_all add: round2_def Math_round_def)

lemma three_collinear:
  assumes "sample tr = Some [p0, p1, p2]"
    and "px p1 \<noteq> px p0 \<or> py p1 \<noteq> py p0" and "k > 0"
    and "px p2 - px p1 = k * (px p1 - px p0)" and "py p2 - py p1 = k * (py p1 - py p0)"
  shows "smoothRatio (analyzeTrajectoryWith f (Some tr)) = Some 1"
    and "correctionRatio (analyzeTrajectoryWith f (Some tr)) = Some 0"
  using collinear_turnAngle [OF assms(2-5)] assms(1)
  by (simp_all add: analyzeTrajectoryWith_def Let_def turn_def round2_values)

lemma sum_upto_4: "(\<Sum>m<4. f m) = f 0 + f 1 + f 2 + f 3"
  for f :: "nat \<Rightarrow> real"
  by (simp add: numeral_eq_Suc lessThan_Suc)

lemma sum_upto_2: "(\<Sum>m<2. f m) = f 0 + f 1"
  for f :: "nat \<Rightarrow> real"
  by (simp add: numeral_eq_Suc lessThan_Suc)

lemma cos_coeff_values:
  "cos_coeff 0 = 1" "cos_coeff (Suc 0) = 0" "cos_coeff 2 = - 1 / 2" "cos_coeff 3 = 0"
  by (simp_all add: cos_coeff_def)

lemma ten_le_sqrt_101: "10 \<le> sqrt 101"
  by (rule real_le_rsqrt) simp

lemma cos_lower_quadratic:
  fixes x :: real
  assumes "0 < x"
  shows "1 - x\<^sup>2 / 2 \<le> cos x"
proof -
  obtain t where t: "cos x = (\<Sum>m<2. cos_coeff m * x ^ m) + (cos (t + 1/2 * real 2 * pi) / fact 2) * x ^ 2"
    using Maclaurin_cos_expansion2 [OF assms, of 2] by auto
  have s: "(\<Sum>m<2. cos_coeff m * x ^ m) = 1"
    by (simp add: sum_upto_2 cos_coeff_values)
  have "- 1 \<le> cos (t + 1/2 * real 2 * pi)" by (rule cos_ge_minus_one)
  then have "- 1 * (x\<^sup>2 / 2) \<le> cos (t + 1/2 * real 2 * pi) * (x\<^sup>2 / 2)"
    by (rule mult_right_mono) simp
  then show ?thesis
    unfolding t s by (simp add: eval_nat_numeral)
qed

lemma cos_upper_quartic:
  fixes x :: real
  assumes "0 < x"
  shows "cos x \<le> 1 - x\<^sup>2 / 2 + x ^ 4 / 24"
proof -
  obtain t where t: "cos x = (\<Sum>m<4. cos_coeff m * x ^ m) + (cos (t + 1/2 * real 4 * pi) / fact 4) * x ^ 4"
    using Maclaurin_cos_expansion2 [OF assms, of 4] by auto
  have s: "(\<Sum>m<4. cos_coeff m * x ^ m) = 1 - x\<^sup>2 / 2"
    by (simp add: sum_upto_4 cos_coeff_values)
  have f: "fact 4 = (24::real)" by (simp add: eval_nat_numeral)
  have "cos (t + 1/2 * real 4 * pi) \<le> 1" by (rule cos_le_one)
  then have "cos (t + 1/2 * real 4 * pi) * (x ^ 4 / 24) \<le> 1 * (x ^ 4 / 24)"
    by (rule mult_right_mono) simp
  then show ?thesis
    unfolding t s f by simp
qed

lemma borderline_cos: "cos (0.1::real) < 10 / sqrt 101" "10 / sqrt 101 < cos (0.09::real)"
proof -
  have u: "cos (0.1::real) \<le> 1 - (0.1)\<^sup>2 / 2 + (0.1) ^ 4 / 24"
    by (rule cos_upper_quartic) simp
  have l: "1 - (0.09)\<^sup>2 / 2 \<le> cos (0.09::real)"
    by (rule cos_lower_quadratic) simp
  have s1: "sqrt 101 < 10 / (1 - (0.1)\<^sup>2 / 2 + (0.1) ^ 4 / 24)"
    by (rule real_less_lsqrt) (simp_all add: power2_eq_square eval_nat_numeral)
  have s2: "10 / (1 - (0.09)\<^sup>2 / 2) < sqrt 101"
    by (rule real_less_rsqrt) (simp add: power2_eq_square)
  have p: "0 < sqrt 101" by simp
  from s1 have "1 - (0.1)\<^sup>2 / 2 + (0.1) ^ 4 / 24 < 10 / sqrt 101"
    using p by (simp add: field_simps)
  with u show "cos (0.1::real) < 10 / sqrt 101" by linarith
  from s2 have "10 / sqrt 101 < 1 - (0.09)\<^sup>2 / 2"
    using p by (simp add: field_simps)
  with l show "10 / sqrt 101 < cos (0.09::real)" by linarith
qed

lemma borderline_arccos: "0.09 < arccos (10 / sqrt 101)" "arccos (10 / sqrt 101) < 0.1"
proof -
  have pi3: "(2::real) \<le> pi" by (rule pi_ge_two)
  have a1: "arccos (cos (0.1::real)) = 0.1" using pi3 by (intro arccos_cos) simp_all
  have a2: "arccos (cos (0.09::real)) = 0.09" using pi3 by (intro arccos_cos) simp_all
  have "arccos (10 / sqrt 101) < arccos (cos (0.1::real))"
    using borderline_cos ten_le_sqrt_101 by (intro arccos_less_arccos) simp_all
  then show "arccos (10 / sqrt 101) < 0.1" by (simp only: a1)
  have "10 / sqrt 101 \<ge> - 1" by (rule order.trans [of _ 0]) simp_all
  then have "arccos (cos (0.09::real)) < arccos (10 / sqrt 101)"
    using borderline_cos by (intro arccos_less_arccos) simp_all
  then show "0.09 < arccos (10 / sqrt 101)" by (simp only: a2)
qed

lemma borderline_turnAngle:
  "turnAngle (pointAt 0 0) (pointAt 10 0) (pointAt 20 1) = Some (arccos (10 / sqrt 101))"
proof -
  have r: "sqrt 100 = 10" using real_sqrt_abs [of 10] by simp
  have c: "(10::real) / sqrt 101 \<le> 1" using ten_le_sqrt_101 by simp
  have "0 \<le> (10::real) / sqrt 101" by simp
  then have d: "\<not> (10::real) / sqrt 101 \<le> - 1" by linarith
  show ?thesis
    using c d by (simp add: turnAngle_def pointAt_def Let_def max_def min_def r)
qed

lemma turns_snoc:
  "length ps \<ge> 2 \<Longrightarrow>
   turns (ps @ [p]) cs = turn (ps ! (length ps - 2)) (ps ! (length ps - 1)) p (turns ps cs)"
  by (induction ps cs rule: turns.induct) simp_all

lemma turns_pass:
  assumes "2 \<le> i" "i < length pts"
  shows "turns (take (Suc i) pts) cs = turn (pts ! (i - 2)) (pts ! (i - 1)) (pts ! i) (turns (take i pts) cs)"
proof -
  have "take (Suc i) pts = take i pts @ [pts ! i]"
    using assms(2) by (rule take_Suc_conv_app_nth)
  moreover have "length (take i pts) = i" using assms(2) by simp
  moreover have "take i pts ! (i - 2) = pts ! (i - 2)" "take i pts ! (i - 1) = pts ! (i - 1)"
    using assms by simp_all
  ultimately show ?thesis
    using turns_snoc [of "take i pts" "pts ! i" cs] assms(1) by simp
qed

lemma turn_bands:
  "turn p0 p1 p2 (s, c) =
     (s + (if inSmoothBand (turnAngle p0 p1 p2) then 1 else 0),
      c + (if inCorrectionBand (turnAngle p0 p1 p2) then 1 else 0))"
  by (simp add: turn_def inSmoothBand_def inCorrectionBand_def split: option.splits)

lemma angleAt_append:
  assumes "i < length ps"
  shows "angleAt (ps @ [p]) i = angleAt ps i"
proof -
  have "i - 2 < length ps" "i - 1 < length ps" using assms by simp_all
  then show ?thesis
    unfolding angleAt_def using assms by (simp only: nth_append if_True)
qed

lemma passes_snoc:
  assumes "2 \<le> length ps"
  shows "smoothPasses (ps @ [p]) =
           smoothPasses ps @ (if inSmoothBand (angleAt (ps @ [p]) (length ps)) then [length ps] else [])"
    and "correctionPasses (ps @ [p]) =
           correctionPasses ps @
           (if inCorrectionBand (angleAt (ps @ [p]) (length ps)) then [length ps] else [])"
proof -
  have u: "[2..<length (ps @ [p])] = [2..<length ps] @ [length ps]"
    using assms by simp
  have "filter (\<lambda>i. inSmoothBand (angleAt (ps @ [p]) i)) [2..<length ps] =
        filter (\<lambda>i. inSmoothBand (angleAt ps i)) [2..<length ps]"
    by (rule filter_cong) (simp_all add: angleAt_append)
  then show "smoothPasses (ps @ [p]) =
           smoothPasses ps @ (if inSmoothBand (angleAt (ps @ [p]) (length ps)) then [length ps] else [])"
    unfolding smoothPasses_def u by simp
  have "filter (\<lambda>i. inCorrectionBand (angleAt (ps @ [p]) i)) [2..<length ps] =
        filter (\<lambda>i. inCorrectionBand (angleAt ps i)) [2..<length ps]"
    by (rule filter_cong) (simp_all add: angleAt_append)
  then show "correctionPasses (ps @ [p]) =
           correctionPasses ps @
           (if inCorrectionBand (angleAt (ps @ [p]) (length ps)) then [length ps] else [])"
    unfolding correctionPasses_def u by simp
qed

lemma turns_short: "length ps < 3 \<Longrightarrow> turns ps cs = cs"
  by (induction ps cs rule: turns.induct) simp_all

lemma turns_counts:
  "turns pts (s, c) = (s + length (smoothPasses pts), c + length (correctionPasses pts))"
proof (induction pts rule: rev_induct)
  case Nil
  then show ?case by (simp add: smoothPasses_def correctionPasses_def)
next
  case (snoc p ps)
  show ?case
  proof (cases "2 \<le> length ps")
    case True
    have "length ps - 2 < length ps" "length ps - 1 < length ps" using True by simp_all
    then have a: "angleAt (ps @ [p]) (length ps) = turnAngle (ps ! (length ps - 2)) (ps ! (length ps - 1)) p"
      unfolding angleAt_def by (simp add: nth_append)
    show ?thesis
      by (simp add: turns_snoc [OF True] snoc.IH turn_bands passes_snoc [OF True] a)
  next
    case False
    then have "length (ps @ [p]) < 3" by simp
    then have "turns (ps @ [p]) (s, c) = (s, c)" by (rule turns_short)
    moreover have "[2..<length (ps @ [p])] = []" using False by simp
    ultimately show ?thesis
      by (simp add: smoothPasses_def correctionPasses_def)
  qed
qed

lemma ratios_count:
  assumes "sample tr = Some pts" "length pts \<ge> 3"
  shows "smoothRatio (analyzeTrajectoryWith f (Some tr)) =
           Some (round2 (real (length (smoothPasses pts)) / real (length pts - 2)))"
    and "correctionRatio (analyzeTrajectoryWith f (Some tr)) =
           Some (round2 (real (length (correctionPasses pts)) / real (length pts - 2)))"
  using assms turns_counts [of pts 0 0]
  by (simp_all add: analyzeTrajectoryWith_def Let_def)

lemma overlap_pass:
  assumes "2 \<le> i" "i < length pts" "angleAt pts i = Some a" "0.09 < a" "a < 0.1"
  shows "turns (take (Suc i) pts) cs = (fst (turns (take i pts) cs) + 1, snd (turns (take i pts) cs) + 1)"
    and "i \<in> set (smoothPasses pts)" and "i \<in> set (correctionPasses pts)"
proof -
  have "turnAngle (pts ! (i - 2)) (pts ! (i - 1)) (pts ! i) = Some a"
    using assms(3) by (simp add: angleAt_def)
  then show "turns (take (Suc i) pts) cs = (fst (turns (take i pts) cs) + 1, snd (turns (take i pts) cs) + 1)"
    using assms(4,5) by (simp add: turns_pass [OF assms(1,2)] turn_def)
  show "i \<in> set (smoothPasses pts)" "i \<in> set (correctionPasses pts)"
    using assms by (simp_all add: smoothPasses_def correctionPasses_def inSmoothBand_def
        inCorrectionBand_def)
qed

lemma lateTurn_angles:
  "angleAt lateTurn 2 = Some 0" "angleAt lateTurn 3 = Some (arccos (10 / sqrt 101))"
proof -
  have "turnAngle (pointAt 0 0) (pointAt 10 0) (pointAt 20 0) = Some 0"
    by (rule collinear_turnAngle [where k = 1]) (simp_all add: pointAt_def)
  then show "angleAt lateTurn 2 = Some 0"
    by (simp add: angleAt_def lateTurn_def)
  have r: "sqrt 100 = 10" using real_sqrt_abs [of 10] by simp
  have c: "(10::real) / sqrt 101 \<le> 1" using ten_le_sqrt_101 by simp
  have "0 \<le> (10::real) / sqrt 101" by simp
  then have d: "\<not> (10::real) / sqrt 101 \<le> - 1" by linarith
  have "turnAngle (pointAt 10 0) (pointAt 20 0) (pointAt 30 1) = Some (arccos (10 / sqrt 101))"
    using c d by (simp add: turnAngle_def pointAt_def Let_def max_def min_def r)
  then show "angleAt lateTurn 3 = Some (arccos (10 / sqrt 101))"
    by (simp add: angleAt_def lateTurn_def)
qed

lemma lateTurn_passes: "smoothPasses lateTurn = [2, 3]" "correctionPasses lateTurn = [3]"
proof -
  have u: "[2..<length lateTurn] = [2, 3]"
    by (simp add: lateTurn_def upt_rec)
  show "smoothPasses lateTurn = [2, 3]" "correctionPasses lateTurn = [3]"
    using borderline_arccos
    by (simp_all add: smoothPasses_def correctionPasses_def u lateTurn_angles inSmoothBand_def
        inCorrectionBand_def)
qed

text \<open>
  C7. In the smoothness loop of \<open>analyzeTrajectory\<close>, the pass at every index \<open>i\<close>
  whose turn angle lies strictly between 0.09 and 0.1 rad increments both the
  smooth-segment counter and the correction counter: the counters after the pass are the
  counters before it plus one each, and \<open>i\<close> is among the passes counted as smooth and
  among those counted as corrections. At the end of the loop the two counters are the
  numbers of passes in each band, and \<open>smoothRatio\<close> and \<open>correctionRatio\<close> are these
  numbers over \<open>n - 2\<close>, rounded to hundredths. A sample of exactly three points on one
  line, the second step in the direction of the first, has \<open>smoothRatio = 1\<close> and
  \<open>correctionRatio = 0\<close>.
\<close>

theorem trajectory_angle_bands:
  "(2 \<le> i \<and> i < length pts \<and> angleAt pts i = Some a \<and> 0.09 < a \<and> a < 0.1 \<longrightarrow>
      turns (take (Suc i) pts) (s, c) =
        (fst (turns (take i pts) (s, c)) + 1, snd (turns (take i pts) (s, c)) + 1) \<and>
      i \<in> set (smoothPasses pts) \<and> i \<in> set (correctionPasses pts)) \<and>
   turns pts (s, c) = (s + length (smoothPasses pts), c + length (correctionPasses pts)) \<and>
   (sample tr = Some pts \<and> length pts \<ge> 3 \<longrightarrow>
      smoothRatio (analyzeTrajectory (Some tr)) =
        Some (round2 (real (length (smoothPasses pts)) / real (length pts - 2))) \<and>
      correctionRatio (analyzeTrajectory (Some tr)) =
        Some (round2 (real (length (correctionPasses pts)) / real (length pts - 2)))) \<and>
   (turnAngle p0 p1 p2 = Some a \<and> 0.09 < a \<and> a < 0.1 \<longrightarrow>
      turn p0 p1 p2 (s, c) = (s + 1, c + 1)) \<and>
   (sample line = Some [q0, q1, q2] \<and> (px q1 \<noteq> px q0 \<or> py q1 \<noteq> py q0) \<and> k > 0 \<and>
    px q2 - px q1 = k * (px q1 - px q0) \<and> py q2 - py q1 = k * (py q1 - py q0) \<longrightarrow>
      smoothRatio (analyzeTrajectory (Some line)) = Some 1 \<and>
      correctionRatio (analyzeTrajectory (Some line)) = Some 0)"
proof (intro conjI impI)
  assume h: "2 \<le> i \<and> i < length pts \<and> angleAt pts i = Some a \<and> 0.09 < a \<and> a < 0.1"
  then have i: "2 \<le> i" "i < length pts" "angleAt pts i = Some a" "0.09 < a" "a < 0.1"
    by simp_all
  show "turns (take (Suc i) pts) (s, c) =
        (fst (turns (take i pts) (s, c)) + 1, snd (turns (take i pts) (s, c)) + 1)"
    "i \<in> set (smoothPasses pts)" "i \<in> set (correctionPasses pts)"
    by (rule overlap_pass [OF i])+
next
  show "turns pts (s, c) = (s + length (smoothPasses pts), c + length (correctionPasses pts))"
    by (rule turns_counts)
next
  assume "sample tr = Some pts \<and> length pts \<ge> 3"
  then have t: "sample tr = Some pts" "length pts \<ge> 3" by simp_all
  show "smoothRatio (analyzeTrajectory (Some tr)) =
        Some (round2 (real (length (smoothPasses pts)) / real (length pts - 2)))"
    "correctionRatio (analyzeTrajectory (Some tr)) =
        Some (round2 (real (length (correctionPasses pts)) / real (length pts - 2)))"
    unfolding analyzeTrajectory_def by (rule ratios_count [OF t])+
next
  assume "turnAngle p0 p1 p2 = Some a \<and> 0.09 < a \<and> a < 0.1"
  then show "turn p0 p1 p2 (s, c) = (s + 1, c + 1)"
    by (simp add: turn_overlap)
next
  assume "sample line = Some [q0, q1, q2] \<and> (px q1 \<noteq> px q0 \<or> py q1 \<noteq> py q0) \<and> k > 0 \<and>
    px q2 - px q1 = k * (px q1 - px q0) \<and> py q2 - py q1 = k * (py q1 - py q0)"
  then have l: "sample line = Some [q0, q1, q2]" "px q1 \<noteq> px q0 \<or> py q1 \<noteq> py q0" "k > 0"
    "px q2 - px q1 = k * (px q1 - px q0)" "py q2 - py q1 = k * (py q1 - py q0)"
    by simp_all
  show "smoothRatio (analyzeTrajectory (Some line)) = Some 1"
    "correctionRatio (analyzeTrajectory (Some line)) = Some 0"
    unfolding analyzeTrajectory_def by (rule three_collinear [OF l])+
qed

theorem trajectory_angle_bands_witness:
  "angleAt lateTurn 2 = Some 0 \<and>
   angleAt lateTurn 3 = Some (arccos (10 / sqrt 101)) \<and>
   0.09 < arccos (10 / sqrt 101) \<and> arccos (10 / sqrt 101) < 0.1 \<and>
   turns (take 3 lateTurn) (0, 0) = (1, 0) \<and>
   turns (take 4 lateTurn) (0, 0) = (2, 1) \<and>
   smoothPasses lateTurn = [2, 3] \<and> correctionPasses lateTurn = [3] \<and>
   turns lateTurn (0, 0) = (2, 1) \<and>
   smoothRatio (analyzeTrajectory (Some (sampleOnly lateTurn))) = Some 1 \<and>
   correctionRatio (analyzeTrajectory (Some (sampleOnly lateTurn))) = Some (1 / 2) \<and>
   turn (pointAt 0 0) (pointAt 10 0) (pointAt 20 1) (0, 0) = (1, 1) \<and>
   sample (sampleOnly straightLine) = Some [pointAt 0 0, pointAt 10 0, pointAt 30 0] \<and>
   smoothRatio (analyzeTrajectory (Some (sampleOnly straightLine))) = Some 1 \<and>
   correctionRatio (analyzeTrajectory (Some (sampleOnly straightLine))) = Some 0"
proof -
  have t3: "turns (take 3 lateTurn) (0, 0) = (1, 0)"
    using lateTurn_angles(1) by (simp add: lateTurn_def angleAt_def turn_def)
  have t4: "turns (take 4 lateTurn) (0, 0) = (2, 1)"
    using trajectory_angle_bands [where i = 3 and pts = lateTurn and s = 0 and c = 0
        and a = "arccos (10 / sqrt 101)", THEN conjunct1]
      lateTurn_angles borderline_arccos t3
    by (simp add: lateTurn_def eval_nat_numeral)
  have tc: "turns lateTurn (0, 0) = (2, 1)"
    using trajectory_angle_bands [where pts = lateTurn and s = 0 and c = 0,
        THEN conjunct2, THEN conjunct1]
    by (simp add: lateTurn_passes)
  have sm: "sample (sampleOnly lateTurn) = Some lateTurn" by (simp add: sampleOnly_def)
  have len: "length lateTurn = 4" by (simp add: lateTurn_def)
  have r: "smoothRatio (analyzeTrajectory (Some (sampleOnly lateTurn))) = Some 1 \<and>
           correctionRatio (analyzeTrajectory (Some (sampleOnly lateTurn))) = Some (1 / 2)"
    using trajectory_angle_bands [where pts = lateTurn and tr = "sampleOnly lateTurn",
        THEN conjunct2, THEN conjunct2, THEN conjunct1]
    by (simp add: sm len lateTurn_passes round2_def Math_round_def)
  have t: "turn (pointAt 0 0) (pointAt 10 0) (pointAt 20 1) (0, 0) = (1, 1)"
    using trajectory_angle_bands [where ?p0.0 = "pointAt 0 0" and ?p1.0 = "pointAt 10 0"
        and ?p2.0 = "pointAt 20 1" and a = "arccos (10 / sqrt 101)" and s = 0 and c = 0,
        THEN conjunct2, THEN conjunct2, THEN conjunct2, THEN conjunct1]
      borderline_turnAngle borderline_arccos
    by simp
  have l: "smoothRatio (analyzeTrajectory (Some (sampleOnly straightLine))) = Some 1 \<and>
           correctionRatio (analyzeTrajectory (Some (sampleOnly straightLine))) = Some 0"
    using trajectory_angle_bands [where line = "sampleOnly straightLine"
        and ?q0.0 = "pointAt 0 0" and ?q1.0 = "pointAt 10 0" and ?q2.0 = "pointAt 30 0" and k = 2,
        THEN conjunct2, THEN conjunct2, THEN conjunct2, THEN conjunct2]
    by (simp add: sampleOnly_def straightLine_def pointAt_def)
  show ?thesis
    using t3 t4 tc r t l lateTurn_angles lateTurn_passes borderline_arccos
    by (simp add: sampleOnly_def straightLine_def)
qed

subsection \<open>C10: the seek distribution runs from five intervals on\<close>

lemma Math_round_sqrt:
  assumes "(real_of_int k - 1 / 2)\<^sup>2 \<le> q" "q < (real_of_int k + 1 / 2)\<^sup>2" "1 \<le> k"
  shows "Math_round (sqrt q) = k"
proof -
  have "real_of_int k - 1 / 2 \<le> sqrt q"
    using assms(1) by (rule real_le_rsqrt)
  moreover have "sqrt q < real_of_int k + 1 / 2"
    using assms(2,3) by (intro real_less_lsqrt) simp_all
  ultimately show ?thesis
    unfolding Math_round_def by (intro floor_unique) simp_all
qed

lemma sqrt_125_round: "Math_round (sqrt 125) = 11"
  by (rule Math_round_sqrt) (simp_all add: power2_eq_square)

lemma parse_four: "parsePattern (Some ''v|100,50|110,50|120,50|130,50'') = Some fourIntervalsPattern"
  by (simp add: parse_defs Let_def calcStats_def reduce_def Math_round_def [of "115"] 
        Math_round_def [of 50] Math_round_def [of 0] sqrt_125_round
        fourIntervalsPattern_def)


lemma no_user_seek_label:
  "\<forall>r \<in> set (labelled ''[Username] '' fs). \<not> startsWith ''[Username SeekTime] '' r"
  "\<forall>r \<in> set (labelled ''[Password] '' fs). \<not> startsWith ''[Username SeekTime] '' r"
  "\<forall>r \<in> set (labelled ''[Password SeekTime] '' fs). \<not> startsWith ''[Username SeekTime] '' r"
  "\<forall>r \<in> set (labelled ''[Automation] '' fs). \<not> startsWith ''[Username SeekTime] '' r"
  "\<forall>r \<in> set (labelled ''[Events] '' fs). \<not> startsWith ''[Username SeekTime] '' r"
  "\<forall>r \<in> set (botReasons (timingSignals stats)). \<not> startsWith ''[Username SeekTime] '' r"
  "\<forall>r \<in> set (botReasons (trajectorySignals P stats)). \<not> startsWith ''[Username SeekTime] '' r"
  "\<forall>r \<in> set (botReasons (pasteSignals stats)). \<not> startsWith ''[Username SeekTime] '' r"
  "\<forall>r \<in> set (labelled [] (flags_pm (detectPasswordMismatch stats))).
     \<not> startsWith ''[Username SeekTime] '' r"
  by (simp_all add: labelled_def startsWith_def timingSignals_def trajectorySignals_def
        pasteSignals_def detectPasswordMismatch_def botFlag_def Let_def split: option.splits)

lemma no_pass_seek_label:
  "\<forall>r \<in> set (labelled ''[Username] '' fs). \<not> startsWith ''[Password SeekTime] '' r"
  "\<forall>r \<in> set (labelled ''[Username SeekTime] '' fs). \<not> startsWith ''[Password SeekTime] '' r"
  "\<forall>r \<in> set (labelled ''[Password] '' fs). \<not> startsWith ''[Password SeekTime] '' r"
  "\<forall>r \<in> set (labelled ''[Automation] '' fs). \<not> startsWith ''[Password SeekTime] '' r"
  "\<forall>r \<in> set (labelled ''[Events] '' fs). \<not> startsWith ''[Password SeekTime] '' r"
  "\<forall>r \<in> set (botReasons (timingSignals stats)). \<not> startsWith ''[Password SeekTime] '' r"
  "\<forall>r \<in> set (botReasons (trajectorySignals P stats)). \<not> startsWith ''[Password SeekTime] '' r"
  "\<forall>r \<in> set (botReasons (pasteSignals stats)). \<not> startsWith ''[Password SeekTime] '' r"
  "\<forall>r \<in> set (labelled [] (flags_pm (detectPasswordMismatch stats))).
     \<not> startsWith ''[Password SeekTime] '' r"
  by (simp_all add: labelled_def startsWith_def timingSignals_def trajectorySignals_def
        pasteSignals_def detectPasswordMismatch_def botFlag_def Let_def split: option.splits)

lemma userStep_details:
  "userSeekDistribution (details_s (userStep P st)) =
     (case userPattern (details_s st) of
        None \<Rightarrow> userSeekDistribution (details_s st)
      | Some pat \<Rightarrow>
          if length (seekTimes (raw pat)) > 4 then Some (seekDistribution P pat)
          else userSeekDistribution (details_s st))"
  "passSeekDistribution (details_s (userStep P st)) = passSeekDistribution (details_s st)"
  by (simp_all add: userStep_def seekDistributionStep_def seekDistribution_def Let_def
        forEachBot_fields forEachHuman_fields split: option.splits)

lemma passStep_details:
  "passSeekDistribution (details_s (passStep P st)) =
     (case passPattern (details_s st) of
        None \<Rightarrow> passSeekDistribution (details_s st)
      | Some pat \<Rightarrow>
          if length (seekTimes (raw pat)) > 4 then Some (seekDistribution P pat)
          else passSeekDistribution (details_s st))"
  "userSeekDistribution (details_s (passStep P st)) = userSeekDistribution (details_s st)"
  by (simp_all add: passStep_def seekDistributionStep_def seekDistribution_def Let_def
        forEachBot_fields forEachHuman_fields split: option.splits)

lemma parseStep_details:
  "userSeekDistribution (details_s (parseStep P stats st)) = userSeekDistribution (details_s st)"
  "passSeekDistribution (details_s (parseStep P stats st)) = passSeekDistribution (details_s st)"
  by (simp_all add: parseStep_def Let_def)

lemma later_steps_details:
  "userSeekDistribution (details_s (timingStep stats st)) = userSeekDistribution (details_s st)"
  "passSeekDistribution (details_s (timingStep stats st)) = passSeekDistribution (details_s st)"
  "userSeekDistribution (details_s (trajectoryStep P stats st)) = userSeekDistribution (details_s st)"
  "passSeekDistribution (details_s (trajectoryStep P stats st)) = passSeekDistribution (details_s st)"
  "userSeekDistribution (details_s (pasteStep stats st)) = userSeekDistribution (details_s st)"
  "passSeekDistribution (details_s (pasteStep stats st)) = passSeekDistribution (details_s st)"
  "userSeekDistribution (details_s (imeStep stats st)) = userSeekDistribution (details_s st)"
  "passSeekDistribution (details_s (imeStep stats st)) = passSeekDistribution (details_s st)"
  "userSeekDistribution (details_s (shiftStep stats st)) = userSeekDistribution (details_s st)"
  "passSeekDistribution (details_s (shiftStep stats st)) = passSeekDistribution (details_s st)"
  "userSeekDistribution (details_s (passwordStep stats st)) = userSeekDistribution (details_s st)"
  "passSeekDistribution (details_s (passwordStep stats st)) = passSeekDistribution (details_s st)"
  "userSeekDistribution (details_s (webdriverStep stats st)) = userSeekDistribution (details_s st)"
  "passSeekDistribution (details_s (webdriverStep stats st)) = passSeekDistribution (details_s st)"
  "userSeekDistribution (details_s (syntheticStep stats st)) = userSeekDistribution (details_s st)"
  "passSeekDistribution (details_s (syntheticStep stats st)) = passSeekDistribution (details_s st)"
  by (simp_all add: timingStep_def trajectoryStep_def pasteStep_def imeStep_def shiftStep_def
        passwordStep_def webdriverStep_def syntheticStep_def pushBot_def forEachBot_fields Let_def
        split: option.splits)

lemma runDetectors_seekDistributions:
  "userSeekDistribution (details_s (runDetectors P stats)) =
     (case do_parsePattern P (userTp stats) of
        None \<Rightarrow> None
      | Some pat \<Rightarrow> if length (seekTimes (raw pat)) > 4 then Some (seekDistribution P pat) else None)"
  "passSeekDistribution (details_s (runDetectors P stats)) =
     (case do_parsePattern P (passTp stats) of
        None \<Rightarrow> None
      | Some pat \<Rightarrow> if length (seekTimes (raw pat)) > 4 then Some (seekDistribution P pat) else None)"
  by (simp_all add: runDetectors_def later_steps_details passStep_details userStep_details
        parseStep_details parseStep_patterns userStep_passPattern initial_def emptyDetails_def
        split: option.splits)

lemma analyzeDistribution_valid_four: "length vs = 4 \<Longrightarrow> valid_d (analyzeDistribution vs)"
  by (simp add: analyzeDistribution_def valid_d_def Let_def)

lemma steps_without_analyzer:
  "parseStep (P\<lparr>do_analyzeDistribution := g\<rparr>) stats st = parseStep P stats st"
  "trajectoryStep (P\<lparr>do_analyzeDistribution := g\<rparr>) stats st = trajectoryStep P stats st"
  by (simp_all add: parseStep_def trajectoryStep_def Let_def split: option.splits)

lemma field_steps_without_analyzer:
  "(\<forall>pat. userPattern (details_s st) = Some pat \<longrightarrow> length (seekTimes (raw pat)) \<le> 4) \<Longrightarrow>
     userStep (P\<lparr>do_analyzeDistribution := g\<rparr>) st = userStep P st"
  "(\<forall>pat. passPattern (details_s st) = Some pat \<longrightarrow> length (seekTimes (raw pat)) \<le> 4) \<Longrightarrow>
     passStep (P\<lparr>do_analyzeDistribution := g\<rparr>) st = passStep P st"
  by (auto simp: userStep_def passStep_def seekDistributionStep_def Let_def split: option.splits)

lemma runDetectors_without_analyzer:
  assumes u: "\<forall>pat. do_parsePattern P (userTp stats) = Some pat \<longrightarrow> length (seekTimes (raw pat)) \<le> 4"
    and p: "\<forall>pat. do_parsePattern P (passTp stats) = Some pat \<longrightarrow> length (seekTimes (raw pat)) \<le> 4"
  shows "runDetectors (P\<lparr>do_analyzeDistribution := g\<rparr>) stats = runDetectors P stats"
proof -
  let ?s1 = "parseStep P stats initial"
  have 1: "userStep (P\<lparr>do_analyzeDistribution := g\<rparr>) ?s1 = userStep P ?s1"
    using u by (intro field_steps_without_analyzer) (simp add: parseStep_patterns)
  have 2: "passStep (P\<lparr>do_analyzeDistribution := g\<rparr>) (userStep P ?s1) = passStep P (userStep P ?s1)"
    using p by (intro field_steps_without_analyzer) (simp add: parseStep_patterns userStep_passPattern)
  show ?thesis
    by (simp add: runDetectors_def steps_without_analyzer 1 2)
qed

lemma reasons_no_user_seek_label:
  assumes "\<forall>pat. do_parsePattern P (userTp stats) = Some pat \<longrightarrow> length (seekTimes (raw pat)) \<le> 4"
  shows "\<forall>r \<in> set (botReasons (triggered P stats)). \<not> startsWith ''[Username SeekTime] '' r"
proof -
  have "\<forall>r \<in> set (fieldReasons P ''[Username] '' ''[Username SeekTime] '' (do_parsePattern P (userTp stats))).
          \<not> startsWith ''[Username SeekTime] '' r"
  proof (cases "do_parsePattern P (userTp stats)")
    case None
    then show ?thesis by (simp add: fieldReasons_def)
  next
    case (Some pat)
    with assms have "length (seekTimes (raw pat)) \<le> 4" by simp
    with Some show ?thesis by (simp add: fieldReasons_def no_user_seek_label)
  qed
  moreover have "\<forall>r \<in> set (fieldReasons P ''[Password] '' ''[Password SeekTime] '' (do_parsePattern P (passTp stats))).
          \<not> startsWith ''[Username SeekTime] '' r"
    using no_user_seek_label(2,3) by (cases "do_parsePattern P (passTp stats)")
       (auto simp: fieldReasons_def)
  ultimately show ?thesis
    by (simp add: botReasons_triggered ball_Un no_user_seek_label)
qed

lemma reasons_no_pass_seek_label:
  assumes "\<forall>pat. do_parsePattern P (passTp stats) = Some pat \<longrightarrow> length (seekTimes (raw pat)) \<le> 4"
  shows "\<forall>r \<in> set (botReasons (triggered P stats)). \<not> startsWith ''[Password SeekTime] '' r"
proof -
  have "\<forall>r \<in> set (fieldReasons P ''[Password] '' ''[Password SeekTime] '' (do_parsePattern P (passTp stats))).
          \<not> startsWith ''[Password SeekTime] '' r"
  proof (cases "do_parsePattern P (passTp stats)")
    case None
    then show ?thesis by (simp add: fieldReasons_def)
  next
    case (Some pat)
    with assms have "length (seekTimes (raw pat)) \<le> 4" by simp
    with Some show ?thesis by (simp add: fieldReasons_def no_pass_seek_label)
  qed
  moreover have "\<forall>r \<in> set (fieldReasons P ''[Username] '' ''[Username SeekTime] '' (do_parsePattern P (userTp stats))).
          \<not> startsWith ''[Password SeekTime] '' r"
    using no_pass_seek_label(1,2) by (cases "do_parsePattern P (userTp stats)")
       (auto simp: fieldReasons_def)
  ultimately show ?thesis
    by (simp add: botReasons_triggered ball_Un no_pass_seek_label)
qed

lemma four_dist:
  "valid_d (analyzeDistribution (map (\<lambda>t. Some (real_of_int t)) [100, 110, 120, 130])) \<and>
   field_d roundNumberRatio (analyzeDistribution (map (\<lambda>t. Some (real_of_int t)) [100, 110, 120, 130])) = Some 1"
  by (simp add: analyzeDistribution_def valid_d_def field_d_def Let_def reduce_def nadd_def ndiv_def
        nsub_def npow_def nsqrt_def isMultipleOf10_def nround2_def Math_round_def
        fl_numeral fl_neg_numeral)

lemma four_user: "do_parsePattern TypingParser (userTp fourIntervals) = Some fourIntervalsPattern"
  "do_parsePattern TypingParser (passTp fourIntervals) = None"
  by (simp_all add: TypingParser_def userTp_def passTp_def fourIntervals_def noStats_def parse_four
        parsePattern_def [of None])

lemma four_field: "analyzeFieldTyping (Some fourIntervalsPattern) =
   \<lparr>valid_f = True,
    botFlags = [\<lparr>weight = 2, reason = ''Key interval too uniform (std=11ms)''\<rparr>,
                \<lparr>weight = 2, reason = ''Key press too uniform (std=0ms)''\<rparr>],
    humanFlags = [\<lparr>weight = 1, reason = ''Normal key interval (115ms)''\<rparr>,
                  \<lparr>weight = 1, reason = ''Normal key press (50ms)''\<rparr>]\<rparr>"
  by (simp add: fourIntervalsPattern_def analyzeFieldTyping_def threshold_defs show_int_def digitChar_def)

lemma four_eval:
  "reasons (analyze fourIntervals (Some TypingParser) None) =
     [''[Username] Key interval too uniform (std=11ms)'', ''[Username] Key press too uniform (std=0ms)''] \<and>
   scores_r (analyze fourIntervals (Some TypingParser) None) = Some \<lparr>bot_s = 4, human_s = 2\<rparr> \<and>
   map_option userSeekDistribution (details_r (analyze fourIntervals (Some TypingParser) None)) = Some None"
proof -
  have s: "seekTimes (raw fourIntervalsPattern) = [100, 110, 120, 130]"
    by (simp add: fourIntervalsPattern_def)
  have n: "do_parsePattern TypingParser None = None" by (rule parse_None)
  have u: "do_parsePattern TypingParser (Some ''v|100,50|110,50|120,50|130,50'') = Some fourIntervalsPattern"
    by (simp add: TypingParser_def parse_four)
  show ?thesis
    by (simp add: step_defs detector_defs fourIntervals_def noStats_def n u four_field s Let_def)
qed

text \<open>
  C10. The result details have a seek-distribution entry for a field exactly when that
  field decodes to a pattern with more than 4 positive seek intervals. For a field with
  at most 4 of them (so with exactly 4, a length \<open>analyzeDistribution\<close> itself accepts
  as valid) no returned reason carries the field's seek-distribution label, so none of the
  four distribution detectors fired for it; and when this holds of both fields the whole
  result does not depend on the distribution analyzer.
\<close>

theorem seek_distribution_needs_five:
  assumes "resolveParser parserArg ambient = Some P"
  shows
    "(\<exists>d. details_r (analyze stats parserArg ambient) = Some d \<and>
          (userSeekDistribution d \<noteq> None \<longleftrightarrow>
             (\<exists>pat. do_parsePattern P (userTp stats) = Some pat \<and> length (seekTimes (raw pat)) > 4)) \<and>
          (passSeekDistribution d \<noteq> None \<longleftrightarrow>
             (\<exists>pat. do_parsePattern P (passTp stats) = Some pat \<and> length (seekTimes (raw pat)) > 4))) \<and>
     ((\<forall>pat. do_parsePattern P (userTp stats) = Some pat \<longrightarrow> length (seekTimes (raw pat)) \<le> 4) \<longrightarrow>
        (\<forall>r \<in> set (reasons (analyze stats parserArg ambient)). \<not> startsWith ''[Username SeekTime] '' r)) \<and>
     ((\<forall>pat. do_parsePattern P (passTp stats) = Some pat \<longrightarrow> length (seekTimes (raw pat)) \<le> 4) \<longrightarrow>
        (\<forall>r \<in> set (reasons (analyze stats parserArg ambient)). \<not> startsWith ''[Password SeekTime] '' r)) \<and>
     ((\<forall>pat. do_parsePattern P (userTp stats) = Some pat \<longrightarrow> length (seekTimes (raw pat)) \<le> 4) \<and>
      (\<forall>pat. do_parsePattern P (passTp stats) = Some pat \<longrightarrow> length (seekTimes (raw pat)) \<le> 4) \<longrightarrow>
        analyze stats (Some (P\<lparr>do_analyzeDistribution := g\<rparr>)) None = analyze stats parserArg ambient) \<and>
     (length vs = 4 \<longrightarrow> valid_d (analyzeDistribution vs))"
proof -
  have a: "analyze stats parserArg ambient = finish (runDetectors P stats)"
    using assms by (rule analyze_Some)
  have r: "reasons (analyze stats parserArg ambient) = botReasons (triggered P stats)"
    by (simp add: a finish_def Let_def runDetectors_scores)
  have d: "details_r (analyze stats parserArg ambient) = Some (details_s (runDetectors P stats))"
    by (simp add: a finish_def Let_def)
  have u: "userSeekDistribution (details_s (runDetectors P stats)) \<noteq> None \<longleftrightarrow>
             (\<exists>pat. do_parsePattern P (userTp stats) = Some pat \<and> length (seekTimes (raw pat)) > 4)"
    by (simp add: runDetectors_seekDistributions split: option.splits)
  have p: "passSeekDistribution (details_s (runDetectors P stats)) \<noteq> None \<longleftrightarrow>
             (\<exists>pat. do_parsePattern P (passTp stats) = Some pat \<and> length (seekTimes (raw pat)) > 4)"
    by (simp add: runDetectors_seekDistributions split: option.splits)
  have g: "(\<forall>pat. do_parsePattern P (userTp stats) = Some pat \<longrightarrow> length (seekTimes (raw pat)) \<le> 4) \<and>
      (\<forall>pat. do_parsePattern P (passTp stats) = Some pat \<longrightarrow> length (seekTimes (raw pat)) \<le> 4) \<longrightarrow>
        analyze stats (Some (P\<lparr>do_analyzeDistribution := g\<rparr>)) None = analyze stats parserArg ambient"
  proof -
    have a2: "analyze stats (Some (P\<lparr>do_analyzeDistribution := g\<rparr>)) None =
                finish (runDetectors (P\<lparr>do_analyzeDistribution := g\<rparr>) stats)"
      by (simp add: analyze_def resolveParser_def)
    show ?thesis
      unfolding a a2 using runDetectors_without_analyzer [of P stats g] by simp
  qed
  show ?thesis
    using reasons_no_user_seek_label [of P stats] reasons_no_pass_seek_label [of P stats]
      analyzeDistribution_valid_four [of vs] g
    by (simp only: r d u p option.inject simp_thms ex_simps) blast
qed

theorem seek_distribution_needs_five_witness:
  "resolveParser (Some TypingParser) None = Some TypingParser \<and>
   do_parsePattern TypingParser (userTp fourIntervals) = Some fourIntervalsPattern \<and>
   length (seekTimes (raw fourIntervalsPattern)) = 4 \<and>
   do_parsePattern TypingParser (passTp fourIntervals) = None \<and>
   map_option userSeekDistribution (details_r (analyze fourIntervals (Some TypingParser) None)) = Some None \<and>
   map_option passSeekDistribution (details_r (analyze fourIntervals (Some TypingParser) None)) = Some None \<and>
   list_all (\<lambda>r. \<not> startsWith ''[Username SeekTime] '' r)
     (reasons (analyze fourIntervals (Some TypingParser) None)) \<and>
   reasons (analyze fourIntervals (Some TypingParser) None) =
     [''[Username] Key interval too uniform (std=11ms)'', ''[Username] Key press too uniform (std=0ms)''] \<and>
   scores_r (analyze fourIntervals (Some TypingParser) None) = Some \<lparr>bot_s = 4, human_s = 2\<rparr> \<and>
   analyze fourIntervals (Some (TypingParser\<lparr>do_analyzeDistribution := (\<lambda>vs. Invalid)\<rparr>)) None =
     analyze fourIntervals (Some TypingParser) None \<and>
   valid_d (analyzeDistribution (map (\<lambda>t. Some (real_of_int t)) (seekTimes (raw fourIntervalsPattern)))) \<and>
   field_d roundNumberRatio
     (analyzeDistribution (map (\<lambda>t. Some (real_of_int t)) (seekTimes (raw fourIntervalsPattern)))) = Some 1"
proof -
  have r: "resolveParser (Some TypingParser) None = Some TypingParser"
    by (simp add: resolveParser_def)
  have s: "seekTimes (raw fourIntervalsPattern) = [100, 110, 120, 130]"
    by (simp add: fourIntervalsPattern_def)
  note t = seek_distribution_needs_five [OF r, of fourIntervals "\<lambda>vs. Invalid"
      "map (\<lambda>t. Some (real_of_int t)) [100, 110, 120, 130]"]
  have d: "map_option userSeekDistribution (details_r (analyze fourIntervals (Some TypingParser) None)) = Some None"
     "map_option passSeekDistribution (details_r (analyze fourIntervals (Some TypingParser) None)) = Some None"
    using t by (auto simp: four_user s)
  have l: "list_all (\<lambda>r. \<not> startsWith ''[Username SeekTime] '' r)
     (reasons (analyze fourIntervals (Some TypingParser) None))"
    using t by (simp add: four_user s list_all_iff)
  have i: "analyze fourIntervals (Some (TypingParser\<lparr>do_analyzeDistribution := (\<lambda>vs. Invalid)\<rparr>)) None =
     analyze fourIntervals (Some TypingParser) None"
    using t by (simp add: four_user s)
  show ?thesis
    using r d l i four_eval four_dist by (simp add: four_user s)
qed

end
